theory Spec2Isabelle
  imports Main "HOL-Library.Sublist"
begin

section \<open>Python strings\<close>

text \<open>
  Strings are lists of bytes. The source's \<^verbatim>\<open>str\<close> methods are modelled on ASCII text:
  \<^verbatim>\<open>lower\<close>, \<^verbatim>\<open>capitalize\<close>, \<^verbatim>\<open>split\<close>, \<^verbatim>\<open>strip\<close>, \<^verbatim>\<open>in\<close>, \<^verbatim>\<open>startswith\<close>,
  \<^verbatim>\<open>endswith\<close>. Bytes outside ASCII are left alone by the case conversions and are
  neither digits, letters nor white space.
\<close>

definition upper_letters :: string where
  "upper_letters = ''ABCDEFGHIJKLMNOPQRSTUVWXYZ''"

definition lower_letters :: string where
  "lower_letters = ''abcdefghijklmnopqrstuvwxyz''"

definition digit_chars :: string where
  "digit_chars = ''0123456789''"

definition lower_char :: "char \<Rightarrow> char" where
  "lower_char c = (case map_of (zip upper_letters lower_letters) c of Some d \<Rightarrow> d | None \<Rightarrow> c)"

definition upper_char :: "char \<Rightarrow> char" where
  "upper_char c = (case map_of (zip lower_letters upper_letters) c of Some d \<Rightarrow> d | None \<Rightarrow> c)"

definition lower :: "string \<Rightarrow> string" where
  "lower s = map lower_char s"

definition capitalize :: "string \<Rightarrow> string" where
  "capitalize s = (case s of [] \<Rightarrow> [] | c # cs \<Rightarrow> upper_char c # map lower_char cs)"

definition is_digit :: "char \<Rightarrow> bool" where
  "is_digit c = (c \<in> set digit_chars)"

text \<open>The ASCII characters for which \<^verbatim>\<open>str.isspace\<close> holds: tab, line feed, vertical tab,
  form feed, carriage return, the four separators 0x1c to 0x1f, and the space.\<close>

definition is_space :: "char \<Rightarrow> bool" where
  "is_space c = (c \<in> set [CHR 0x09, CHR 0x0A, CHR 0x0B, CHR 0x0C, CHR 0x0D,
                            CHR 0x1C, CHR 0x1D, CHR 0x1E, CHR 0x1F, CHR 0x20])"

definition is_word :: "char \<Rightarrow> bool" where
  "is_word c = (c \<in> set lower_letters \<or> c \<in> set upper_letters \<or> c \<in> set digit_chars \<or> c = CHR ''_'')"

text \<open>\<^verbatim>\<open>sub in s\<close>\<close>

fun contains :: "string \<Rightarrow> string \<Rightarrow> bool" where
  "contains sub [] = (sub = [])"
| "contains sub (c # cs) = (prefix sub (c # cs) \<or> contains sub cs)"

text \<open>\<^verbatim>\<open>s.split()\<close>: the maximal runs of characters that are not white space.\<close>

fun split_acc :: "string \<Rightarrow> string \<Rightarrow> string list" where
  "split_acc cur [] = (if cur = [] then [] else [rev cur])"
| "split_acc cur (c # cs) =
     (if is_space c then (if cur = [] then split_acc [] cs else rev cur # split_acc [] cs)
      else split_acc (c # cur) cs)"

definition split :: "string \<Rightarrow> string list" where
  "split s = split_acc [] s"

definition strip :: "string \<Rightarrow> string" where
  "strip s = rev (dropWhile is_space (rev (dropWhile is_space s)))"

definition startswith :: "string \<Rightarrow> string \<Rightarrow> bool" where
  "startswith s p = prefix p s"

definition endswith :: "string \<Rightarrow> string \<Rightarrow> bool" where
  "endswith s p = suffix p s"

datatype py_error =
    ValueError | TypeError | AttributeError | KeyError | OverflowError | JSONDecodeError | OtherError

text \<open>\<^verbatim>\<open>int(s)\<close> on a string of decimal digits. The source applies it to digit groups of a
  regular expression only; the model reports \<^verbatim>\<open>ValueError\<close> on anything else.\<close>

definition digit_val :: "char \<Rightarrow> nat" where
  "digit_val c = (case map_of (zip digit_chars [0, 1, 2, 3, 4, 5, 6, 7, 8, 9]) c of Some d \<Rightarrow> d | None \<Rightarrow> 0)"

definition py_int :: "string \<Rightarrow> py_error + nat" where
  "py_int s = (if s \<noteq> [] \<and> list_all is_digit s
               then Inr (foldl (\<lambda>n c. 10 * n + digit_val c) 0 s) else Inl ValueError)"

text \<open>\<^verbatim>\<open>str(n)\<close> and the format \<^verbatim>\<open>{n:02d}\<close> for a natural number.\<close>

fun dec :: "nat \<Rightarrow> string" where
  "dec n = (if n < 10 then [digit_chars ! n] else dec (n div 10) @ [digit_chars ! (n mod 10)])"

declare dec.simps [simp del]

definition pad2 :: "nat \<Rightarrow> string" where
  "pad2 n = (if n < 10 then CHR ''0'' # dec n else dec n)"

section \<open>Regular expressions of Python's \<^verbatim>\<open>re\<close>\<close>

text \<open>
  A backtracking matcher: \<open>matches r st\<close> lists the states in which \<open>r\<close> can end when
  started in \<open>st\<close>, in the order in which Python's engine tries them (greedy operators try
  the longer alternative first). A state is the text before the position (reversed), the
  text after it, and the groups captured so far (the latest binding first).
\<close>

datatype cset =
    CDigit | CSpace | CWord | CDot | CDotAll
  | CIn string | CNotIn string

fun cset_mem :: "cset \<Rightarrow> char \<Rightarrow> bool" where
  "cset_mem CDigit c = is_digit c"
| "cset_mem CSpace c = is_space c"
| "cset_mem CWord c = is_word c"
| "cset_mem CDot c = (c \<noteq> CHR 0x0A)"
| "cset_mem CDotAll c = True"
| "cset_mem (CIn s) c = (c \<in> set s)"
| "cset_mem (CNotIn s) c = (c \<notin> set s)"

datatype regex =
    Eps
  | Sym cset
  | Lit string
  | Seq regex regex
  | Alt regex regex
  | Star regex
  | StarLazy regex
  | Grp nat regex
  | Bol
  | Eol
  | WordB

type_synonym mstate = "string \<times> string \<times> (nat \<times> string) list"

fun star_greedy :: "nat \<Rightarrow> (mstate \<Rightarrow> mstate list) \<Rightarrow> mstate \<Rightarrow> mstate list" where
  "star_greedy 0 f st = [st]"
| "star_greedy (Suc k) f st =
     concat (map (\<lambda>st'. if length (fst (snd st')) < length (fst (snd st))
                          then star_greedy k f st' else []) (f st)) @ [st]"

fun star_lazy :: "nat \<Rightarrow> (mstate \<Rightarrow> mstate list) \<Rightarrow> mstate \<Rightarrow> mstate list" where
  "star_lazy 0 f st = [st]"
| "star_lazy (Suc k) f st =
     st # concat (map (\<lambda>st'. if length (fst (snd st')) < length (fst (snd st))
                              then star_lazy k f st' else []) (f st))"

definition at_boundary :: "string \<Rightarrow> string \<Rightarrow> bool" where
  "at_boundary p r =
     ((case p of [] \<Rightarrow> False | x # _ \<Rightarrow> is_word x) \<noteq> (case r of [] \<Rightarrow> False | y # _ \<Rightarrow> is_word y))"

text \<open>Each iteration of a star consumes at least one character, so the length of the
  remaining text bounds the number of iterations.\<close>

fun matches :: "regex \<Rightarrow> mstate \<Rightarrow> mstate list" where
  "matches Eps st = [st]"
| "matches (Sym cs) (p, r, c) =
     (case r of [] \<Rightarrow> [] | x # xs \<Rightarrow> if cset_mem cs x then [(x # p, xs, c)] else [])"
| "matches (Lit l) (p, r, c) =
     (if prefix l r then [(rev l @ p, drop (length l) r, c)] else [])"
| "matches (Seq a b) st = concat (map (\<lambda>s. matches b s) (matches a st))"
| "matches (Alt a b) st = matches a st @ matches b st"
| "matches (Star a) (p, r, c) = star_greedy (length r) (\<lambda>s. matches a s) (p, r, c)"
| "matches (StarLazy a) (p, r, c) = star_lazy (length r) (\<lambda>s. matches a s) (p, r, c)"
| "matches (Grp n a) (p, r, c) =
     map (\<lambda>(p', r', c'). (p', r', (n, take (length r - length r') r) # c')) (matches a (p, r, c))"
| "matches Bol (p, r, c) = (if p = [] then [(p, r, c)] else [])"
| "matches Eol (p, r, c) = (if r = [] \<or> r = [CHR 0x0A] then [(p, r, c)] else [])"
| "matches WordB (p, r, c) = (if at_boundary p r then [(p, r, c)] else [])"

definition Opt :: "regex \<Rightarrow> regex" where
  "Opt r = Alt r Eps"

definition Plus :: "regex \<Rightarrow> regex" where
  "Plus r = Seq r (Star r)"

fun Seqs :: "regex list \<Rightarrow> regex" where
  "Seqs [] = Eps"
| "Seqs [r] = r"
| "Seqs (r # rs) = Seq r (Seqs rs)"

fun Alts :: "regex list \<Rightarrow> regex" where
  "Alts [] = Eps"
| "Alts [r] = r"
| "Alts (r # rs) = Alt r (Alts rs)"

text \<open>\<^verbatim>\<open>re.search\<close>: the first position, from the left, at which the expression matches,
  with the first match the engine finds there. \<^verbatim>\<open>re.match\<close> tries position 0 only.\<close>

fun search_from :: "regex \<Rightarrow> string \<Rightarrow> string \<Rightarrow> mstate option" where
  "search_from re p [] = (case matches re (p, [], []) of [] \<Rightarrow> None | m # _ \<Rightarrow> Some m)"
| "search_from re p (x # xs) =
     (case matches re (p, x # xs, []) of [] \<Rightarrow> search_from re (x # p) xs | m # _ \<Rightarrow> Some m)"

definition re_search :: "regex \<Rightarrow> string \<Rightarrow> mstate option" where
  "re_search re s = search_from re [] s"

definition re_match :: "regex \<Rightarrow> string \<Rightarrow> mstate option" where
  "re_match re s = (case matches re ([], s, []) of [] \<Rightarrow> None | m # _ \<Rightarrow> Some m)"

definition found :: "regex \<Rightarrow> string \<Rightarrow> bool" where
  "found re s = (re_search re s \<noteq> None)"

text \<open>\<^verbatim>\<open>m.group(n)\<close>, \<^verbatim>\<open>None\<close> for a group that took no part in the match.\<close>

definition group :: "mstate \<Rightarrow> nat \<Rightarrow> string option" where
  "group m n = map_of (snd (snd m)) n"

section \<open>The time extractor (entity\_extractor.py)\<close>

definition d12 :: regex where
  "d12 = Seq (Sym CDigit) (Opt (Sym CDigit))"

definition ampm :: regex where
  "ampm = Alts [Lit ''am'', Lit ''pm'', Lit ''a.m.'', Lit ''p.m.'']"

text \<open>\<^verbatim>\<open>(\d{1,2})[:.h]?(\d{2})?\s*(am|pm|a\.m\.|p\.m\.)\<close>\<close>

definition hour12_pattern :: regex where
  "hour12_pattern =
     Seqs [Grp 1 d12, Opt (Sym (CIn '':.h'')), Opt (Grp 2 (Seq (Sym CDigit) (Sym CDigit))),
           Star (Sym CSpace), Grp 3 ampm]"

text \<open>\<^verbatim>\<open>(\d{1,2})\s*(am|pm|a\.m\.|p\.m\.)\<close>\<close>

definition simple_hour_pattern :: regex where
  "simple_hour_pattern = Seqs [Grp 1 d12, Star (Sym CSpace), Grp 2 ampm]"

text \<open>The conversion to the 24-hour clock shared by both branches.\<close>

definition to24 :: "string \<Rightarrow> nat \<Rightarrow> nat" where
  "to24 period hour =
     (if startswith period ''p'' \<and> hour < 12 then hour + 12
      else if startswith period ''a'' \<and> hour = 12 then 0
      else hour)"

text \<open>\<^verbatim>\<open>int(m.group(n))\<close>: a group that did not take part is \<^verbatim>\<open>None\<close>, on which
  \<^verbatim>\<open>int\<close> raises \<^verbatim>\<open>TypeError\<close>.\<close>

definition int_group :: "mstate \<Rightarrow> nat \<Rightarrow> py_error + nat" where
  "int_group m n = (case group m n of None \<Rightarrow> Inl TypeError | Some s \<Rightarrow> py_int s)"

definition extract_time_hour12 :: "string \<Rightarrow> py_error + string option" where
  "extract_time_hour12 text_lower =
     (case re_search hour12_pattern text_lower of
        None \<Rightarrow> Inr None
      | Some m \<Rightarrow>
         (case int_group m 1 of Inl e \<Rightarrow> Inl e | Inr hour \<Rightarrow>
          (case (case group m 2 of None \<Rightarrow> Inr 0 | Some s \<Rightarrow> if s = [] then Inr 0 else py_int s) of
             Inl e \<Rightarrow> Inl e
           | Inr minute \<Rightarrow>
              (case group m 3 of
                 None \<Rightarrow> if 1 \<le> hour \<and> hour \<le> 12 \<and> minute \<le> 59 then Inl AttributeError else Inr None
               | Some period \<Rightarrow>
                  if 1 \<le> hour \<and> hour \<le> 12 \<and> minute \<le> 59
                  then Inr (Some (pad2 (to24 period hour) @ '':'' @ pad2 minute))
                  else Inr None))))"

definition extract_time_simple :: "string \<Rightarrow> py_error + string option" where
  "extract_time_simple text_lower =
     (case re_search simple_hour_pattern text_lower of
        None \<Rightarrow> Inr None
      | Some m \<Rightarrow>
         (case int_group m 1 of Inl e \<Rightarrow> Inl e | Inr hour \<Rightarrow>
          (case group m 2 of
             None \<Rightarrow> if 1 \<le> hour \<and> hour \<le> 12 then Inl AttributeError else Inr None
           | Some period \<Rightarrow>
              if 1 \<le> hour \<and> hour \<le> 12
              then Inr (Some (pad2 (to24 period hour) @ '':00''))
              else Inr None)))"

text \<open>\<^verbatim>\<open>EntityExtractor._extract_time\<close>\<close>

definition extract_time :: "string \<Rightarrow> py_error + string option" where
  "extract_time text =
     (let text_lower = lower text in
      case extract_time_hour12 text_lower of
        Inl e \<Rightarrow> Inl e
      | Inr (Some t) \<Rightarrow> Inr (Some t)
      | Inr None \<Rightarrow> extract_time_simple text_lower)"

text \<open>The groups an expression can bind.\<close>

fun grps :: "regex \<Rightarrow> nat set" where
  "grps (Seq a b) = grps a \<union> grps b"
| "grps (Alt a b) = grps a \<union> grps b"
| "grps (Star a) = grps a"
| "grps (StarLazy a) = grps a"
| "grps (Grp n a) = insert n (grps a)"
| "grps _ = {}"

text \<open>The am/pm markers of the time patterns.\<close>

definition markers :: "string list" where
  "markers = [''am'', ''pm'', ''a.m.'', ''p.m.'']"

text \<open>A clock time written as two digits, a colon and two digits.\<close>

definition hhmm :: "nat \<Rightarrow> nat \<Rightarrow> string" where
  "hhmm h m = [digit_chars ! (h div 10), digit_chars ! (h mod 10), CHR '':'',
               digit_chars ! (m div 10), digit_chars ! (m mod 10)]"

section \<open>The date extractor (entity\_extractor.py)\<close>

definition months :: "string list" where
  "months = [''january'', ''february'', ''march'', ''april'', ''may'', ''june'',
             ''july'', ''august'', ''september'', ''october'', ''november'', ''december'']"

definition month_abbr :: "string list" where
  "month_abbr = [''jan'', ''feb'', ''mar'', ''apr'', ''may'', ''jun'',
                 ''jul'', ''aug'', ''sep'', ''oct'', ''nov'', ''dec'']"

text \<open>\<^verbatim>\<open>xs.index(x)\<close>; the source applies it to members of the list only.\<close>

fun index_of :: "'a list \<Rightarrow> 'a \<Rightarrow> nat" where
  "index_of [] x = 0"
| "index_of (y # ys) x = (if x = y then 0 else Suc (index_of ys x))"

text \<open>\<^verbatim>\<open>months.index(month) + 1 if month in months else month_abbr.index(month) + 1\<close>\<close>

definition month_idx :: "string \<Rightarrow> nat" where
  "month_idx month =
     (if month \<in> set months then index_of months month + 1 else index_of month_abbr month + 1)"

definition ordinal_suffix :: regex where
  "ordinal_suffix = Alts [Lit ''st'', Lit ''nd'', Lit ''rd'', Lit ''th'']"

definition d4 :: regex where
  "d4 = Seqs [Sym CDigit, Sym CDigit, Sym CDigit, Sym CDigit]"

definition comma_or_space :: regex where
  "comma_or_space = Alt (Lit '','') (Sym CSpace)"

text \<open>\<^verbatim>\<open>{month}\s+(\d{1,2})(st|nd|rd|th)?(?:,|\s)\s*(\d{4})\<close>\<close>

definition date_pattern1 :: "string \<Rightarrow> regex" where
  "date_pattern1 month =
     Seqs [Lit month, Plus (Sym CSpace), Grp 1 d12, Opt (Grp 2 ordinal_suffix),
           comma_or_space, Star (Sym CSpace), Grp 3 d4]"

text \<open>\<^verbatim>\<open>(\d{1,2})(st|nd|rd|th)?\s+(?:of\s+)?{month}(?:,|\s)\s*(\d{4})\<close>\<close>

definition date_pattern2 :: "string \<Rightarrow> regex" where
  "date_pattern2 month =
     Seqs [Grp 1 d12, Opt (Grp 2 ordinal_suffix), Plus (Sym CSpace),
           Opt (Seq (Lit ''of'') (Plus (Sym CSpace))), Lit month,
           comma_or_space, Star (Sym CSpace), Grp 3 d4]"

text \<open>\<^verbatim>\<open>{month}\s+(\d{1,2})(st|nd|rd|th)?\<close>\<close>

definition date_pattern3 :: "string \<Rightarrow> regex" where
  "date_pattern3 month = Seqs [Lit month, Plus (Sym CSpace), Grp 1 d12, Opt (Grp 2 ordinal_suffix)]"

text \<open>\<^verbatim>\<open>(\d{1,2})(st|nd|rd|th)?\s+(?:of\s+)?{month}\<close>\<close>

definition date_pattern4 :: "string \<Rightarrow> regex" where
  "date_pattern4 month =
     Seqs [Grp 1 d12, Opt (Grp 2 ordinal_suffix), Plus (Sym CSpace),
           Opt (Seq (Lit ''of'') (Plus (Sym CSpace))), Lit month]"

text \<open>\<^verbatim>\<open>f"{x}"\<close> of a group: a group that took no part prints as \<^verbatim>\<open>None\<close>.\<close>

definition fmt_group :: "mstate \<Rightarrow> nat \<Rightarrow> string" where
  "fmt_group m n = (case group m n of None \<Rightarrow> ''None'' | Some s \<Rightarrow> s)"

text \<open>One attempt of the loop body: the pattern, the year to print, and the only checks the
  source makes, \<^verbatim>\<open>int(day) <= 31 and 1 <= month_idx <= 12\<close>.\<close>

definition date_attempt ::
  "regex \<Rightarrow> (mstate \<Rightarrow> string) \<Rightarrow> string \<Rightarrow> string \<Rightarrow> py_error + string option" where
  "date_attempt pat year_of month text_lower =
     (case re_search pat text_lower of
        None \<Rightarrow> Inr None
      | Some m \<Rightarrow>
         (case int_group m 1 of
            Inl e \<Rightarrow> Inl e
          | Inr day \<Rightarrow>
             if day \<le> 31 \<and> 1 \<le> month_idx month \<and> month_idx month \<le> 12
             then Inr (Some (year_of m @ ''-'' @ pad2 (month_idx month) @ ''-'' @ pad2 day))
             else Inr None))"

text \<open>The body of \<^verbatim>\<open>for month in months + month_abbr\<close>: the four patterns in the source's
  order, the first that passes the checks returns.\<close>

fun first_result :: "(py_error + 'a option) list \<Rightarrow> py_error + 'a option" where
  "first_result [] = Inr None"
| "first_result (r # rs) =
     (case r of Inl e \<Rightarrow> Inl e | Inr (Some v) \<Rightarrow> Inr (Some v) | Inr None \<Rightarrow> first_result rs)"

definition date_for_month :: "nat \<Rightarrow> string \<Rightarrow> string \<Rightarrow> py_error + string option" where
  "date_for_month curr_year text_lower month =
     first_result
       [date_attempt (date_pattern1 month) (\<lambda>m. fmt_group m 3) month text_lower,
        date_attempt (date_pattern2 month) (\<lambda>m. fmt_group m 3) month text_lower,
        date_attempt (date_pattern3 month) (\<lambda>m. dec curr_year) month text_lower,
        date_attempt (date_pattern4 month) (\<lambda>m. dec curr_year) month text_lower]"

text \<open>\<^verbatim>\<open>EntityExtractor._extract_date\<close>; \<open>curr_year\<close> is \<^verbatim>\<open>datetime.now().year\<close>.\<close>

definition extract_date :: "nat \<Rightarrow> string \<Rightarrow> py_error + string option" where
  "extract_date curr_year text =
     first_result (map (date_for_month curr_year (lower text)) (months @ month_abbr))"

section \<open>The Gregorian calendar\<close>

definition is_leap :: "nat \<Rightarrow> bool" where
  "is_leap y = (y mod 4 = 0 \<and> (y mod 100 \<noteq> 0 \<or> y mod 400 = 0))"

definition days_in_month :: "nat \<Rightarrow> nat \<Rightarrow> nat" where
  "days_in_month y m =
     (if m = 2 then (if is_leap y then 29 else 28)
      else if m \<in> {4, 6, 9, 11} then 30 else 31)"

text \<open>The dates that exist: what \<^verbatim>\<open>datetime.date(y, m, d)\<close> accepts.\<close>

definition is_calendar_date :: "nat \<Rightarrow> nat \<Rightarrow> nat \<Rightarrow> bool" where
  "is_calendar_date y m d =
     (1 \<le> y \<and> y \<le> 9999 \<and> 1 \<le> m \<and> m \<le> 12 \<and> 1 \<le> d \<and> d \<le> days_in_month y m)"

section \<open>Intent classification (entity\_extractor.py)\<close>

text \<open>The pattern families of \<^verbatim>\<open>identify_intent\<close>, each entry in the source's order.\<close>

definition schedule_patterns :: "regex list" where
  "schedule_patterns =
    [Seqs [Lit ''schedule a'', Opt (Lit ''n''), Lit '' appointment''],
     Seqs [Lit ''book a'', Opt (Lit ''n''), Lit '' appointment''],
     Seqs [Lit ''make a'', Opt (Lit ''n''), Lit '' appointment''],
     Seqs [Lit ''set up a'', Opt (Lit ''n''), Lit '' appointment''],
     Seqs [Lit ''create a'', Opt (Lit ''n''), Lit '' appointment''],
     Lit ''schedule a meeting'',
     Seqs [Lit ''schedule '', Star (Sym CDot), Lit '' with''],
     Seqs [Lit ''book '', Star (Sym CDot), Lit '' with''],
     Seqs [Lit ''make '', Star (Sym CDot), Lit '' with''],
     Seqs [Lit ''schedule '', Star (Sym CDot), Lit '' for''],
     Seqs [Lit ''book '', Star (Sym CDot), Lit '' for''],
     Seqs [Lit ''make '', Star (Sym CDot), Lit '' for'']]"

definition cancel_patterns :: "regex list" where
  "cancel_patterns =
    [Seqs [Lit ''cancel a'', Opt (Lit ''n''), Lit '' appointment''],
     Seqs [Lit ''cancel '', Star (Sym CDot), Lit '' meeting''],
     Seqs [Lit ''cancel '', Star (Sym CDot), Lit '' with''],
     Seqs [Lit ''remove a'', Opt (Lit ''n''), Lit '' appointment''],
     Seqs [Lit ''delete a'', Opt (Lit ''n''), Lit '' appointment''],
     Lit ''wanto cancel'',
     Lit ''want to cancel'',
     Lit ''need to cancel'',
     Seqs [Lit ''don'', Opt (Lit [CHR 0x27]), Lit ''t want the appointment'']]"

definition check_availability_patterns :: "regex list" where
  "check_availability_patterns =
    [Lit ''check availability'',
     Lit ''check availibility'',
     Seqs [Lit ''when '', Star (Sym CDot), Lit '' available''],
     Lit ''what times are available'',
     Lit ''available times'',
     Seqs [Lit ''is '', Star (Sym CDot), Lit '' available''],
     Seqs [Lit ''can '', Star (Sym CDot), Lit '' meet''],
     Lit ''availability of'',
     Lit ''availibility of'',
     Seqs [Lit ''when can '', Star (Sym CDot), Lit '' meet''],
     Lit ''check when'',
     Seqs [Lit ''not schedule '', Star (Sym CDot), Lit '' check'']]"

definition list_appointments_patterns :: "regex list" where
  "list_appointments_patterns =
    [Lit ''list appointments'',
     Lit ''show appointments'',
     Lit ''what appointments'',
     Lit ''my appointments'',
     Lit ''my schedule'',
     Seqs [Lit ''view '', Star (Sym CDot), Lit '' appointments'']]"

definition knowledge_patterns :: "regex list" where
  "knowledge_patterns =
    [Lit ''what is'',
     Lit ''what are'',
     Lit ''who is'',
     Lit ''who are'',
     Lit ''how does'',
     Lit ''how do'',
     Lit ''explain'',
     Lit ''tell me about'',
     Lit ''when was'',
     Lit ''when is'',
     Lit ''where is'',
     Lit ''where are'',
     Lit ''why is'',
     Lit ''why are'',
     Lit ''define'',
     Lit ''definition'',
     Lit ''defination'',
     Lit ''meaning of'',
     Lit ''what does'',
     Lit ''tell me more'',
     Lit ''can you explain'']"


text \<open>\<^verbatim>\<open>for pattern in patterns: if re.search(pattern, text): return label\<close>\<close>

definition any_found :: "regex list \<Rightarrow> string \<Rightarrow> bool" where
  "any_found ps s = list_ex (\<lambda>p. found p s) ps"

text \<open>\<^verbatim>\<open>identify_intent\<close>: five loops, one after the other, each returning its label at the
  first pattern found in the lower-cased text.\<close>

definition identify_intent :: "string \<Rightarrow> string" where
  "identify_intent text =
     (let t = lower text in
      if any_found knowledge_patterns t then ''knowledge''
      else if any_found check_availability_patterns t then ''check_availability''
      else if any_found cancel_patterns t then ''cancel_appointment''
      else if any_found schedule_patterns t then ''schedule_appointment''
      else if any_found list_appointments_patterns t then ''list_appointments''
      else ''unknown'')"

text \<open>The precedence of the families as the specification words it: knowledge, then
  availability, then cancellation, then scheduling, then listing.\<close>

definition spec_precedence :: "(regex list \<times> string) list" where
  "spec_precedence =
     [(knowledge_patterns, ''knowledge''),
      (check_availability_patterns, ''check_availability''),
      (cancel_patterns, ''cancel_appointment''),
      (schedule_patterns, ''schedule_appointment''),
      (list_appointments_patterns, ''list_appointments'')]"

definition family_matches :: "regex list \<times> string \<Rightarrow> string \<Rightarrow> bool" where
  "family_matches fam text = (\<exists>p \<in> set (fst fam). found p (lower text))"

section \<open>Dates (datetime, calendar, relativedelta)\<close>

text \<open>
  A \<^verbatim>\<open>datetime\<close> is modelled by its date fields; the source formats dates only, so the time
  of day is dropped. Day arithmetic goes through the proleptic Gregorian ordinal, as in
  Python's \<^verbatim>\<open>datetime\<close>: day 1 is 0001-01-01, a Monday, and the last day, 9999-12-31, is
  day 3652059.
\<close>

record date =
  year :: nat
  month :: nat
  day :: nat

definition days_before_year :: "nat \<Rightarrow> int" where
  "days_before_year y = (let y1 = int y - 1 in y1 * 365 + y1 div 4 - y1 div 100 + y1 div 400)"

definition DAYS_BEFORE_MONTH :: "int list" where
  "DAYS_BEFORE_MONTH = [- 1, 0, 31, 59, 90, 120, 151, 181, 212, 243, 273, 304, 334]"

definition DAYS_IN_MONTH :: "int list" where
  "DAYS_IN_MONTH = [- 1, 31, 28, 31, 30, 31, 30, 31, 31, 30, 31, 30, 31]"

definition days_before_month :: "nat \<Rightarrow> nat \<Rightarrow> int" where
  "days_before_month y m = DAYS_BEFORE_MONTH ! m + (if m > 2 \<and> is_leap y then 1 else 0)"

definition ymd2ord :: "date \<Rightarrow> int" where
  "ymd2ord d = days_before_year (year d) + days_before_month (year d) (month d) + int (day d)"

definition ord2ymd :: "int \<Rightarrow> date" where
  "ord2ymd n0 =
     (let n = n0 - 1;
          n400 = n div 146097; n = n mod 146097;
          n100 = n div 36524; n = n mod 36524;
          n4 = n div 1461; n = n mod 1461;
          n1 = n div 365; n = n mod 365;
          y = n400 * 400 + 1 + n100 * 100 + n4 * 4 + n1
      in if n1 = 4 \<or> n100 = 4 then \<lparr>year = nat (y - 1), month = 12, day = 31\<rparr>
         else
           let leapyear = (n1 = 3 \<and> (n4 \<noteq> 24 \<or> n100 = 3));
               m = nat ((n + 50) div 32);
               preceding = DAYS_BEFORE_MONTH ! m + (if m > 2 \<and> leapyear then 1 else 0)
           in if preceding > n
              then let m' = m - 1;
                       preceding' = preceding - (DAYS_IN_MONTH ! m' + (if m' = 2 \<and> leapyear then 1 else 0))
                   in \<lparr>year = nat y, month = m', day = nat (n - preceding' + 1)\<rparr>
              else \<lparr>year = nat y, month = m, day = nat (n - preceding + 1)\<rparr>)"

definition max_ordinal :: int where
  "max_ordinal = 3652059"

text \<open>\<^verbatim>\<open>d + timedelta(days=k)\<close>: \<^verbatim>\<open>OverflowError\<close> when the result leaves the years 1 to 9999
  (or when \<^verbatim>\<open>timedelta\<close> itself rejects \<open>k\<close>, which is then out of that range as well).\<close>

definition add_days :: "date \<Rightarrow> int \<Rightarrow> py_error + date" where
  "add_days d k =
     (let n = ymd2ord d + k
      in if 1 \<le> n \<and> n \<le> max_ordinal then Inr (ord2ymd n) else Inl OverflowError)"

text \<open>\<^verbatim>\<open>d.weekday()\<close>, Monday is 0.\<close>

definition weekday :: "date \<Rightarrow> int" where
  "weekday d = (ymd2ord d + 6) mod 7"

text \<open>\<^verbatim>\<open>datetime(y, m, d)\<close> for a day that exists in its month; \<^verbatim>\<open>ValueError\<close> beyond year 9999.\<close>

definition mk_date :: "nat \<Rightarrow> nat \<Rightarrow> nat \<Rightarrow> py_error + date" where
  "mk_date y m d = (if is_calendar_date y m d then Inr \<lparr>year = y, month = m, day = d\<rparr> else Inl ValueError)"

text \<open>\<^verbatim>\<open>d + relativedelta(months=k)\<close> for \<open>k \<ge> 0\<close>: whole years and the remaining months are
  added, the day is cut to the length of the month reached. A year beyond 9999 is an error
  (reported as \<^verbatim>\<open>ValueError\<close>).\<close>

definition add_months :: "date \<Rightarrow> nat \<Rightarrow> py_error + date" where
  "add_months d k =
     (let y0 = year d + k div 12;
          m0 = month d + k mod 12;
          y = (if m0 > 12 then y0 + 1 else y0);
          m = (if m0 > 12 then m0 - 12 else m0)
      in mk_date y m (min (days_in_month y m) (day d)))"

definition weekday_names :: "string list" where
  "weekday_names = [''Monday'', ''Tuesday'', ''Wednesday'', ''Thursday'', ''Friday'', ''Saturday'', ''Sunday'']"

definition month_names :: "string list" where
  "month_names = [''January'', ''February'', ''March'', ''April'', ''May'', ''June'',
                  ''July'', ''August'', ''September'', ''October'', ''November'', ''December'']"

text \<open>\<^verbatim>\<open>format_date_for_display\<close>: \<^verbatim>\<open>strftime("%A, %B %d, %Y")\<close>, as in
  \<^verbatim>\<open>Thursday, November 05, 2026\<close> (years from 1000 on print with four digits).\<close>

definition format_date_for_display :: "date \<Rightarrow> string" where
  "format_date_for_display d =
     weekday_names ! nat (weekday d) @ '', '' @ month_names ! (month d - 1) @ '' '' @
     pad2 (day d) @ '', '' @ dec (year d)"

section \<open>The temporal resolver (main.py, parse\_relative\_date)\<close>

definition days_of_week :: "(string \<times> int) list" where
  "days_of_week = [(''monday'', 0), (''tuesday'', 1), (''wednesday'', 2), (''thursday'', 3),
                   (''friday'', 4), (''saturday'', 5), (''sunday'', 6)]"

text \<open>\<^verbatim>\<open>next\s+{day}\<close>, \<^verbatim>\<open>this\s+{day}\<close> and \<^verbatim>\<open>\b{day}\b\<close>\<close>

definition next_day_pattern :: "string \<Rightarrow> regex" where
  "next_day_pattern d = Seqs [Lit ''next'', Plus (Sym CSpace), Lit d]"

definition this_day_pattern :: "string \<Rightarrow> regex" where
  "this_day_pattern d = Seqs [Lit ''this'', Plus (Sym CSpace), Lit d]"

definition just_day_pattern :: "string \<Rightarrow> regex" where
  "just_day_pattern d = Seqs [WordB, Lit d, WordB]"

text \<open>One iteration of the loop over \<^verbatim>\<open>days_of_week.items()\<close>: \<open>None\<close> when the iteration
  returns nothing and the loop goes on. The branches that Python's non-negative \<^verbatim>\<open>%\<close> never
  takes are kept as the source has them.\<close>

definition weekday_step :: "date \<Rightarrow> string \<Rightarrow> string \<times> int \<Rightarrow> (py_error + date option) option" where
  "weekday_step today text dn =
     (let d = fst dn; day_num = snd dn;
          next_day_match = found (next_day_pattern d) text;
          this_day_match = found (this_day_pattern d) text;
          just_day_match = found (just_day_pattern d) text;
          days_ahead = (day_num - weekday today) mod 7
      in if next_day_match
         then Some (map_sum id Some (add_days today (if days_ahead = 0 then 7 else days_ahead)))
         else if this_day_match
         then (if days_ahead = 0 then Some (Inr (Some today))
               else if days_ahead < 0 then Some (map_sum id Some (add_days today (days_ahead + 7)))
               else Some (map_sum id Some (add_days today days_ahead)))
         else if just_day_match \<and> \<not> next_day_match \<and> \<not> this_day_match
         then (if days_ahead = 0 then Some (Inr (Some today))
               else if days_ahead > 0 then Some (map_sum id Some (add_days today days_ahead))
               else Some (map_sum id Some (add_days today (days_ahead + 7))))
         else None)"

fun weekday_loop :: "date \<Rightarrow> string \<Rightarrow> (string \<times> int) list \<Rightarrow> (py_error + date option) option" where
  "weekday_loop today text [] = None"
| "weekday_loop today text (dn # rest) =
     (case weekday_step today text dn of Some r \<Rightarrow> Some r | None \<Rightarrow> weekday_loop today text rest)"

definition time_unit :: regex where
  "time_unit = Alts [Lit ''day'', Lit ''days'', Lit ''week'', Lit ''weeks'', Lit ''month'', Lit ''months'']"

text \<open>\<^verbatim>\<open>in\s+(\d+)\s+(day|days|week|weeks|month|months)\<close> and the same with \<^verbatim>\<open>after\<close>\<close>

definition in_time_pattern :: "string \<Rightarrow> regex" where
  "in_time_pattern w =
     Seqs [Lit w, Plus (Sym CSpace), Grp 1 (Plus (Sym CDigit)), Plus (Sym CSpace), Grp 2 time_unit]"

text \<open>\<^verbatim>\<open>(\d+)\s+(day|days|week|weeks|month|months)\s+from\s+now\<close>\<close>

definition from_now_pattern :: regex where
  "from_now_pattern =
     Seqs [Grp 1 (Plus (Sym CDigit)), Plus (Sym CSpace), Grp 2 time_unit, Plus (Sym CSpace),
           Lit ''from'', Plus (Sym CSpace), Lit ''now'']"

text \<open>\<^verbatim>\<open>(\d+)\s+(day|days|week|weeks|month|months)\s+from\s+(.+)\<close>\<close>

definition from_date_pattern :: regex where
  "from_date_pattern =
     Seqs [Grp 1 (Plus (Sym CDigit)), Plus (Sym CSpace), Grp 2 time_unit, Plus (Sym CSpace),
           Lit ''from'', Plus (Sym CSpace), Grp 3 (Plus (Sym CDot))]"

text \<open>The offset of a matched \<open>number\<close> and \<open>unit\<close> from a base date; \<open>None\<close> when the unit is
  none of the six words, in which case the source falls through to the next pattern.\<close>

definition apply_offset :: "date \<Rightarrow> nat \<Rightarrow> string \<Rightarrow> (py_error + date) option" where
  "apply_offset base number unit =
     (if unit \<in> set [''day'', ''days''] then Some (add_days base (int number))
      else if unit \<in> set [''week'', ''weeks''] then Some (add_days base (int number * 7))
      else if unit \<in> set [''month'', ''months''] then Some (add_months base number)
      else None)"

text \<open>A match of one of the offset patterns: \<^verbatim>\<open>int(m.group(1))\<close>, \<^verbatim>\<open>m.group(2)\<close>.\<close>

definition offset_of_match :: "date \<Rightarrow> mstate \<Rightarrow> (py_error + date option) option" where
  "offset_of_match base m =
     (case int_group m 1 of
        Inl e \<Rightarrow> Some (Inl e)
      | Inr number \<Rightarrow>
         (case group m 2 of
            None \<Rightarrow> None
          | Some unit \<Rightarrow> map_option (map_sum id Some) (apply_offset base number unit)))"

text \<open>Some cases of \<^verbatim>\<open>parse_relative_date\<close>, tried in turn: the first that returns decides.\<close>

fun first_return :: "(py_error + 'a option) option list \<Rightarrow> py_error + 'a option" where
  "first_return [] = Inr None"
| "first_return (None # rs) = first_return rs"
| "first_return (Some r # rs) = r"

text \<open>\<^verbatim>\<open>N unit(s) from <date>\<close>: the base date is read by \<^verbatim>\<open>dateutil.parser.parse(s, fuzzy=True)\<close>,
  a library function taken as the parameter \<open>fuzzy_parse\<close> (\<open>None\<close> when it raises). Every
  exception inside the \<^verbatim>\<open>try\<close> block makes the function return \<^verbatim>\<open>None\<close>.\<close>

definition from_date_case :: "(string \<Rightarrow> date option) \<Rightarrow> string \<Rightarrow> (py_error + date option) option" where
  "from_date_case fuzzy_parse text =
     (case re_search from_date_pattern text of
        None \<Rightarrow> None
      | Some m \<Rightarrow>
         (case int_group m 1 of
            Inl e \<Rightarrow> Some (Inl e)
          | Inr number \<Rightarrow>
             (case fuzzy_parse (strip (fmt_group m 3)) of
                None \<Rightarrow> Some (Inr None)
              | Some base_date \<Rightarrow>
                 (case apply_offset base_date number (fmt_group m 2) of
                    None \<Rightarrow> None
                  | Some (Inl e) \<Rightarrow> Some (Inr None)
                  | Some (Inr d) \<Rightarrow> Some (Inr (Some d))))))"

definition next_month_of :: "date \<Rightarrow> nat \<times> nat" where
  "next_month_of today =
     (if month today + 1 > 12 then (year today + 1, 1) else (year today, month today + 1))"

definition parse_relative_date ::
  "date \<Rightarrow> (string \<Rightarrow> date option) \<Rightarrow> string \<Rightarrow> py_error + date option" where
  "parse_relative_date today fuzzy_parse text0 =
     (let text = lower text0 in
      first_return
        [if contains ''tomorrow'' text then Some (map_sum id Some (add_days today 1)) else None,
         if contains ''today'' text then Some (Inr (Some today)) else None,
         if contains ''yesterday'' text then Some (map_sum id Some (add_days today (- 1))) else None,
         weekday_loop today text days_of_week,
         (case re_search (in_time_pattern ''in'') text of
            None \<Rightarrow> None | Some m \<Rightarrow> offset_of_match today m),
         (case re_search (in_time_pattern ''after'') text of
            None \<Rightarrow> None | Some m \<Rightarrow> offset_of_match today m),
         (case re_search from_now_pattern text of
            None \<Rightarrow> None | Some m \<Rightarrow> offset_of_match today m),
         from_date_case fuzzy_parse text,
         if contains ''end of month'' text
         then Some (map_sum id Some (mk_date (year today) (month today)
                      (days_in_month (year today) (month today))))
         else None,
         if contains ''beginning of month'' text \<or> contains ''start of month'' text
         then Some (map_sum id Some (mk_date (year today) (month today) 1))
         else None,
         if contains ''end of next month'' text
         then (let ym = next_month_of today
               in Some (map_sum id Some (mk_date (fst ym) (snd ym) (days_in_month (fst ym) (snd ym)))))
         else None,
         if contains ''beginning of next month'' text \<or> contains ''start of next month'' text
         then (let ym = next_month_of today
               in Some (map_sum id Some (mk_date (fst ym) (snd ym) 1)))
         else None])"

section \<open>The weekday case selected by a text\<close>

datatype rel_kind = KNext | KThis | KJust

text \<open>The weekday case a lower-cased text selects, read off the text alone: the first day of
  the table for which one of the three patterns is found, and which of them.\<close>

fun weekday_hit :: "string \<Rightarrow> (string \<times> int) list \<Rightarrow> (rel_kind \<times> int) option" where
  "weekday_hit t [] = None"
| "weekday_hit t (dn # rest) =
     (if found (next_day_pattern (fst dn)) t then Some (KNext, snd dn)
      else if found (this_day_pattern (fst dn)) t then Some (KThis, snd dn)
      else if found (just_day_pattern (fst dn)) t then Some (KJust, snd dn)
      else weekday_hit t rest)"

definition weekday_reading :: "string \<Rightarrow> (rel_kind \<times> int) option" where
  "weekday_reading text0 =
     (let t = lower text0
      in if contains ''tomorrow'' t \<or> contains ''today'' t \<or> contains ''yesterday'' t then None
         else weekday_hit t days_of_week)"

fun resolve_weekday :: "date \<Rightarrow> rel_kind \<Rightarrow> int \<Rightarrow> py_error + date option" where
  "resolve_weekday today KNext n =
     (let off = (n - weekday today) mod 7
      in map_sum id Some (add_days today (if off = 0 then 7 else off)))"
| "resolve_weekday today k n =
     (let off = (n - weekday today) mod 7
      in if off = 0 then Inr (Some today) else map_sum id Some (add_days today off))"

section \<open>The AI fallback extractor (main.py, extract\_entities\_with\_ai)\<close>

text \<open>\<^verbatim>\<open>s.replace(old, new)\<close> for a non-empty \<open>old\<close>: the occurrences are replaced from the left,
  without overlap; \<open>skip\<close> counts the characters of an occurrence still to be passed.\<close>

fun replace_from :: "nat \<Rightarrow> string \<Rightarrow> string \<Rightarrow> string \<Rightarrow> string" where
  "replace_from skip old new [] = []"
| "replace_from skip old new (c # cs) =
     (if skip > 0 then replace_from (skip - 1) old new cs
      else if prefix old (c # cs) then new @ replace_from (length old - 1) old new cs
      else c # replace_from 0 old new cs)"

definition replace :: "string \<Rightarrow> string \<Rightarrow> string \<Rightarrow> string" where
  "replace s old new = replace_from 0 old new s"

text \<open>
  The values of a decoded JSON object, as far as the source looks at them: \<^verbatim>\<open>None\<close>, a string,
  or any other value (a number, a boolean, a list, an object), of which the source uses
  \<^verbatim>\<open>str(v)\<close> and the truth value only.
\<close>

datatype jval = JNull | JStr string | JOther string bool

text \<open>
  What \<^verbatim>\<open>json.loads\<close> returns: an object, as the list of its entries, or a value that is not an
  object. On the latter the source raises and answers with all slots null as soon as a slot
  is requested; when none is requested the flag says whether the loop over the value ends
  without raising, in which case the value itself is returned.
\<close>

datatype json_top = JDict "(string \<times> jval) list" | JNonDict bool

text \<open>The boundary call \<^verbatim>\<open>agent.run(prompt)\<close>: it raises (or times out), or answers with a
  text.\<close>

datatype agent_outcome = AgentRaised | AgentContent string

text \<open>What the function returns: a mapping from slot names to values, or, when nothing was
  requested, a decoded value that is not an object.\<close>

datatype ai_result = Slots "(string \<times> jval) list" | RawValue

definition dq :: string where
  "dq = [CHR 0x22]"

text \<open>\<^verbatim>\<open>```(?:json)?\s*(.*?)\s*```\<close> with \<^verbatim>\<open>re.DOTALL\<close>\<close>

definition json_block_pattern :: regex where
  "json_block_pattern =
     Seqs [Lit ''```'', Opt (Lit ''json''), Star (Sym CSpace), Grp 1 (StarLazy (Sym CDotAll)),
           Star (Sym CSpace), Lit ''```'']"

text \<open>\<^verbatim>\<open>"{entity}"\s*:\s*(?:"([^"]*?)"|null)\<close>, for a slot name without special characters\<close>

definition entity_pattern :: "string \<Rightarrow> regex" where
  "entity_pattern entity =
     Seqs [Lit (dq @ entity @ dq), Star (Sym CSpace), Lit '':'', Star (Sym CSpace),
           Alt (Seqs [Lit dq, Grp 1 (StarLazy (Sym (CNotIn dq))), Lit dq]) (Lit ''null'')]"

text \<open>\<^verbatim>\<open>^\d{1,2}(:\d{2})?\s*(am|pm|a\.m\.|p\.m\.)?$\<close>\<close>

definition time_only_pattern :: regex where
  "time_only_pattern =
     Seqs [Bol, Sym CDigit, Opt (Sym CDigit), Opt (Grp 1 (Seqs [Lit '':'', Sym CDigit, Sym CDigit])),
           Star (Sym CSpace), Opt (Grp 2 ampm), Eol]"

text \<open>\<^verbatim>\<open>\b(january|...|december)\b\<close>\<close>

definition month_word_pattern :: regex where
  "month_word_pattern = Seqs [WordB, Grp 1 (Alts (map Lit months)), WordB]"

text \<open>\<^verbatim>\<open>\d{4}-\d{2}-\d{2}\<close>\<close>

definition iso_date_pattern :: regex where
  "iso_date_pattern =
     Seqs [Sym CDigit, Sym CDigit, Sym CDigit, Sym CDigit, Lit ''-'', Sym CDigit, Sym CDigit,
           Lit ''-'', Sym CDigit, Sym CDigit]"

definition null_words :: "string list" where
  "null_words = [''null'', ''unknown'', '''']"

definition flexible_phrases :: "string list" where
  "flexible_phrases = [''anytime'', ''any time'', ''whenever'', ''available'', ''asap'', ''as soon as'', ''earliest'']"

text \<open>\<^verbatim>\<open>str(v)\<close> and the truth value of a value that is not \<^verbatim>\<open>None\<close>.\<close>

fun py_str :: "jval \<Rightarrow> string" where
  "py_str JNull = ''None''"
| "py_str (JStr s) = s"
| "py_str (JOther s b) = s"

fun truthy :: "jval \<Rightarrow> bool" where
  "truthy JNull = False"
| "truthy (JStr s) = (s \<noteq> [])"
| "truthy (JOther s b) = b"

text \<open>The three steps of the loop body \<^verbatim>\<open>for key in result\<close>, each on the value the step
  before left.\<close>

definition null_step :: "jval \<Rightarrow> jval" where
  "null_step v = (case v of JStr s \<Rightarrow> if lower s \<in> set null_words then JNull else v | _ \<Rightarrow> v)"

definition date_step :: "string \<Rightarrow> jval \<Rightarrow> jval" where
  "date_step key v =
     (if key = ''date'' \<and> v \<noteq> JNull \<and> found time_only_pattern (lower (py_str v)) then JNull else v)"

definition time_reject_step :: "jval \<Rightarrow> jval" where
  "time_reject_step v =
     (if found month_word_pattern (lower (py_str v)) \<or> found iso_date_pattern (py_str v)
      then JNull else v)"

text \<open>\<^verbatim>\<open>result[key] and any(phrase in result[key].lower() ...)\<close>: a true value that is not a
  string has no \<^verbatim>\<open>lower\<close>.\<close>

definition time_flexible_step :: "jval \<Rightarrow> py_error + jval" where
  "time_flexible_step v =
     (if \<not> truthy v then Inr v
      else case v of
             JStr s \<Rightarrow> if list_ex (\<lambda>phrase. contains phrase (lower s)) flexible_phrases
                       then Inr (JStr ''first available'') else Inr v
           | _ \<Rightarrow> Inl AttributeError)"

definition sanitize_value :: "string \<Rightarrow> jval \<Rightarrow> py_error + jval" where
  "sanitize_value key v0 =
     (let v1 = null_step v0;
          v2 = date_step key v1
      in if key = ''time'' \<and> v2 \<noteq> JNull then time_flexible_step (time_reject_step v2)
         else Inr v2)"

fun sanitize_entries :: "(string \<times> jval) list \<Rightarrow> py_error + (string \<times> jval) list" where
  "sanitize_entries [] = Inr []"
| "sanitize_entries ((k, v) # rest) =
     (case sanitize_value k v of
        Inl e \<Rightarrow> Inl e
      | Inr v' \<Rightarrow> (case sanitize_entries rest of Inl e \<Rightarrow> Inl e | Inr rest' \<Rightarrow> Inr ((k, v') # rest')))"

text \<open>\<^verbatim>\<open>for entity in missing_entities: if entity not in result: result[entity] = None\<close>\<close>

fun ensure_all :: "string list \<Rightarrow> (string \<times> jval) list \<Rightarrow> (string \<times> jval) list" where
  "ensure_all [] result = result"
| "ensure_all (e # es) result =
     ensure_all es (if e \<in> fst ` set result then result else result @ [(e, JNull)])"

text \<open>\<^verbatim>\<open>{entity: None for entity in missing_entities}\<close>\<close>

definition all_null :: "string list \<Rightarrow> (string \<times> jval) list" where
  "all_null missing_entities = ensure_all missing_entities []"

text \<open>The fallback after \<^verbatim>\<open>json.JSONDecodeError\<close>: each requested slot is read off the text by
  its pattern.\<close>

definition regex_fallback_value :: "string \<Rightarrow> string \<Rightarrow> jval" where
  "regex_fallback_value json_str entity =
     (case re_search (entity_pattern entity) json_str of
        None \<Rightarrow> JNull
      | Some m \<Rightarrow> (case group m 1 of None \<Rightarrow> JNull | Some s \<Rightarrow> if s = [] then JNull else JStr s))"

fun dict_set :: "(string \<times> jval) list \<Rightarrow> string \<Rightarrow> jval \<Rightarrow> (string \<times> jval) list" where
  "dict_set [] k v = [(k, v)]"
| "dict_set ((k', v') # rest) k v = (if k' = k then (k, v) # rest else (k', v') # dict_set rest k v)"

definition regex_fallback :: "string \<Rightarrow> string list \<Rightarrow> (string \<times> jval) list" where
  "regex_fallback json_str missing_entities =
     foldl (\<lambda>result entity. dict_set result entity (regex_fallback_value json_str entity)) [] missing_entities"

text \<open>The text handed to \<^verbatim>\<open>json.loads\<close>: the fenced block if there is one, with the quote
  and null repairs of the source.\<close>

definition json_text :: "string \<Rightarrow> string" where
  "json_text content0 =
     (let content = strip content0;
          json_str = (case re_search json_block_pattern content of
                        None \<Rightarrow> content
                      | Some m \<Rightarrow> fmt_group m 1);
          json_str = replace json_str [CHR 0x27] dq;
          json_str = replace json_str (dq @ ''NULL'' @ dq) ''null'';
          json_str = replace json_str (dq @ ''null'' @ dq) ''null'';
          json_str = replace json_str ''NULL'' ''null''
      in json_str)"

text \<open>
  The \<^verbatim>\<open>try\<close> statement of \<^verbatim>\<open>extract_entities_with_ai\<close> (lines 623 to 695), taken alone. The
  decoder \<^verbatim>\<open>json.loads\<close> is the parameter \<open>loads\<close>; the utterance enters the prompt only, so
  it is not an argument. Every exception other than the decoder's \<^verbatim>\<open>JSONDecodeError\<close> ends in
  the outer handler, which answers with all requested slots null.
\<close>

definition ai_try_block ::
  "(string \<Rightarrow> py_error + json_top) \<Rightarrow> agent_outcome \<Rightarrow> string list \<Rightarrow> ai_result" where
  "ai_try_block loads outcome missing_entities =
     (case outcome of
        AgentRaised \<Rightarrow> Slots (all_null missing_entities)
      | AgentContent content \<Rightarrow>
         (let json_str = json_text content
          in case (case loads json_str of
                     Inl e \<Rightarrow> if e = JSONDecodeError
                              then Inr (JDict (regex_fallback json_str missing_entities))
                              else Inl e
                   | Inr decoded \<Rightarrow> Inr decoded) of
               Inl e \<Rightarrow> Slots (all_null missing_entities)
             | Inr (JNonDict survives) \<Rightarrow>
                 if missing_entities = [] \<and> survives then RawValue
                 else Slots (all_null missing_entities)
             | Inr (JDict result) \<Rightarrow>
                 (case sanitize_entries result of
                    Inl e \<Rightarrow> Slots (all_null missing_entities)
                  | Inr result' \<Rightarrow> Slots (ensure_all missing_entities result'))))"

text \<open>\<^verbatim>\<open>ai_entities[key]\<close> for a requested slot, as the caller reads it.\<close>

definition slot_of :: "ai_result \<Rightarrow> string \<Rightarrow> jval" where
  "slot_of r key =
     (case r of RawValue \<Rightarrow> JNull
      | Slots entries \<Rightarrow> (case map_of entries key of None \<Rightarrow> JNull | Some v \<Rightarrow> v))"

text \<open>\<^verbatim>\<open>json.loads\<close> on a text that is not JSON, such as prose before the object: it raises
  \<^verbatim>\<open>JSONDecodeError\<close>.\<close>

definition loads_rejecting :: "string \<Rightarrow> py_error + json_top" where
  "loads_rejecting s = Inl JSONDecodeError"

section \<open>The prompt of the AI fallback extractor (main.py, lines 588 to 621)\<close>

text \<open>
  The prompt is an f-string. Its replacement fields are the joined slot names, the utterance,
  \<^verbatim>\<open>json.dumps\<close> of the slot names and, because the braces of the JSON example are not
  doubled, a fourth one: the expression \<^verbatim>\<open>"person"\<close> with everything between the first colon of
  the example and its closing brace as the format specification. A field is rendered by
  \<^verbatim>\<open>format(value, spec)\<close>.

  The format specification of a string value, as CPython (3.10 and later) reads it:
  \<^verbatim>\<open>[[fill]align][sign][z][#][0][width][grouping][.precision][type]\<close>.
\<close>

record format_spec =
  fs_fill :: char
  fs_align :: "char option"
  fs_sign :: "char option"
  fs_no_neg_zero :: bool
  fs_alternate :: bool
  fs_width :: "nat option"
  fs_grouping :: "char option"
  fs_precision :: "nat option"
  fs_type :: "char option"

definition align_chars :: string where
  "align_chars = ''<>=^''"

text \<open>A leading run of digits as a number, \<open>None\<close> when there is no digit; the rest of the text.\<close>

definition leading_number :: "string \<Rightarrow> nat option \<times> string" where
  "leading_number s =
     (let ds = takeWhile is_digit s
      in (if ds = [] then None else Some (foldl (\<lambda>n c. 10 * n + digit_val c) 0 ds), dropWhile is_digit s))"

text \<open>One optional character of a given set at the head of the text.\<close>

definition optional_char :: "string \<Rightarrow> string \<Rightarrow> char option \<times> string" where
  "optional_char cs s = (case s of c # r \<Rightarrow> if c \<in> set cs then (Some c, r) else (None, s) | [] \<Rightarrow> (None, s))"

text \<open>The parser of the specification. It raises \<^verbatim>\<open>ValueError\<close> for a width or precision beyond
  the machine integer, for a dot without digits, and when more than one character is left for
  the type.\<close>

definition parse_format_spec :: "string \<Rightarrow> py_error + format_spec" where
  "parse_format_spec spec =
     (let (fill, align, s1) =
            (case spec of
               f # a # r \<Rightarrow> if a \<in> set align_chars then (Some f, Some a, r)
                            else if f \<in> set align_chars then (None, Some f, a # r)
                            else (None, None, spec)
             | [f] \<Rightarrow> if f \<in> set align_chars then (None, Some f, []) else (None, None, spec)
             | [] \<Rightarrow> (None, None, spec));
          (sign, s2) = optional_char ''+- '' s1;
          (z, s3) = optional_char ''z'' s2;
          (alt, s4) = optional_char ''#'' s3;
          (zero, s5) = (if fill = None then optional_char ''0'' s4 else (None, s4));
          (width, s6) = leading_number s5;
          (grouping, s7) = optional_char '',_'' s6;
          (dot, s8) = optional_char ''.'' s7;
          (precision, s9) = (if dot = None then (None, s8) else leading_number s8)
      in if (case width of None \<Rightarrow> False | Some w \<Rightarrow> w > 2 ^ 63 - 1) then Inl ValueError
         else if (case precision of None \<Rightarrow> False | Some n \<Rightarrow> n > 2 ^ 63 - 1) then Inl ValueError
         else if dot \<noteq> None \<and> precision = None then Inl ValueError
         else if length s9 > 1 then Inl ValueError
         else Inr \<lparr>fs_fill = (case fill of Some f \<Rightarrow> f
                                 | None \<Rightarrow> if zero = None then CHR '' '' else CHR ''0''),
                   fs_align = align, fs_sign = sign, fs_no_neg_zero = (z \<noteq> None),
                   fs_alternate = (alt \<noteq> None), fs_width = width, fs_grouping = grouping,
                   fs_precision = precision,
                   fs_type = (case s9 of [] \<Rightarrow> None | c # r \<Rightarrow> Some c)\<rparr>)"

text \<open>\<^verbatim>\<open>format(value, spec)\<close> for a string: an empty specification gives the string; a sign,
  \<^verbatim>\<open>z\<close>, \<^verbatim>\<open>#\<close>, the alignment \<^verbatim>\<open>=\<close>, a grouping character and a type other than \<^verbatim>\<open>s\<close>
  raise \<^verbatim>\<open>ValueError\<close>; otherwise the string is cut to the precision and padded to the
  width.\<close>

definition format_str :: "string \<Rightarrow> string \<Rightarrow> py_error + string" where
  "format_str v spec =
     (if spec = [] then Inr v
      else case parse_format_spec spec of
             Inl e \<Rightarrow> Inl e
           | Inr f \<Rightarrow>
               if fs_sign f \<noteq> None \<or> fs_no_neg_zero f \<or> fs_alternate f \<or> fs_align f = Some CHR ''=''
                  \<or> fs_grouping f \<noteq> None \<or> (fs_type f \<noteq> None \<and> fs_type f \<noteq> Some CHR ''s'')
               then Inl ValueError
               else (let cut = (case fs_precision f of None \<Rightarrow> v | Some n \<Rightarrow> take n v);
                         pad = (case fs_width f of None \<Rightarrow> 0 | Some w \<Rightarrow> w - length cut);
                         lpad = (if fs_align f = Some CHR ''>'' then pad
                                 else if fs_align f = Some CHR ''^'' then pad div 2 else 0)
                     in Inr (replicate lpad (fs_fill f) @ cut @ replicate (pad - lpad) (fs_fill f))))"

text \<open>The text between the first colon of the JSON example and its closing brace.\<close>

definition example_spec :: string where
  "example_spec =
     '' '' @ dq @ ''John Smith'' @ dq @ '','' @ [CHR 0x0A] @
     ''      '' @ dq @ ''date'' @ dq @ '': '' @ dq @ ''June 15, 2023'' @ dq @ '','' @ [CHR 0x0A] @
     ''      '' @ dq @ ''time'' @ dq @ '': '' @ dq @ ''3:30 PM'' @ dq @ [CHR 0x0A] @ ''    ''"

text \<open>The field of the example as the f-string renders it. The three fields before it take a
  string each and do not raise.\<close>

definition example_field :: "py_error + string" where
  "example_field = format_str ''person'' example_spec"

text \<open>
  \<^verbatim>\<open>extract_entities_with_ai\<close>: the prompt is built before the \<^verbatim>\<open>try\<close> statement, so what
  the f-string raises leaves the function.
\<close>

definition extract_entities_with_ai ::
  "(string \<Rightarrow> py_error + json_top) \<Rightarrow> agent_outcome \<Rightarrow> string list \<Rightarrow> py_error + ai_result" where
  "extract_entities_with_ai loads outcome missing_entities =
     (case example_field of
        Inl e \<Rightarrow> Inl e
      | Inr field \<Rightarrow> Inr (ai_try_block loads outcome missing_entities))"

section \<open>Reading the result of the AI fallback extractor\<close>

text \<open>The value the loop body leaves for a key; a value on which the body raises leaves none.\<close>

definition sanitized :: "string \<Rightarrow> jval \<Rightarrow> jval" where
  "sanitized key v = (case sanitize_value key v of Inr v' \<Rightarrow> v' | Inl e \<Rightarrow> JNull)"

text \<open>A value that is a string or \<^verbatim>\<open>None\<close>.\<close>

fun plain :: "jval \<Rightarrow> bool" where
  "plain (JOther s b) = False"
| "plain v = True"

text \<open>A reply of the model that wraps the object in prose: \<^verbatim>\<open>Sure: {"person": "John"}\<close>.\<close>

definition prose_reply :: string where
  "prose_reply = ''Sure: {'' @ dq @ ''person'' @ dq @ '': '' @ dq @ ''John'' @ dq @ ''}''"

section \<open>The conversation context\<close>

text \<open>
  The context is a Python dictionary from keys to values; it is modelled as the list of its
  entries in insertion order, with one entry for a key. Its values are those of JSON: the
  client may send any, and the source stores strings and \<^verbatim>\<open>True\<close>.
\<close>

type_synonym conversation = "(string \<times> jval) list"

definition dict_get :: "conversation \<Rightarrow> string \<Rightarrow> jval option" where
  "dict_get ctx k = map_of ctx k"

text \<open>\<^verbatim>\<open>k in ctx\<close>, \<^verbatim>\<open>ctx.get(k)\<close>, \<^verbatim>\<open>ctx.get(k, default)\<close>, \<^verbatim>\<open>ctx.pop(k, None)\<close>\<close>

definition has_key :: "conversation \<Rightarrow> string \<Rightarrow> bool" where
  "has_key ctx k = (dict_get ctx k \<noteq> None)"

definition get :: "conversation \<Rightarrow> string \<Rightarrow> jval" where
  "get ctx k = (case dict_get ctx k of None \<Rightarrow> JNull | Some v \<Rightarrow> v)"

definition get_default :: "conversation \<Rightarrow> string \<Rightarrow> jval \<Rightarrow> jval" where
  "get_default ctx k d = (case dict_get ctx k of None \<Rightarrow> d | Some v \<Rightarrow> v)"

definition dict_pop :: "conversation \<Rightarrow> string \<Rightarrow> conversation" where
  "dict_pop ctx k = filter (\<lambda>kv. fst kv \<noteq> k) ctx"

text \<open>\<^verbatim>\<open>"k" in context and context["k"]\<close>: the slot is there and true.\<close>

definition present :: "conversation \<Rightarrow> string \<Rightarrow> bool" where
  "present ctx k = truthy (get ctx k)"

definition py_True :: jval where
  "py_True = JOther ''True'' True"

text \<open>An f-string over the context: literal text and \<^verbatim>\<open>{context['k']}\<close> fields, which raise
  \<^verbatim>\<open>KeyError\<close> for a key that is not there.\<close>

datatype piece = T string | K string

fun render :: "conversation \<Rightarrow> piece list \<Rightarrow> py_error + string" where
  "render ctx [] = Inr []"
| "render ctx (T s # ps) = (case render ctx ps of Inl e \<Rightarrow> Inl e | Inr r \<Rightarrow> Inr (s @ r))"
| "render ctx (K k # ps) =
     (case dict_get ctx k of
        None \<Rightarrow> Inl KeyError
      | Some v \<Rightarrow> (case render ctx ps of Inl e \<Rightarrow> Inl e | Inr r \<Rightarrow> Inr (py_str v @ r)))"

definition apostrophe :: string where
  "apostrophe = [CHR 0x27]"

section \<open>The dialogue state machine (main.py, process\_appointment\_intent)\<close>

definition anytime_patterns :: "regex list" where
  "anytime_patterns =
    [Seqs [Lit ''any'', Star (Sym CSpace), Lit ''time''],
     Seqs [Lit ''when'', Star (Sym CWord), Plus (Sym CSpace), Lit ''available''],
     Seqs [Lit ''earliest'', Plus (Sym CSpace), Lit ''available''],
     Seqs [Lit ''first'', Plus (Sym CSpace), Lit ''available''],
     Lit ''whenever'',
     Seqs [Lit ''any'', Plus (Sym CSpace), Lit ''open'', Star (Sym CWord), Plus (Sym CSpace), Lit ''slot''],
     Seqs [Lit ''any'', Plus (Sym CSpace), Lit ''opening''],
     Seqs [Lit ''as'', Plus (Sym CSpace), Lit ''soon'', Plus (Sym CSpace), Lit ''as'', Plus (Sym CSpace), Lit ''possible''],
     Lit ''asap'',
     Seqs [Lit ''fit'', Plus (Sym CSpace), Lit ''me'', Plus (Sym CSpace), Lit ''in''],
     Seqs [Lit ''earliest'', Plus (Sym CSpace), Lit ''appointment'']]"

definition cancel_current_patterns :: "string list" where
  "cancel_current_patterns =
    [''cancel this appointment'', ''cancel the current appointment'', ''cancel that appointment'',
     ''cancel it'', ''don'' @ apostrophe @ ''t want this appointment'', ''remove this appointment'']"

text \<open>The affirmative words of the cancellation confirmation.\<close>

definition affirmative_words :: "string list" where
  "affirmative_words =
    [''yes'', ''correct'', ''right'', ''ok'', ''okay'', ''sure'', ''yeah'', ''yep'', ''do that'', ''please'']"

text \<open>\<^verbatim>\<open>any(word in message_text.lower() for word in words)\<close>\<close>

definition any_in :: "string list \<Rightarrow> string \<Rightarrow> bool" where
  "any_in words s = list_ex (\<lambda>w. contains w s) words"

definition available_times_str :: string where
  "available_times_str = ''9:00 AM, 10:30 AM, 2:00 PM, 3:30 PM, 4:45 PM''"

text \<open>The completion marks: phase, time stamp (\<^verbatim>\<open>datetime.now().isoformat()\<close>, the parameter
  \<open>now\<close>) and the marker.\<close>

definition mark_completed :: "string \<Rightarrow> conversation \<Rightarrow> conversation" where
  "mark_completed now ctx =
     dict_set (dict_set ctx ''appointment_completed_at'' (JStr now)) ''ready_for_new_topic'' py_True"

text \<open>\<^verbatim>\<open>v.lower() == "that"\<close> for a true value: a value that is not a string has no \<^verbatim>\<open>lower\<close>.\<close>

definition lower_is_that :: "jval \<Rightarrow> py_error + bool" where
  "lower_is_that v = (case v of JStr s \<Rightarrow> Inr (lower s = ''that'') | _ \<Rightarrow> Inl AttributeError)"

text \<open>Lines 748 to 767: the intent \<^verbatim>\<open>check_availability\<close> returns at once.\<close>

definition check_availability_block :: "conversation \<Rightarrow> py_error + string \<times> conversation" where
  "check_availability_block ctx =
     (if \<not> present ctx ''person''
      then Inr (''Whose availability would you like to check?'',
                dict_set ctx ''phase'' (JStr ''asking_person_check''))
      else if \<not> present ctx ''date''
      then (let ctx' = dict_set ctx ''phase'' (JStr ''asking_date_check'')
            in map_sum id (\<lambda>r. (r, ctx'))
                 (render ctx' [T ''For which date would you like to check '', K ''person'',
                               T (apostrophe @ ''s availability?'')]))
      else (let ctx' = dict_set ctx ''phase'' (JStr ''showing_availability'')
            in map_sum id (\<lambda>r. (r, ctx'))
                 (render ctx' [K ''person'', T '' is available on '', K ''date'',
                               T ('' at the following times: '' @ available_times_str)])))"

text \<open>The finalisation of a cancellation (lines 789 to 818 and 927 to 953). The body of the
  \<^verbatim>\<open>try\<close> raises only at \<^verbatim>\<open>person.lower()\<close>, before the context is touched. The call of the
  persistence layer is a comment in the source: nothing is called.\<close>

definition cancel_person :: "conversation \<Rightarrow> py_error + jval" where
  "cancel_person ctx =
     (let person = get ctx ''person''
      in if \<not> truthy person then Inr person
         else case lower_is_that person of
                Inl e \<Rightarrow> Inl e
              | Inr is_that \<Rightarrow>
                  if is_that \<and> present ctx ''previous_person'' then Inr (get ctx ''previous_person'')
                  else Inr person)"

definition finalize_cancel :: "string \<Rightarrow> conversation \<Rightarrow> string \<times> conversation" where
  "finalize_cancel now ctx =
     (case cancel_person ctx of
        Inl e \<Rightarrow> (''I'' @ apostrophe @ ''m sorry, there was an error cancelling your appointment. Please try again.'', ctx)
      | Inr person \<Rightarrow>
          (let ctx' = dict_set (mark_completed now (dict_set ctx ''phase'' (JStr ''completed'')))
                        ''person'' person
           in (''I'' @ apostrophe @ ''ve cancelled your appointment with '' @ py_str person @ '' on '' @
               py_str (get ctx ''date'') @ '' at '' @ py_str (get ctx ''time'') @
               ''. Is there anything else I can help you with?'', ctx')))"

definition cancel_confirm_pieces :: "piece list" where
  "cancel_confirm_pieces =
     [T (''I'' @ apostrophe @ ''ll cancel your appointment with ''), K ''person'', T '' on '', K ''date'',
      T '' at '', K ''time'', T ''. Is that correct?'']"

text \<open>Lines 770 to 825: the intent \<^verbatim>\<open>cancel_appointment\<close> returns at once as well.\<close>

definition cancel_block :: "string \<Rightarrow> string \<Rightarrow> jval \<Rightarrow> conversation \<Rightarrow> py_error + string \<times> conversation" where
  "cancel_block now ml phase ctx =
     (if \<not> present ctx ''person''
      then Inr (''Whose appointment would you like to cancel?'',
                dict_set ctx ''phase'' (JStr ''asking_person_cancel''))
      else if \<not> present ctx ''date''
      then (let ctx' = dict_set ctx ''phase'' (JStr ''asking_date_cancel'')
            in map_sum id (\<lambda>r. (r, ctx'))
                 (render ctx' [T ''On what date is the appointment with '', K ''person'',
                               T '' that you want to cancel?'']))
      else if \<not> present ctx ''time''
      then (let ctx' = dict_set ctx ''phase'' (JStr ''asking_time_cancel'')
            in map_sum id (\<lambda>r. (r, ctx'))
                 (render ctx' [T ''At what time is the appointment with '', K ''person'', T '' on '',
                               K ''date'', T '' that you want to cancel?'']))
      else if phase = JStr ''confirming_cancel'' \<and> any_in affirmative_words ml
      then Inr (finalize_cancel now ctx)
      else (let ctx1 = dict_set ctx ''phase'' (JStr ''confirming_cancel'')
            in case lower_is_that (get ctx1 ''person'') of
                 Inl e \<Rightarrow> Inl e
               | Inr is_that \<Rightarrow>
                   (let ctx2 = (if \<not> is_that then dict_set ctx1 ''previous_person'' (get ctx1 ''person'')
                                else ctx1)
                    in map_sum id (\<lambda>r. (r, ctx2)) (render ctx2 cancel_confirm_pieces))))"

definition schedule_confirm_pieces :: "piece list" where
  "schedule_confirm_pieces =
     [T (''I'' @ apostrophe @ ''ll schedule your appointment with ''), K ''person'', T '' on '', K ''date'',
      T '' at '', K ''time'', T ''. Is that correct?'']"

definition ask_time_pieces :: "piece list" where
  "ask_time_pieces =
     [T ''What time would you like for your appointment with '', K ''person'', T '' on '', K ''date'',
      T ''?'']"

text \<open>A step of the remaining branches: the response (empty when no branch answers) and the
  context.\<close>

definition answer :: "conversation \<Rightarrow> piece list \<Rightarrow> py_error + string \<times> conversation" where
  "answer ctx ps = map_sum id (\<lambda>r. (r, ctx)) (render ctx ps)"

text \<open>Lines 828 to 849: the phase is unset or \<^verbatim>\<open>init\<close>.\<close>

definition init_block :: "jval \<Rightarrow> conversation \<Rightarrow> py_error + string \<times> conversation" where
  "init_block intent ctx =
     (if intent = JStr ''schedule_appointment''
      then (if \<not> present ctx ''person''
            then answer (dict_set ctx ''phase'' (JStr ''asking_person''))
                   [T ''Who would you like to schedule an appointment with?'']
            else if \<not> present ctx ''date''
            then answer (dict_set ctx ''phase'' (JStr ''asking_date''))
                   [T ''What day would you like to schedule with '', K ''person'', T ''?'']
            else if \<not> present ctx ''time''
            then answer (dict_set ctx ''phase'' (JStr ''asking_time'')) ask_time_pieces
            else answer (dict_set ctx ''phase'' (JStr ''confirming'')) schedule_confirm_pieces)
      else if intent = JStr ''list_appointments''
      then answer (dict_set ctx ''phase'' (JStr ''listing_appointments''))
             [T (''You have the following appointments scheduled:'' @ [CHR 0x0A] @
                 ''- Dr. Smith on Monday at 2:00 PM'' @ [CHR 0x0A] @ ''- Dentist on Friday at 10:30 AM'')]
      else Inr ([], ctx))"

text \<open>\<^verbatim>\<open>(\d{1,2}):?(\d{2})?\s*(am|pm|a\.m\.|p\.m\.)?\<close>\<close>

definition availability_time_pattern :: regex where
  "availability_time_pattern =
     Seqs [Grp 1 d12, Opt (Lit '':''), Opt (Grp 2 (Seq (Sym CDigit) (Sym CDigit))),
           Star (Sym CSpace), Opt (Grp 3 ampm)]"

text \<open>Lines 874 to 894: a time chosen at \<^verbatim>\<open>showing_availability\<close> turns the conversation into
  a scheduling one at its confirmation.\<close>

definition availability_choice :: "string \<Rightarrow> conversation \<Rightarrow> py_error + string \<times> conversation" where
  "availability_choice ml ctx =
     (case re_search availability_time_pattern ml of
        None \<Rightarrow> Inr (''I didn'' @ apostrophe @ ''t understand the time you want. Please specify a time like '' @
                     apostrophe @ ''3:30 PM'' @ apostrophe @ ''.'', ctx)
      | Some m \<Rightarrow>
         (case int_group m 1 of
            Inl e \<Rightarrow> Inl e
          | Inr hour \<Rightarrow>
             (case (case group m 2 of None \<Rightarrow> Inr 0 | Some s \<Rightarrow> if s = [] then Inr 0 else py_int s) of
                Inl e \<Rightarrow> Inl e
              | Inr minute \<Rightarrow>
                 (let period = (case group m 3 of None \<Rightarrow> [] | Some s \<Rightarrow> s);
                      ctx1 = dict_set ctx ''time'' (JStr (pad2 (to24 period hour) @ '':'' @ pad2 minute));
                      ctx2 = dict_set ctx1 ''intent'' (JStr ''schedule_appointment'');
                      ctx3 = dict_set ctx2 ''phase'' (JStr ''confirming'')
                  in answer ctx3 schedule_confirm_pieces))))"

text \<open>Lines 1011 to 1037: what to change, by the first keyword family found in the reply.\<close>

definition change_block :: "string \<Rightarrow> jval \<Rightarrow> conversation \<Rightarrow> py_error + string \<times> conversation" where
  "change_block ml intent ctx =
     (let cancel = (intent = JStr ''cancel_appointment'')
      in if contains ''person'' ml \<or> contains ''who'' ml \<or> contains ''name'' ml
         then Inr (if intent = JStr ''schedule_appointment''
                   then ''Who would you like to schedule with instead?''
                   else ''Whose appointment would you like to cancel?'',
                   dict_pop (dict_set ctx ''phase''
                     (JStr (if cancel then ''asking_person_cancel'' else ''asking_person''))) ''person'')
         else if contains ''date'' ml \<or> contains ''day'' ml \<or> contains ''when'' ml
         then Inr (''What day would you prefer instead?'',
                   dict_pop (dict_set ctx ''phase''
                     (JStr (if cancel then ''asking_date_cancel'' else ''asking_date''))) ''date'')
         else if contains ''time'' ml \<or> contains ''hour'' ml
         then Inr (''What time would you prefer instead?'',
                   dict_pop (dict_set ctx ''phase''
                     (JStr (if cancel then ''asking_time_cancel'' else ''asking_time''))) ''time'')
         else Inr (''Let'' @ apostrophe @ ''s start over. What would you like to do?'',
                   dict_set ctx ''phase'' (JStr ''init'')))"

text \<open>Lines 984 to 1009: the confirmation of a new appointment. The call of the persistence
  layer is a comment in the source: nothing is called.\<close>

definition confirming_block :: "string \<Rightarrow> conversation \<Rightarrow> py_error + string \<times> conversation" where
  "confirming_block ml ctx =
     (if contains ''yes'' ml \<or> contains ''correct'' ml \<or> contains ''right'' ml
      then (if present ctx ''person'' \<and> present ctx ''date'' \<and> present ctx ''time''
            then Inr (''Great! Your appointment with '' @ py_str (get ctx ''person'') @
                      '' has been scheduled for '' @ py_str (get ctx ''date'') @ '' at '' @
                      py_str (get ctx ''time'') @ ''.'',
                      dict_set ctx ''phase'' (JStr ''completed''))
            else Inr (''I'' @ apostrophe @ ''m missing some information. Let'' @ apostrophe @
                      ''s start over. Who would you like to schedule with?'',
                      dict_set ctx ''phase'' (JStr ''init'')))
      else Inr (''What would you like to change about the appointment?'',
                dict_set ctx ''phase'' (JStr ''asking_change'')))"

text \<open>Lines 852 to 1037: the chain of branches on the phase the turn started in.\<close>

definition phase_block :: "string \<Rightarrow> string \<Rightarrow> jval \<Rightarrow> jval \<Rightarrow> conversation \<Rightarrow> py_error + string \<times> conversation" where
  "phase_block now ml intent phase ctx =
     (if phase = JStr ''asking_person_check''
      then (if present ctx ''person''
            then answer (dict_set ctx ''phase'' (JStr ''asking_date_check''))
                   [T ''For which date would you like to check '', K ''person'',
                    T (apostrophe @ ''s availability?'')]
            else answer ctx [T ''I need to know whose availability you want to check. Please provide a name.''])
      else if phase = JStr ''asking_date_check''
      then (if present ctx ''date''
            then answer (dict_set ctx ''phase'' (JStr ''showing_availability''))
                   [K ''person'', T '' is available on '', K ''date'',
                    T ('' at the following times: '' @ available_times_str)]
            else answer ctx [T ''I need a date to check availability for '', K ''person'',
                             T ''. What day are you interested in?''])
      else if phase = JStr ''showing_availability'' \<and> contains ''time'' ml
      then availability_choice ml ctx
      else if phase = JStr ''asking_person_cancel''
      then (if present ctx ''person''
            then answer (dict_set ctx ''phase'' (JStr ''asking_date_cancel''))
                   [T ''On what date is the appointment with '', K ''person'', T '' that you want to cancel?'']
            else answer ctx [T ''I need to know whose appointment you want to cancel. Please provide a name.''])
      else if phase = JStr ''asking_date_cancel''
      then (if present ctx ''date''
            then answer (dict_set ctx ''phase'' (JStr ''asking_time_cancel''))
                   [T ''At what time is the appointment with '', K ''person'', T '' on '', K ''date'',
                    T '' that you want to cancel?'']
            else answer ctx [T ''I need to know the date of the appointment with '', K ''person'',
                             T '' that you want to cancel.''])
      else if phase = JStr ''asking_time_cancel''
      then (if present ctx ''time''
            then (case dict_get ctx ''person'' of
                    None \<Rightarrow> Inl KeyError
                  | Some p \<Rightarrow>
                      answer (dict_set (dict_set ctx ''phase'' (JStr ''confirming_cancel''))
                                ''previous_person'' p) cancel_confirm_pieces)
            else answer ctx [T ''At what time is the appointment with '', K ''person'', T '' on '', K ''date'',
                             T '' that you want to cancel?''])
      else if phase = JStr ''confirming_cancel''
      then (if any_in affirmative_words ml
            then Inr (finalize_cancel now ctx)
            else Inr (''What would you like to change about the cancellation?'',
                      dict_set ctx ''phase'' (JStr ''asking_change_cancel'')))
      else if phase = JStr ''asking_person''
      then (if present ctx ''person''
            then answer (dict_set ctx ''phase'' (JStr ''asking_date''))
                   [T ''What day would you like to schedule with '', K ''person'', T ''?'']
            else answer ctx [T ''I need to know who you want to schedule with. Please provide a name.''])
      else if phase = JStr ''asking_date''
      then (if present ctx ''date''
            then answer (dict_set ctx ''phase'' (JStr ''asking_time'')) ask_time_pieces
            else answer ctx [T ''I need a date for your appointment with '', K ''person'',
                             T ''. When would you like to schedule it?''])
      else if phase = JStr ''asking_time''
      then (if present ctx ''time''
            then answer (dict_set ctx ''phase'' (JStr ''confirming'')) schedule_confirm_pieces
            else answer ctx ask_time_pieces)
      else if phase = JStr ''confirming''
      then confirming_block ml ctx
      else if phase \<in> set [JStr ''asking_change'', JStr ''asking_change_cancel'']
      then change_block ml intent ctx
      else Inr ([], ctx))"

text \<open>Lines 1040 to 1053: the generic answer, and the marks of a completed conversation.\<close>

definition finish :: "string \<Rightarrow> jval \<Rightarrow> string \<times> conversation \<Rightarrow> string \<times> conversation" where
  "finish now phase rc =
     (let response = (if fst rc = [] then ''I'' @ apostrophe @ ''m not sure what you want to do with your appointment. Can you please be more specific?'' else fst rc);
          ctx = snd rc
      in (response,
          if phase = JStr ''completed'' \<or> get ctx ''phase'' = JStr ''completed''
          then mark_completed now ctx else ctx))"

text \<open>
  \<^verbatim>\<open>process_appointment_intent\<close>. The result is the response and the context; an exception
  leaves the function. No branch calls the persistence layer: \<^verbatim>\<open>db\<close> is created in main.py
  and never used, the three calls are comments.
\<close>

definition process_appointment_intent :: "string \<Rightarrow> string \<Rightarrow> conversation \<Rightarrow> py_error + string \<times> conversation" where
  "process_appointment_intent now message_text context0 =
     (let intent = get_default context0 ''intent'' (JStr ''schedule_appointment'');
          phase = get_default context0 ''phase'' (JStr ''init'');
          ml = lower message_text;
          ctx = (if phase = JStr ''asking_time'' \<and> \<not> has_key context0 ''time'' \<and> any_found anytime_patterns ml
                 then dict_set context0 ''time'' (JStr ''first available'') else context0)
      in if any_in cancel_current_patterns ml \<and> present ctx ''person'' \<and> present ctx ''date''
         then (let ctx' = dict_set (dict_set ctx ''intent'' (JStr ''cancel_appointment''))
                            ''phase'' (JStr ''confirming_cancel'')
               in Inr (''I'' @ apostrophe @ ''ll cancel your appointment with '' @ py_str (get ctx' ''person'') @
                       '' on '' @ py_str (get ctx' ''date'') @ '' at '' @
                       py_str (get_default ctx' ''time'' (JStr ''the scheduled time'')) @
                       ''. Is that correct?'', ctx'))
         else if intent = JStr ''check_availability'' then check_availability_block ctx
         else if intent = JStr ''cancel_appointment'' then cancel_block now ml phase ctx
         else map_sum id (finish now phase)
                (if \<not> truthy phase \<or> phase = JStr ''init'' then init_block intent ctx
                 else phase_block now ml intent phase ctx))"

text \<open>The calls of the persistence layer a turn makes: the source makes none.\<close>

datatype db_call = AddAppointment string string string | CancelAppointment string string string

definition persistence_calls :: "string \<Rightarrow> string \<Rightarrow> conversation \<Rightarrow> db_call list" where
  "persistence_calls now message_text context0 = []"

section \<open>Entity extraction (entity\_extractor.py, extract\_entities)\<close>

record entities =
  e_person :: "string option"
  e_date :: "string option"
  e_time :: "string option"

definition temporal_words :: "string list" where
  "temporal_words =
    [''next'', ''last'', ''this'', ''tomorrow'', ''today'', ''yesterday'',
     ''monday'', ''tuesday'', ''wednesday'', ''thursday'', ''friday'', ''saturday'', ''sunday'',
     ''january'', ''february'', ''march'', ''april'', ''may'', ''june'',
     ''july'', ''august'', ''september'', ''october'', ''november'', ''december'',
     ''week'', ''month'', ''year'', ''am'', ''pm'', ''morning'', ''afternoon'', ''evening'', ''night'']"

definition stop_words :: "string list" where
  "stop_words =
    [''with'', ''for'', ''at'', ''on'', ''in'', ''the'', ''and'', ''or'', ''but'', ''because'', ''as'',
     ''hi'', ''hello'', ''hey'', ''can'', ''could'', ''would'', ''will'', ''shall'', ''must'', ''should'',
     ''may'', ''might'', ''do'', ''does'', ''did'', ''has'', ''have'', ''had'', ''is'', ''am'', ''are'',
     ''was'', ''were'', ''be'', ''been'', ''being'', ''you'', ''your'', ''me'', ''my'', ''i'', ''we'', ''us'',
     ''please'', ''thanks'', ''thank'', ''want'', ''need'', ''like'', ''help'', ''an'', ''a'', ''to'', ''from'',
     ''by'', ''of'', ''it'', ''its'', ''they'', ''their'', ''them'', ''there'', ''here'', ''where'', ''when'', ''how'']"

definition domain_specific_words :: "string list" where
  "domain_specific_words =
    [''appointment'', ''schedule'', ''book'', ''make'', ''set'', ''get'', ''find'',
     ''check'', ''show'', ''list'', ''cancel'', ''reschedule'', ''time'', ''date'',
     ''meeting'', ''consultation'', ''session'', ''visit'', ''call'', ''talk'',
     ''availability'', ''availibility'', ''available'', ''free'', ''busy'', ''slot'', ''opening'']"

text \<open>\<^verbatim>\<open>w not in stop_words and w not in temporal_words and w not in domain_specific_words\<close>\<close>

definition name_word :: "string \<Rightarrow> bool" where
  "name_word w = (w \<notin> set stop_words \<and> w \<notin> set temporal_words \<and> w \<notin> set domain_specific_words)"

definition honorific :: regex where
  "honorific = Alts [Lit ''dr'', Lit ''mr'', Lit ''mrs'', Lit ''ms'', Lit ''miss'', Lit ''prof'']"

definition letters :: string where
  "letters = upper_letters @ lower_letters"

definition name_token :: regex where
  "name_token = Seq (Sym (CIn letters)) (Plus (Sym (CIn lower_letters)))"

text \<open>\<^verbatim>\<open>{lead}\s+((?:dr|mr|mrs|ms|miss|prof)\.?\s+)?([A-Za-z][a-z]+)(?:\s+([A-Za-z][a-z]+))?\<close>, where
  the lead is \<^verbatim>\<open>(?:of|for)\<close>, \<^verbatim>\<open>with\<close>, \<^verbatim>\<open>for\<close> or \<^verbatim>\<open>see\<close>.\<close>

definition person_pattern :: "regex \<Rightarrow> regex" where
  "person_pattern lead =
     Seqs [lead, Plus (Sym CSpace),
           Opt (Grp 1 (Seqs [honorific, Opt (Lit ''.''), Plus (Sym CSpace)])),
           Grp 2 name_token,
           Opt (Seq (Plus (Sym CSpace)) (Grp 3 name_token))]"

text \<open>\<^verbatim>\<open>" ".join(parts)\<close>\<close>

fun join_space :: "string list \<Rightarrow> string" where
  "join_space [] = []"
| "join_space [p] = p"
| "join_space (p # ps) = p @ '' '' @ join_space ps"

text \<open>The name a match of one of the four patterns gives, if its first token is no listed word.\<close>

definition name_of_match :: "mstate \<Rightarrow> string option" where
  "name_of_match m =
     (let title = (case group m 1 of None \<Rightarrow> [] | Some s \<Rightarrow> s);
          first = fmt_group m 2;
          last = (case group m 3 of None \<Rightarrow> [] | Some s \<Rightarrow> s)
      in if name_word first
         then Some (join_space ((if title \<noteq> [] then [capitalize (strip title)] else []) @
                                [capitalize first] @
                                (if last \<noteq> [] \<and> name_word last then [capitalize last] else [])))
         else None)"

definition person_by_pattern :: "regex \<Rightarrow> string \<Rightarrow> string option" where
  "person_by_pattern lead text_lower =
     (case re_search (person_pattern lead) text_lower of None \<Rightarrow> None | Some m \<Rightarrow> name_of_match m)"

text \<open>\<^verbatim>\<open>if not entities["person"]: ...\<close>: the next attempt runs when there is no name yet, or
  an empty one.\<close>

definition or_else :: "string option \<Rightarrow> string option \<Rightarrow> string option" where
  "or_else a b = (case a of None \<Rightarrow> b | Some s \<Rightarrow> if s = [] then b else Some s)"

text \<open>\<^verbatim>\<open>^\d+\<close>\<close>

definition leading_digits :: regex where
  "leading_digits = Seq Bol (Plus (Sym CDigit))"

text \<open>The last resort: the first word that is no listed word, does not start with a digit and
  does not end in \<^verbatim>\<open>th\<close>, \<^verbatim>\<open>rd\<close> or \<^verbatim>\<open>st\<close>.\<close>

definition candidate_word :: "string \<Rightarrow> bool" where
  "candidate_word word =
     (let word_lower = lower word
      in name_word word_lower \<and> re_match leading_digits word = None \<and>
         \<not> endswith word_lower ''th'' \<and> \<not> endswith word_lower ''rd'' \<and> \<not> endswith word_lower ''st'')"

definition person_by_words :: "string list \<Rightarrow> string option" where
  "person_by_words words = map_option capitalize (find candidate_word words)"

text \<open>\<^verbatim>\<open>x = f(text); if x: entities[k] = x\<close>\<close>

definition nonempty :: "string option \<Rightarrow> string option" where
  "nonempty a = (case a of None \<Rightarrow> None | Some s \<Rightarrow> if s = [] then None else Some s)"

definition entity_person :: "string \<Rightarrow> string option" where
  "entity_person text =
     (let text_lower = lower text; words = split text
      in if length words = 1 \<and> name_word (lower (hd words))
         then Some (capitalize (hd words))
         else or_else (or_else (or_else (or_else
                (person_by_pattern (Alts [Lit ''of'', Lit ''for'']) text_lower)
                (person_by_pattern (Lit ''with'') text_lower))
                (person_by_pattern (Lit ''for'') text_lower))
                (person_by_pattern (Lit ''see'') text_lower))
                (person_by_words words))"

text \<open>\<^verbatim>\<open>EntityExtractor.extract_entities\<close>: both branches extract the date and the time in the
  same way.\<close>

definition extractor_entities :: "nat \<Rightarrow> string \<Rightarrow> py_error + entities" where
  "extractor_entities curr_year text =
     (case extract_date curr_year text of
        Inl e \<Rightarrow> Inl e
      | Inr d \<Rightarrow>
         (case extract_time text of
            Inl e \<Rightarrow> Inl e
          | Inr t \<Rightarrow> Inr \<lparr>e_person = entity_person text, e_date = nonempty d, e_time = nonempty t\<rparr>))"

section \<open>Relative dates and names that are none (main.py)\<close>

definition full_months :: regex where
  "full_months = Alts (map Lit months)"

definition short_months :: regex where
  "short_months = Alts (map Lit month_abbr)"

definition day_with_suffix :: regex where
  "day_with_suffix = Seq (Grp 1 d12) (Opt ordinal_suffix)"

text \<open>The four \<^verbatim>\<open>date_patterns\<close> of \<^verbatim>\<open>enhance_entity_extraction\<close>: day before month and month
  before day, for the full and for the short month names.\<close>

definition day_month_pattern :: "regex \<Rightarrow> regex" where
  "day_month_pattern ms =
     Seqs [Grp 1 d12, Opt ordinal_suffix, Plus (Sym CSpace), Opt (Seq (Lit ''of'') (Plus (Sym CSpace))),
           Grp 2 ms]"

definition month_day_pattern :: "regex \<Rightarrow> regex" where
  "month_day_pattern ms = Seqs [Grp 1 ms, Plus (Sym CSpace), Grp 2 d12, Opt ordinal_suffix]"

definition date_patterns :: "regex list" where
  "date_patterns =
     [day_month_pattern full_months, month_day_pattern full_months,
      day_month_pattern short_months, month_day_pattern short_months]"

definition month_to_num :: "(string \<times> nat) list" where
  "month_to_num =
     [(''january'', 1), (''february'', 2), (''march'', 3), (''april'', 4), (''may'', 5), (''june'', 6),
      (''july'', 7), (''august'', 8), (''september'', 9), (''october'', 10), (''november'', 11),
      (''december'', 12), (''jan'', 1), (''feb'', 2), (''mar'', 3), (''apr'', 4), (''jun'', 6),
      (''jul'', 7), (''aug'', 8), (''sep'', 9), (''oct'', 10), (''nov'', 11), (''dec'', 12)]"

text \<open>One pattern of the loop: \<open>None\<close> when the loop goes on, the date when it breaks.
  \<^verbatim>\<open>re.sub(r'[^\d]', '', day)\<close> keeps the digits.\<close>

definition plain_date_attempt :: "nat \<Rightarrow> string \<Rightarrow> regex \<Rightarrow> py_error + string option" where
  "plain_date_attempt curr_year text_lower pat =
     (case re_search pat text_lower of
        None \<Rightarrow> Inr None
      | Some m \<Rightarrow>
         (let g1 = fmt_group m 1; g2 = fmt_group m 2;
              month_first = (map_of month_to_num g1 \<noteq> None);
              mon = (if month_first then g1 else g2);
              dy = (if month_first then g2 else g1)
          in case map_of month_to_num mon of
               None \<Rightarrow> Inl KeyError
             | Some month_num \<Rightarrow>
                 (case py_int (filter is_digit dy) of
                    Inl e \<Rightarrow> Inl e
                  | Inr day_num \<Rightarrow>
                      if 1 \<le> day_num \<and> day_num \<le> 31
                      then Inr (Some (dec curr_year @ ''-'' @ pad2 month_num @ ''-'' @ pad2 day_num))
                      else Inr None)))"

text \<open>\<^verbatim>\<open>\b(20\d{2})\b\<close>, searched in the text as it is.\<close>

definition year_pattern :: regex where
  "year_pattern = Seqs [WordB, Grp 1 (Seqs [Lit ''20'', Sym CDigit, Sym CDigit]), WordB]"

text \<open>
  The clock, the libraries and the collaborators a turn depends on: today's date and the
  time stamp of \<^verbatim>\<open>datetime.now()\<close>; \<^verbatim>\<open>dateutil.parser.parse\<close>; the language model behind
  \<^verbatim>\<open>agent.run\<close> for the entity prompt (given the utterance and the slots asked for) and for
  the intent prompt (given the utterance); \<^verbatim>\<open>json.loads\<close>; whether the turn has a session id,
  and what \<^verbatim>\<open>get_previous_intent\<close> finds in the session memory (\<^verbatim>\<open>None\<close> without a session);
  the text \<^verbatim>\<open>generate_conversation_summary\<close> returns and the response
  \<^verbatim>\<open>handle_knowledge_query\<close> gives to a question.
\<close>

record env =
  env_today :: date
  env_now :: string
  env_fuzzy_parse :: "string \<Rightarrow> date option"
  env_agent :: "string \<Rightarrow> string list \<Rightarrow> agent_outcome"
  env_loads :: "string \<Rightarrow> py_error + json_top"
  env_intent_reply :: "string \<Rightarrow> agent_outcome"
  env_session :: bool
  env_previous_intent :: jval
  env_summary :: string
  env_knowledge :: "string \<Rightarrow> string"

text \<open>\<^verbatim>\<open>enhance_entity_extraction\<close>\<close>

definition enhance_entity_extraction :: "env \<Rightarrow> string \<Rightarrow> py_error + entities" where
  "enhance_entity_extraction E text =
     (let curr_year = year (env_today E) in
      case extractor_entities curr_year text of
        Inl e \<Rightarrow> Inl e
      | Inr ents \<Rightarrow>
          if e_date ents \<noteq> None then Inr ents
          else case parse_relative_date (env_today E) (env_fuzzy_parse E) text of
                 Inl e \<Rightarrow> Inl e
               | Inr (Some d) \<Rightarrow> Inr (ents\<lparr>e_date := Some (format_date_for_display d)\<rparr>)
               | Inr None \<Rightarrow>
                   (case first_result (map (plain_date_attempt curr_year (lower text)) date_patterns) of
                      Inl e \<Rightarrow> Inl e
                    | Inr (Some d) \<Rightarrow> Inr (ents\<lparr>e_date := Some d\<rparr>)
                    | Inr None \<Rightarrow>
                        (case re_search year_pattern text of
                           None \<Rightarrow> Inr ents
                         | Some m \<Rightarrow> Inr (ents\<lparr>e_date := Some (fmt_group m 1 @ ''-01-01'')\<rparr>))))"

definition common_responses :: "string list" where
  "common_responses = [''yes'', ''no'', ''okay'', ''sure'', ''correct'', ''right'', ''thanks'', ''thank'', ''please'']"

definition common_words :: "string list" where
  "common_words =
    [''feeling'', ''anytime'', ''anything'', ''something'', ''nothing'', ''anyone'', ''someone'',
     ''nobody'', ''everybody'', ''everyone'', ''whenever'', ''whatever'', ''however'', ''anywhere'',
     ''going'', ''looking'', ''thinking'', ''trying'', ''hoping'', ''planning'', ''wanting'', ''needing'',
     ''one'', ''two'', ''three'', ''four'', ''five'', ''six'', ''seven'', ''eight'', ''nine'', ''ten'',
     ''first'', ''second'', ''third'', ''fourth'', ''fifth'', ''last'', ''next'', ''this'', ''that'',
     ''these'', ''those'', ''there'', ''here'', ''today'', ''tomorrow'', ''yesterday'',
     ''monday'', ''tuesday'', ''wednesday'', ''thursday'', ''friday'', ''saturday'', ''sunday'']"

text \<open>\<^verbatim>\<open>^\d{1,2}:\d{2}$\<close>, \<^verbatim>\<open>^\d{1,2}(am|pm|a\.m\.|p\.m\.)$\<close>, \<^verbatim>\<open>^\d{1,2}\s*(am|pm|a\.m\.|p\.m\.)$\<close>\<close>

definition time_patterns :: "regex list" where
  "time_patterns =
     [Seqs [Bol, Sym CDigit, Opt (Sym CDigit), Lit '':'', Sym CDigit, Sym CDigit, Eol],
      Seqs [Bol, Sym CDigit, Opt (Sym CDigit), Grp 1 ampm, Eol],
      Seqs [Bol, Sym CDigit, Opt (Sym CDigit), Star (Sym CSpace), Grp 1 ampm, Eol]]"

definition scheduling_keywords :: "string list" where
  "scheduling_keywords = [''another'', ''new'', ''schedule'', ''appointment'', ''what'', ''ai'']"

text \<open>The names that \<^verbatim>\<open>extract_entities\<close> of main.py drops again.\<close>

definition rejected_name :: "string \<Rightarrow> string \<Rightarrow> bool" where
  "rejected_name text p =
     ((length (split text) > 2 \<and> startswith (strip text) p \<and> length (split p) = 1) \<or>
      lower p \<in> set common_responses \<or>
      lower p \<in> set common_words \<or>
      list_ex (\<lambda>pat. re_match pat (lower p) \<noteq> None) time_patterns \<or>
      lower p \<in> set scheduling_keywords)"

text \<open>\<^verbatim>\<open>extract_entities\<close> of main.py\<close>

definition extract_entities :: "env \<Rightarrow> string \<Rightarrow> py_error + entities" where
  "extract_entities E text =
     (case enhance_entity_extraction E text of
        Inl e \<Rightarrow> Inl e
      | Inr ents \<Rightarrow>
          (case e_person ents of
             None \<Rightarrow> Inr ents
           | Some p \<Rightarrow> if rejected_name text p then Inr (ents\<lparr>e_person := None\<rparr>) else Inr ents))"

section \<open>A turn of an appointment conversation (main.py, handle\_appointment\_query)\<close>

text \<open>
  The session memory is left out: with a session id the source also appends to the global
  \<^verbatim>\<open>memory\<close>, which \<^verbatim>\<open>handle_appointment_query\<close> never reads, so the response and the
  context do not depend on it.
\<close>

definition appointment_intents :: "string list" where
  "appointment_intents =
     [''schedule_appointment'', ''cancel_appointment'', ''check_availability'', ''list_appointments'']"

definition person_asking_phases :: "jval list" where
  "person_asking_phases =
     [JStr ''init'', JStr ''asking_person'', JStr ''asking_person_cancel'', JStr ''asking_person_check'']"

text \<open>Lines 1065 to 1091: the intent of the context, set or switched by the intent of the
  utterance; a switch forgets the phase.\<close>

definition settle_intent :: "string \<Rightarrow> conversation \<Rightarrow> conversation" where
  "settle_intent message_text ctx =
     (let intent = identify_intent message_text
      in if \<not> has_key ctx ''intent''
         then dict_set ctx ''intent''
                (JStr (if intent \<in> set appointment_intents then intent else ''schedule_appointment''))
         else if intent \<in> set appointment_intents \<and> JStr intent \<noteq> get ctx ''intent''
         then dict_pop (dict_set ctx ''intent'' (JStr intent)) ''phase''
         else ctx)"

text \<open>\<^verbatim>\<open>not entities.get(k) and not context.get(k)\<close>\<close>

definition given :: "string option \<Rightarrow> bool" where
  "given a = (case a of None \<Rightarrow> False | Some s \<Rightarrow> s \<noteq> [])"

definition lacking :: "string option \<Rightarrow> conversation \<Rightarrow> string \<Rightarrow> bool" where
  "lacking a ctx k = (\<not> given a \<and> \<not> present ctx k)"

text \<open>Lines 1098 to 1120: the slots to ask the language model for.\<close>

definition missing_slots :: "entities \<Rightarrow> conversation \<Rightarrow> string list" where
  "missing_slots ents ctx =
     (if get ctx ''intent'' = JStr ''schedule_appointment''
      then (if lacking (e_person ents) ctx ''person'' then [''person''] else []) @
           (if lacking (e_date ents) ctx ''date'' then [''date''] else []) @
           (if lacking (e_time ents) ctx ''time'' then [''time''] else [])
      else if get ctx ''intent'' = JStr ''cancel_appointment''
      then (if lacking (e_person ents) ctx ''person'' then [''person''] else []) @
           (if lacking (e_date ents) ctx ''date'' \<and> lacking (e_time ents) ctx ''time''
            then [''date'', ''time''] else [])
      else if get ctx ''intent'' = JStr ''check_availability''
      then (if lacking (e_person ents) ctx ''person'' then [''person''] else [])
      else [])"

text \<open>Lines 1126 to 1143: a short reply to a question for a name is taken as the name.\<close>

definition name_reply :: "string \<Rightarrow> conversation \<Rightarrow> string list \<Rightarrow> bool" where
  "name_reply message_text ctx missing =
     (missing \<noteq> [] \<and> has_key ctx ''phase'' \<and>
      get ctx ''phase'' \<in> set [JStr ''asking_person'', JStr ''asking_person_cancel'', JStr ''asking_person_check''] \<and>
      length (split message_text) \<le> 3 \<and>
      length (strip message_text) > 1 \<and>
      lower (strip message_text) \<notin> set domain_specific_words)"

text \<open>The guard of lines 1156 to 1160 and 1189 to 1193: the context came with a person and
  the turn did not start in a phase that asks for one.\<close>

definition person_locked :: "conversation \<Rightarrow> bool" where
  "person_locked ctx0 = (get ctx0 ''person'' \<noteq> JNull \<and> get ctx0 ''phase'' \<notin> set person_asking_phases)"

text \<open>Lines 1147 to 1168: the extracted entities enter the context.\<close>

definition merge_slot :: "bool \<Rightarrow> string \<Rightarrow> string option \<Rightarrow> conversation \<Rightarrow> conversation" where
  "merge_slot locked key v ctx =
     (case v of
        None \<Rightarrow> ctx
      | Some s \<Rightarrow>
          if s = [] then ctx
          else if key = ''person'' \<and> lower s \<in> set [''availability'', ''availibility'', ''appointment''] then ctx
          else if key = ''person'' \<and> locked then ctx
          else dict_set ctx key (JStr s))"

definition merge_entities :: "bool \<Rightarrow> entities \<Rightarrow> conversation \<Rightarrow> conversation" where
  "merge_entities locked ents ctx =
     merge_slot locked ''time'' (e_time ents)
       (merge_slot locked ''date'' (e_date ents)
          (merge_slot locked ''person'' (e_person ents) ctx))"

text \<open>\<^verbatim>\<open>\d{1,2}:\d{2}\<close>\<close>

definition hour_minute_pattern :: regex where
  "hour_minute_pattern = Seqs [Sym CDigit, Opt (Sym CDigit), Lit '':'', Sym CDigit, Sym CDigit]"

text \<open>Lines 1172 to 1205: the values of the language model enter the context, for the slots
  asked for. The call stands in a \<^verbatim>\<open>try\<close> statement whose handler prints what was raised:
  the context is then as it was.\<close>

definition merge_ai_slot :: "bool \<Rightarrow> ai_result \<Rightarrow> conversation \<Rightarrow> string \<Rightarrow> conversation" where
  "merge_ai_slot locked r ctx key =
     (let v = slot_of r key
      in if \<not> truthy v then ctx
         else if key = ''person'' \<and>
                 (found iso_date_pattern (py_str v) \<or> found hour_minute_pattern (py_str v)) then ctx
         else if key = ''person'' \<and> locked then ctx
         else dict_set ctx key v)"

definition merge_ai :: "env \<Rightarrow> bool \<Rightarrow> string \<Rightarrow> string list \<Rightarrow> conversation \<Rightarrow> conversation" where
  "merge_ai E locked message_text missing ctx =
     (if missing = [] then ctx
      else case extract_entities_with_ai (env_loads E) (env_agent E message_text missing) missing of
             Inl e \<Rightarrow> ctx
           | Inr r \<Rightarrow> foldl (merge_ai_slot locked r) ctx missing)"

text \<open>The context after extraction and merging, before the state machine runs.\<close>

definition merged_context :: "env \<Rightarrow> string \<Rightarrow> conversation \<Rightarrow> py_error + conversation" where
  "merged_context E message_text context0 =
     (let locked = person_locked context0;
          ctx1 = settle_intent message_text context0
      in case extract_entities E message_text of
           Inl e \<Rightarrow> Inl e
         | Inr ents0 \<Rightarrow>
             (let missing0 = missing_slots ents0 ctx1;
                  is_name = name_reply message_text ctx1 missing0;
                  ents = (if is_name then ents0\<lparr>e_person := Some (capitalize (strip message_text))\<rparr>
                          else ents0);
                  missing = (if is_name then filter (\<lambda>e. e \<noteq> ''person'') missing0 else missing0)
              in Inr (merge_ai E locked message_text missing (merge_entities locked ents ctx1))))"

text \<open>\<^verbatim>\<open>handle_appointment_query\<close>: the response and the context of the turn.\<close>

definition handle_appointment_query :: "env \<Rightarrow> string \<Rightarrow> conversation \<Rightarrow> py_error + string \<times> conversation" where
  "handle_appointment_query E message_text context0 =
     (case merged_context E message_text context0 of
        Inl e \<Rightarrow> Inl e
      | Inr ctx \<Rightarrow> process_appointment_intent (env_now E) message_text ctx)"


text \<open>A conversation: the turns in order, each on the context the turn before left.\<close>

fun run_turns :: "env \<Rightarrow> string list \<Rightarrow> conversation \<Rightarrow> py_error + conversation" where
  "run_turns E [] ctx = Inr ctx"
| "run_turns E (m # ms) ctx =
     (case handle_appointment_query E m ctx of
        Inl e \<Rightarrow> Inl e
      | Inr rc \<Rightarrow> run_turns E ms (snd rc))"

section \<open>Routing a message (main.py, process\_message)\<close>





















section \<open>What a pattern needs of the text\<close>

text \<open>
  A search that fails is dear to evaluate and cheap to foretell: a pattern that holds a word can
  only be found in a text that holds the word. A requirement is a literal text, a character of
  a class, or one of two requirements; \<open>reqs\<close> lists requirements of a pattern, taken from
  the parts every match runs through.
\<close>

datatype req = RLit string | RCls cset | ROr req req

fun reqs :: "regex \<Rightarrow> req list" where
  "reqs (Lit l) = [RLit l]"
| "reqs (Sym cs) = [RCls cs]"
| "reqs (Seq a b) = reqs a @ reqs b"
| "reqs (Grp n a) = reqs a"
| "reqs (Alt a b) = (case (reqs a, reqs b) of (qa # _, qb # _) \<Rightarrow> [ROr qa qb] | _ \<Rightarrow> [])"
| "reqs r = []"

fun req_ok :: "req \<Rightarrow> string \<Rightarrow> bool" where
  "req_ok (RLit l) s = contains l s"
| "req_ok (RCls cs) s = list_ex (cset_mem cs) s"
| "req_ok (ROr a b) s = (req_ok a s \<or> req_ok b s)"

text \<open>What a step of the matcher consumed: the state after it is the state before it, moved over \<open>u\<close>.\<close>

definition consumed :: "mstate \<Rightarrow> mstate \<Rightarrow> string \<Rightarrow> bool" where
  "consumed st st' u = (fst (snd st) = u @ fst (snd st') \<and> fst st' = rev u @ fst st)"

text \<open>A pattern is excluded from a text that misses one of its requirements.\<close>

definition excluded :: "regex \<Rightarrow> string \<Rightarrow> bool" where
  "excluded p s = list_ex (\<lambda>q. \<not> req_ok q s) (reqs p)"

text \<open>The texts in which the extractors find nothing: no pattern of \<^verbatim>\<open>_extract_date\<close>, of
  \<^verbatim>\<open>_extract_time\<close>, of \<^verbatim>\<open>parse_relative_date\<close> or of the plain dates has its words there, no
  year, no pattern of an intent, and no lead of a name.\<close>

definition date_excluded :: "string \<Rightarrow> bool" where
  "date_excluded s =
     list_all (\<lambda>m. excluded (date_pattern1 m) s \<and> excluded (date_pattern2 m) s \<and>
                    excluded (date_pattern3 m) s \<and> excluded (date_pattern4 m) s) (months @ month_abbr)"

definition time_excluded :: "string \<Rightarrow> bool" where
  "time_excluded s = (excluded hour12_pattern s \<and> excluded simple_hour_pattern s)"

definition relative_excluded :: "string \<Rightarrow> bool" where
  "relative_excluded s =
     (\<not> contains ''tomorrow'' s \<and> \<not> contains ''today'' s \<and> \<not> contains ''yesterday'' s \<and>
      list_all (\<lambda>dn. excluded (next_day_pattern (fst dn)) s \<and> excluded (this_day_pattern (fst dn)) s \<and>
                      excluded (just_day_pattern (fst dn)) s) days_of_week \<and>
      excluded (in_time_pattern ''in'') s \<and> excluded (in_time_pattern ''after'') s \<and>
      excluded from_now_pattern s \<and> excluded from_date_pattern s \<and>
      \<not> contains ''end of month'' s \<and> \<not> contains ''beginning of month'' s \<and>
      \<not> contains ''start of month'' s \<and> \<not> contains ''end of next month'' s \<and>
      \<not> contains ''beginning of next month'' s \<and> \<not> contains ''start of next month'' s)"

definition plain_excluded :: "string \<Rightarrow> bool" where
  "plain_excluded s = list_all (\<lambda>p. excluded p s) date_patterns"

definition no_date_in :: "string \<Rightarrow> bool" where
  "no_date_in text0 =
     (date_excluded (lower text0) \<and> relative_excluded (lower text0) \<and> plain_excluded (lower text0) \<and>
      excluded year_pattern text0)"

definition intent_excluded :: "string \<Rightarrow> bool" where
  "intent_excluded s =
     list_all (\<lambda>p. excluded p s)
       (knowledge_patterns @ check_availability_patterns @ cancel_patterns @ schedule_patterns @
        list_appointments_patterns)"

definition leads_excluded :: "string \<Rightarrow> bool" where
  "leads_excluded s =
     (excluded (person_pattern (Alts [Lit ''of'', Lit ''for''])) s \<and>
      excluded (person_pattern (Lit ''with'')) s \<and> excluded (person_pattern (Lit ''for'')) s \<and>
      excluded (person_pattern (Lit ''see'')) s)"

section \<open>Conversations\<close>



text \<open>An environment: Wednesday, 4 November 2026; a language model that is out of reach; no
  session.\<close>

definition quiet_env :: env where
  "quiet_env =
     \<lparr>env_today = \<lparr>year = 2026, month = 11, day = 4\<rparr>, env_now = ''2026-11-04T10:00:00'',
      env_fuzzy_parse = (\<lambda>s. None), env_agent = (\<lambda>t ms. AgentRaised), env_loads = loads_rejecting,
      env_intent_reply = (\<lambda>t. AgentRaised), env_session = False, env_previous_intent = JNull,
      env_summary = ''No conversation history found.'', env_knowledge = (\<lambda>t. ''An answer.'')\<rparr>"

text \<open>The contexts of the conversations below.\<close>

definition schedule_start :: conversation where
  "schedule_start = [(''intent'', JStr ''schedule_appointment''), (''phase'', JStr ''init'')]"

definition confirming_john :: conversation where
  "confirming_john =
     [(''intent'', JStr ''schedule_appointment''), (''phase'', JStr ''confirming''),
      (''person'', JStr ''John''), (''date'', JStr ''Thursday, November 05, 2026''),
      (''time'', JStr ''15:00'')]"





definition availability_smith :: conversation where
  "availability_smith =
     [(''intent'', JStr ''check_availability''), (''phase'', JStr ''showing_availability''),
      (''person'', JStr ''Dr. Smith''), (''date'', JStr ''2025-06-10'')]"

definition scheduling_smith :: conversation where
  "scheduling_smith =
     [(''intent'', JStr ''schedule_appointment''), (''phase'', JStr ''showing_availability''),
      (''person'', JStr ''Dr. Smith''), (''date'', JStr ''2025-06-10'')]"





section \<open>The replies at a confirmation (main.py, lines 923 to 1037)\<close>









section \<open>Properties of the matcher\<close>

lemma star_greedy_frame:
  assumes "\<And>s s'. s' \<in> set (f s) \<Longrightarrow> Q s' = Q s"
  shows "st' \<in> set (star_greedy k f st) \<Longrightarrow> Q st' = Q st"
proof (induction k arbitrary: st)
  case 0
  then show ?case by simp
next
  case (Suc k)
  from Suc.prems consider "st' = st"
    | s where "s \<in> set (f st)" "st' \<in> set (star_greedy k f s)"
    by (auto simp: group_def split: if_splits)
  then show ?case
  proof cases
    case 1
    then show ?thesis by simp
  next
    case 2
    then show ?thesis using Suc.IH assms by metis
  qed
qed

lemma star_lazy_frame:
  assumes "\<And>s s'. s' \<in> set (f s) \<Longrightarrow> Q s' = Q s"
  shows "st' \<in> set (star_lazy k f st) \<Longrightarrow> Q st' = Q st"
proof (induction k arbitrary: st)
  case 0
  then show ?case by simp
next
  case (Suc k)
  from Suc.prems consider "st' = st"
    | s where "s \<in> set (f st)" "st' \<in> set (star_lazy k f s)"
    by (auto simp: group_def split: if_splits)
  then show ?case
  proof cases
    case 1
    then show ?thesis by simp
  next
    case 2
    then show ?thesis using Suc.IH assms by metis
  qed
qed

lemma matches_frame:
  "st' \<in> set (matches r st) \<Longrightarrow> n \<notin> grps r \<Longrightarrow> group st' n = group st n"
proof (induction r arbitrary: st st')
  case (Star r)
  obtain p t c where st: "st = (p, t, c)" by (cases st)
  have fr: "\<And>s s'. s' \<in> set (matches r s) \<Longrightarrow> group s' n = group s n"
    using Star.IH Star.prems(2) by simp
  have "st' \<in> set (star_greedy (length t) (\<lambda>s. matches r s) st)"
    using Star.prems(1) unfolding st by simp
  from star_greedy_frame[of "\<lambda>s. matches r s" "\<lambda>s. group s n", OF fr this]
  show ?case .
next
  case (StarLazy r)
  obtain p t c where st: "st = (p, t, c)" by (cases st)
  have fr: "\<And>s s'. s' \<in> set (matches r s) \<Longrightarrow> group s' n = group s n"
    using StarLazy.IH StarLazy.prems(2) by simp
  have "st' \<in> set (star_lazy (length t) (\<lambda>s. matches r s) st)"
    using StarLazy.prems(1) unfolding st by simp
  from star_lazy_frame[of "\<lambda>s. matches r s" "\<lambda>s. group s n", OF fr this]
  show ?case .
next
  case (Seq a b)
  from Seq.prems(1) obtain s where s: "s \<in> set (matches a st)" "st' \<in> set (matches b s)"
    by auto
  have "group s n = group st n" using Seq.IH(1)[OF s(1)] Seq.prems(2) by simp
  moreover have "group st' n = group s n" using Seq.IH(2)[OF s(2)] Seq.prems(2) by simp
  ultimately show ?case by simp
next
  case (Grp k a)
  obtain p t c where st: "st = (p, t, c)" by (cases st)
  from Grp.prems(1) obtain p' t' c' where s: "(p', t', c') \<in> set (matches a st)"
     "st' = (p', t', (k, take (length t - length t') t) # c')"
    unfolding st by auto
  have "group (p', t', c') n = group st n" using Grp.IH[OF s(1)] Grp.prems(2) by simp
  then show ?case using s(2) Grp.prems(2) by (simp add: group_def)
next
  case Eps then show ?case by simp
next
  case (Sym x) then show ?case by (cases st) (auto simp: group_def split: list.splits if_splits)
next
  case (Lit x) then show ?case by (cases st) (auto simp: group_def split: if_splits)
next
  case (Alt a b)
  from Alt.prems(1) have "st' \<in> set (matches a st) \<or> st' \<in> set (matches b st)" by simp
  moreover have "n \<notin> grps a" "n \<notin> grps b" using Alt.prems(2) by simp_all
  ultimately show ?case using Alt.IH by blast
next
  case Bol then show ?case by (cases st) (auto simp: group_def split: if_splits)
next
  case Eol then show ?case by (cases st) (auto simp: group_def split: if_splits)
next
  case WordB then show ?case by (cases st) (auto simp: group_def split: if_splits)
qed

lemma search_from_Some:
  "search_from re p s = Some m \<Longrightarrow> \<exists>p' s'. m \<in> set (matches re (p', s', []))"
proof (induction s arbitrary: p)
  case Nil
  then show ?case by (auto split: list.splits) (metis list.set_intros(1))
next
  case (Cons x xs)
  then show ?case by (auto split: list.splits) (metis list.set_intros(1))
qed


lemma grp_d12:
  assumes "m \<in> set (matches (Grp 1 d12) (p, r, c))"
  shows "\<exists>ds. group m 1 = Some ds \<and> ds \<noteq> [] \<and> list_all is_digit ds \<and> length ds \<le> 2"
  using assms by (auto simp: d12_def Opt_def group_def split: list.splits if_splits)

lemma take_prefix_drop: "prefix l r \<Longrightarrow> take (length r - (length r - length l)) r = l"
  by (auto simp: prefix_def)

lemma matches_Grp_Lit:
  "matches (Grp n (Lit l)) (p, r, c) =
     (if prefix l r then [(rev l @ p, drop (length l) r, [(n, l)] @ c)] else [])"
  by (simp add: take_prefix_drop)

lemma matches_Grp_Alt:
  "matches (Grp n (Alt a b)) (p, r, c) = matches (Grp n a) (p, r, c) @ matches (Grp n b) (p, r, c)"
  by simp

lemma grp_dd:
  assumes "m \<in> set (matches (Grp n (Seq (Sym CDigit) (Sym CDigit))) (p, r, c))"
  shows "\<exists>ds. group m n = Some ds \<and> ds \<noteq> [] \<and> list_all is_digit ds"
  using assms by (auto simp: group_def split: list.splits if_splits)

lemma grp_ampm:
  assumes "m \<in> set (matches (Grp n ampm) (p, r, c))"
  shows "\<exists>per. group m n = Some per \<and> per \<in> set markers"
  using assms unfolding ampm_def Alts.simps matches_Grp_Alt matches_Grp_Lit
  by (auto simp: markers_def group_def split: if_splits)

lemma py_int_digits: "ds \<noteq> [] \<Longrightarrow> list_all is_digit ds \<Longrightarrow> \<exists>k. py_int ds = Inr k"
  by (simp add: py_int_def)

lemma matches_Opt: "s' \<in> set (matches (Opt a) s) \<Longrightarrow> s' = s \<or> s' \<in> set (matches a s)"
  by (auto simp: Opt_def)

lemma hour12_groups:
  assumes "m \<in> set (matches hour12_pattern (p, r, []))"
  shows "(\<exists>ds. group m 1 = Some ds \<and> ds \<noteq> [] \<and> list_all is_digit ds) \<and>
         (group m 2 = None \<or> (\<exists>ms. group m 2 = Some ms \<and> ms \<noteq> [] \<and> list_all is_digit ms)) \<and>
         (\<exists>per. group m 3 = Some per \<and> per \<in> set markers)"
proof -
  let ?colon = "Opt (Sym (CIn '':.h''))"
  let ?mins = "Opt (Grp 2 (Seq (Sym CDigit) (Sym CDigit)))"
  let ?sp = "Star (Sym CSpace)"
  from assms obtain s1 s2 s3 s4 where
    s1: "s1 \<in> set (matches (Grp 1 d12) (p, r, []))" and
    s2: "s2 \<in> set (matches ?colon s1)" and
    s3: "s3 \<in> set (matches ?mins s2)" and
    s4: "s4 \<in> set (matches ?sp s3)" and
    m: "m \<in> set (matches (Grp 3 ampm) s4)"
    unfolding hour12_pattern_def by (simp del: matches.simps(8) add: matches.simps(4)) blast
  have g1: "\<exists>ds. group s1 1 = Some ds \<and> ds \<noteq> [] \<and> list_all is_digit ds"
    using grp_d12[OF s1] by blast
  have s1_2: "group s1 2 = None"
    using matches_frame[OF s1, of 2] by (simp add: d12_def Opt_def group_def)
  have s2_1: "group s2 1 = group s1 1" and s2_2: "group s2 2 = group s1 2"
    using matches_frame[OF s2] by (simp_all add: Opt_def)
  have s3_1: "group s3 1 = group s2 1"
    using matches_frame[OF s3, of 1] by (simp add: Opt_def)
  have s3_2: "group s3 2 = None \<or> (\<exists>ms. group s3 2 = Some ms \<and> ms \<noteq> [] \<and> list_all is_digit ms)"
  proof -
    from matches_Opt[OF s3] show ?thesis
    proof
      assume "s3 = s2"
      then show ?thesis using s2_2 s1_2 by simp
    next
      assume a: "s3 \<in> set (matches (Grp 2 (Seq (Sym CDigit) (Sym CDigit))) s2)"
      obtain p2 r2 c2 where "s2 = (p2, r2, c2)" by (cases s2)
      with a grp_dd show ?thesis by blast
    qed
  qed
  have s4_1: "group s4 1 = group s3 1" and s4_2: "group s4 2 = group s3 2"
    using matches_frame[OF s4] by simp_all
  have m_1: "group m 1 = group s4 1" and m_2: "group m 2 = group s4 2"
    using matches_frame[OF m] by (simp_all add: ampm_def)
  obtain p4 r4 c4 where "s4 = (p4, r4, c4)" by (cases s4)
  with m grp_ampm have g3: "\<exists>per. group m 3 = Some per \<and> per \<in> set markers" by blast
  show ?thesis
    using g1 s2_1 s3_1 s3_2 s4_1 s4_2 m_1 m_2 g3 by simp
qed

lemma simple_groups:
  assumes "m \<in> set (matches simple_hour_pattern (p, r, []))"
  shows "(\<exists>ds. group m 1 = Some ds \<and> ds \<noteq> [] \<and> list_all is_digit ds) \<and>
         (\<exists>per. group m 2 = Some per \<and> per \<in> set markers)"
proof -
  let ?sp = "Star (Sym CSpace)"
  from assms obtain s1 s2 where
    s1: "s1 \<in> set (matches (Grp 1 d12) (p, r, []))" and
    s2: "s2 \<in> set (matches ?sp s1)" and
    m: "m \<in> set (matches (Grp 2 ampm) s2)"
    unfolding simple_hour_pattern_def by (simp del: matches.simps(8) add: matches.simps(4)) blast
  have g1: "\<exists>ds. group s1 1 = Some ds \<and> ds \<noteq> [] \<and> list_all is_digit ds"
    using grp_d12[OF s1] by blast
  have s2_1: "group s2 1 = group s1 1"
    using matches_frame[OF s2] by simp
  have m_1: "group m 1 = group s2 1"
    using matches_frame[OF m] by (simp add: ampm_def)
  obtain p2 r2 c2 where "s2 = (p2, r2, c2)" by (cases s2)
  with m grp_ampm have g2: "\<exists>per. group m 2 = Some per \<and> per \<in> set markers" by blast
  show ?thesis using g1 s2_1 m_1 g2 by simp
qed

lemma dec_small: "n < 10 \<Longrightarrow> dec n = [digit_chars ! n]"
  by (simp add: dec.simps)

lemma pad2_two: "n < 100 \<Longrightarrow> pad2 n = [digit_chars ! (n div 10), digit_chars ! (n mod 10)]"
proof -
  assume n: "n < 100"
  show ?thesis
  proof (cases "n < 10")
    case True
    then show ?thesis by (simp add: pad2_def dec_small digit_chars_def)
  next
    case False
    then have "dec n = dec (n div 10) @ [digit_chars ! (n mod 10)]"
      by (subst dec.simps) simp
    moreover have "n div 10 < 10" using n by simp
    ultimately show ?thesis using False by (simp add: pad2_def dec_small)
  qed
qed

lemma to24_le: "1 \<le> hour \<Longrightarrow> hour \<le> 12 \<Longrightarrow> to24 per hour \<le> 23"
  by (simp add: to24_def)

section \<open>The time extractor returns a clock time or nothing\<close>

lemma re_search_Some: "re_search re s = Some m \<Longrightarrow> \<exists>p' s'. m \<in> set (matches re (p', s', []))"
  unfolding re_search_def by (rule search_from_Some)

lemma hour12_shape:
  "extract_time_hour12 low = Inr None \<or>
   (\<exists>m hour minute period.
      re_search hour12_pattern low = Some m \<and> int_group m 1 = Inr hour \<and>
      1 \<le> hour \<and> hour \<le> 12 \<and> minute \<le> 59 \<and>
      group m 3 = Some period \<and> period \<in> set markers \<and>
      extract_time_hour12 low = Inr (Some (hhmm (to24 period hour) minute)))"
proof (cases "re_search hour12_pattern low")
  case None
  then show ?thesis by (simp add: extract_time_hour12_def)
next
  case (Some m)
  from re_search_Some[OF Some] obtain p r where "m \<in> set (matches hour12_pattern (p, r, []))"
    by blast
  from hour12_groups[OF this] obtain ds per where
    g1: "group m 1 = Some ds" "ds \<noteq> []" "list_all is_digit ds" and
    g2: "group m 2 = None \<or> (\<exists>ms. group m 2 = Some ms \<and> ms \<noteq> [] \<and> list_all is_digit ms)" and
    g3: "group m 3 = Some per" "per \<in> set markers"
    by blast
  from py_int_digits[OF g1(2,3)] obtain hour where hour: "py_int ds = Inr hour" by blast
  have ig: "int_group m 1 = Inr hour" using g1(1) hour by (simp add: int_group_def)
  obtain minute where minute:
    "(case group m 2 of None \<Rightarrow> Inr 0 | Some s \<Rightarrow> if s = [] then Inr 0 else py_int s) = Inr minute"
    using g2 py_int_digits by (cases "group m 2") auto
  show ?thesis
  proof (cases "1 \<le> hour \<and> hour \<le> 12 \<and> minute \<le> 59")
    case True
    then have "to24 per hour < 100" using to24_le[of hour per] by simp
    moreover have "minute < 100" using True by simp
    ultimately have "extract_time_hour12 low = Inr (Some (hhmm (to24 per hour) minute))"
      using Some ig minute g3(1) True
      by (simp add: extract_time_hour12_def pad2_two hhmm_def)
    then show ?thesis using Some ig True g3 by blast
  next
    case False
    then have "extract_time_hour12 low = Inr None"
      using Some ig minute g3(1) by (auto simp: extract_time_hour12_def)
    then show ?thesis by simp
  qed
qed

lemma simple_shape:
  "extract_time_simple low = Inr None \<or>
   (\<exists>m hour period.
      re_search simple_hour_pattern low = Some m \<and> int_group m 1 = Inr hour \<and>
      1 \<le> hour \<and> hour \<le> 12 \<and>
      group m 2 = Some period \<and> period \<in> set markers \<and>
      extract_time_simple low = Inr (Some (hhmm (to24 period hour) 0)))"
proof (cases "re_search simple_hour_pattern low")
  case None
  then show ?thesis by (simp add: extract_time_simple_def)
next
  case (Some m)
  from re_search_Some[OF Some] obtain p r where "m \<in> set (matches simple_hour_pattern (p, r, []))"
    by blast
  from simple_groups[OF this] obtain ds per where
    g1: "group m 1 = Some ds" "ds \<noteq> []" "list_all is_digit ds" and
    g2: "group m 2 = Some per" "per \<in> set markers"
    by blast
  from py_int_digits[OF g1(2,3)] obtain hour where hour: "py_int ds = Inr hour" by blast
  have ig: "int_group m 1 = Inr hour" using g1(1) hour by (simp add: int_group_def)
  show ?thesis
  proof (cases "1 \<le> hour \<and> hour \<le> 12")
    case True
    then have "to24 per hour < 100" using to24_le[of hour per] by simp
    then have "extract_time_simple low = Inr (Some (hhmm (to24 per hour) 0))"
      using Some ig g2(1) True
      by (simp add: extract_time_simple_def pad2_two hhmm_def digit_chars_def)
    then show ?thesis using Some ig True g2 by blast
  next
    case False
    then have "extract_time_simple low = Inr None"
      using Some ig g2(1) by (auto simp: extract_time_simple_def)
    then show ?thesis by simp
  qed
qed

text \<open>
  Claim C10. For every input the time extractor raises nothing and returns either nothing or a
  clock time \<open>HH:MM\<close> of two digits each, with \<open>HH \<le> 23\<close> and \<open>MM \<le> 59\<close>. A time is
  returned only from a match whose hour group denotes 1 to 12 and whose am/pm marker is
  present; \<open>12 am\<close> gives \<open>00:00\<close> and \<open>12 pm\<close> gives \<open>12:00\<close>, while an hour of 13 or 0,
  or a time without a marker, gives nothing.
\<close>

theorem extract_time_wellformed:
  "(\<forall>text. extract_time text = Inr None \<or>
      (\<exists>m hour minute period.
         re_search hour12_pattern (lower text) = Some m \<and> int_group m 1 = Inr hour \<and>
         1 \<le> hour \<and> hour \<le> 12 \<and> minute \<le> 59 \<and>
         group m 3 = Some period \<and> period \<in> set markers \<and> to24 period hour \<le> 23 \<and>
         extract_time text = Inr (Some (hhmm (to24 period hour) minute))) \<or>
      (\<exists>m hour period.
         re_search simple_hour_pattern (lower text) = Some m \<and> int_group m 1 = Inr hour \<and>
         1 \<le> hour \<and> hour \<le> 12 \<and>
         group m 2 = Some period \<and> period \<in> set markers \<and> to24 period hour \<le> 23 \<and>
         extract_time text = Inr (Some (hhmm (to24 period hour) 0)))) \<and>
   extract_time ''12 am'' = Inr (Some ''00:00'') \<and>
   extract_time ''12 pm'' = Inr (Some ''12:00'') \<and>
   extract_time ''13 pm'' = Inr None \<and>
   extract_time ''0 am'' = Inr None \<and>
   extract_time ''15:30'' = Inr None"
proof (intro conjI allI)
  fix t
  let ?low = "lower t"
  from hour12_shape[of ?low]
  show "extract_time t = Inr None \<or>
      (\<exists>m hour minute period.
         re_search hour12_pattern (lower t) = Some m \<and> int_group m 1 = Inr hour \<and>
         1 \<le> hour \<and> hour \<le> 12 \<and> minute \<le> 59 \<and>
         group m 3 = Some period \<and> period \<in> set markers \<and> to24 period hour \<le> 23 \<and>
         extract_time t = Inr (Some (hhmm (to24 period hour) minute))) \<or>
      (\<exists>m hour period.
         re_search simple_hour_pattern (lower t) = Some m \<and> int_group m 1 = Inr hour \<and>
         1 \<le> hour \<and> hour \<le> 12 \<and>
         group m 2 = Some period \<and> period \<in> set markers \<and> to24 period hour \<le> 23 \<and>
         extract_time t = Inr (Some (hhmm (to24 period hour) 0)))"
  proof
    assume h: "extract_time_hour12 ?low = Inr None"
    then have eq: "extract_time t = extract_time_simple ?low"
      by (simp add: extract_time_def)
    from simple_shape[of ?low] show ?thesis
    proof
      assume "extract_time_simple ?low = Inr None"
      then show ?thesis using eq by simp
    next
      assume "\<exists>m hour period.
        re_search simple_hour_pattern ?low = Some m \<and> int_group m 1 = Inr hour \<and>
        1 \<le> hour \<and> hour \<le> 12 \<and>
        group m 2 = Some period \<and> period \<in> set markers \<and>
        extract_time_simple ?low = Inr (Some (hhmm (to24 period hour) 0))"
      then obtain m hour period where
        "re_search simple_hour_pattern ?low = Some m" "int_group m 1 = Inr hour"
        "1 \<le> hour" "hour \<le> 12" "group m 2 = Some period" "period \<in> set markers"
        "extract_time_simple ?low = Inr (Some (hhmm (to24 period hour) 0))"
        by blast
      moreover from this have "to24 period hour \<le> 23" by (simp add: to24_le)
      ultimately show ?thesis using eq by auto
    qed
  next
    assume "\<exists>m hour minute period.
      re_search hour12_pattern ?low = Some m \<and> int_group m 1 = Inr hour \<and>
      1 \<le> hour \<and> hour \<le> 12 \<and> minute \<le> 59 \<and>
      group m 3 = Some period \<and> period \<in> set markers \<and>
      extract_time_hour12 ?low = Inr (Some (hhmm (to24 period hour) minute))"
    then obtain m hour minute period where f:
      "re_search hour12_pattern ?low = Some m" "int_group m 1 = Inr hour"
      "1 \<le> hour" "hour \<le> 12" "minute \<le> 59" "group m 3 = Some period" "period \<in> set markers"
      "extract_time_hour12 ?low = Inr (Some (hhmm (to24 period hour) minute))"
      by blast
    from f(8) have "extract_time t = Inr (Some (hhmm (to24 period hour) minute))"
      by (simp add: extract_time_def)
    moreover from f have "to24 period hour \<le> 23" by (simp add: to24_le)
    ultimately show ?thesis using f by blast
  qed
qed code_simp+

theorem extract_time_wellformed_witness:
  "extract_time ''12 am'' = Inr (Some (hhmm 0 0)) \<and> extract_time ''12 pm'' = Inr (Some (hhmm 12 0))"
  using extract_time_wellformed by (simp add: hhmm_def digit_chars_def)

section \<open>The date extractor accepts days that do not exist\<close>

text \<open>
  Claim C9. The date extractor checks the day number against 31 and the month index against
  1 to 12 only: in every current year, \<open>february 31\<close> and \<open>june 0\<close> are returned as
  \<open>YYYY-02-31\<close> and \<open>YYYY-06-00\<close>, neither of which is a calendar date.
\<close>

theorem extract_date_impossible_days:
  "extract_date y ''february 31'' = Inr (Some (dec y @ ''-02-31'')) \<and>
   \<not> is_calendar_date y 2 31 \<and>
   extract_date y ''june 0'' = Inr (Some (dec y @ ''-06-00'')) \<and>
   \<not> is_calendar_date y 6 0"
proof (intro conjI)
  show "extract_date y ''february 31'' = Inr (Some (dec y @ ''-02-31''))" by code_simp
  show "extract_date y ''june 0'' = Inr (Some (dec y @ ''-06-00''))" by code_simp
  show "\<not> is_calendar_date y 2 31" by (simp add: is_calendar_date_def days_in_month_def)
  show "\<not> is_calendar_date y 6 0" by (simp add: is_calendar_date_def)
qed

theorem extract_date_impossible_days_witness:
  "extract_date 2024 ''february 31'' = Inr (Some ''2024-02-31'') \<and> \<not> is_calendar_date 2024 2 31 \<and>
   extract_date 2024 ''june 0'' = Inr (Some ''2024-06-00'') \<and> \<not> is_calendar_date 2024 6 0"
proof -
  have "dec 2024 = ''2024''" by code_simp
  then show ?thesis using extract_date_impossible_days[of 2024] by simp
qed

section \<open>Precedence of the intent families\<close>

lemma any_found_iff: "any_found ps s = (\<exists>p \<in> set ps. found p s)"
  by (simp add: any_found_def list_ex_iff)

lemma spec_precedence_nth:
  "spec_precedence ! 0 = (knowledge_patterns, ''knowledge'')"
  "spec_precedence ! 1 = (check_availability_patterns, ''check_availability'')"
  "spec_precedence ! Suc 0 = (check_availability_patterns, ''check_availability'')"
  "spec_precedence ! 2 = (cancel_patterns, ''cancel_appointment'')"
  "spec_precedence ! 3 = (schedule_patterns, ''schedule_appointment'')"
  "spec_precedence ! 4 = (list_appointments_patterns, ''list_appointments'')"
  "length spec_precedence = 5"
  by (simp_all add: spec_precedence_def)

lemma identify_intent_first_family:
  assumes "i < length spec_precedence"
    and "family_matches (spec_precedence ! i) t"
    and "\<forall>j < i. \<not> family_matches (spec_precedence ! j) t"
  shows "identify_intent t = snd (spec_precedence ! i)"
proof -
  from assms(1) have "i = 0 \<or> i = 1 \<or> i = 2 \<or> i = 3 \<or> i = 4"
    by (simp add: spec_precedence_nth) arith
  then show ?thesis
  proof (elim disjE)
    assume i: "i = 0"
    then show ?thesis using assms(2)
      by (simp add: spec_precedence_nth family_matches_def identify_intent_def any_found_iff Let_def)
  next
    assume i: "i = 1"
    have "\<not> family_matches (spec_precedence ! 0) t" using assms(3) i by simp
    then show ?thesis using assms(2) i
      by (simp add: spec_precedence_nth family_matches_def identify_intent_def any_found_iff Let_def)
  next
    assume i: "i = 2"
    have "\<not> family_matches (spec_precedence ! 0) t" "\<not> family_matches (spec_precedence ! 1) t"
      using assms(3) i by simp_all
    then show ?thesis using assms(2) i
      by (simp add: spec_precedence_nth family_matches_def identify_intent_def any_found_iff Let_def)
  next
    assume i: "i = 3"
    have "\<not> family_matches (spec_precedence ! 0) t" "\<not> family_matches (spec_precedence ! 1) t"
      "\<not> family_matches (spec_precedence ! 2) t"
      using assms(3) i by simp_all
    then show ?thesis using assms(2) i
      by (simp add: spec_precedence_nth family_matches_def identify_intent_def any_found_iff Let_def)
  next
    assume i: "i = 4"
    have "\<not> family_matches (spec_precedence ! 0) t" "\<not> family_matches (spec_precedence ! 1) t"
      "\<not> family_matches (spec_precedence ! 2) t" "\<not> family_matches (spec_precedence ! 3) t"
      using assms(3) i by simp_all
    then show ?thesis using assms(2) i
      by (simp add: spec_precedence_nth family_matches_def identify_intent_def any_found_iff Let_def)
  qed
qed

lemma identify_intent_no_family:
  assumes "\<forall>fam \<in> set spec_precedence. \<not> family_matches fam t"
  shows "identify_intent t = ''unknown''"
  using assms
  by (simp add: spec_precedence_def family_matches_def identify_intent_def any_found_iff Let_def)

text \<open>
  Claim C5. The families are tried in the order knowledge, check\_availability,
  cancel\_appointment, schedule\_appointment, list\_appointments: the label returned is that
  of the first family one of whose patterns is found in the lower-cased utterance, and an
  utterance in which no pattern of any family is found is labelled unknown.
\<close>

theorem identify_intent_precedence:
  "(\<forall>i < length spec_precedence.
      family_matches (spec_precedence ! i) t \<and>
      (\<forall>j < i. \<not> family_matches (spec_precedence ! j) t)
      \<longrightarrow> identify_intent t = snd (spec_precedence ! i)) \<and>
   ((\<forall>fam \<in> set spec_precedence. \<not> family_matches fam t) \<longrightarrow> identify_intent t = ''unknown'')"
  using identify_intent_first_family identify_intent_no_family by blast

theorem identify_intent_precedence_witness:
  "identify_intent ''Is John available to book an appointment with me'' = ''check_availability'' \<and>
   family_matches (spec_precedence ! 3) ''Is John available to book an appointment with me'' \<and>
   identify_intent ''hello there'' = ''unknown''"
proof -
  let ?t = "''Is John available to book an appointment with me''"
  have k: "\<not> family_matches (spec_precedence ! 0) ?t"
    unfolding spec_precedence_nth family_matches_def fst_conv by code_simp
  have a: "family_matches (spec_precedence ! 1) ?t"
    unfolding spec_precedence_nth family_matches_def fst_conv by code_simp
  have s: "family_matches (spec_precedence ! 3) ?t"
    unfolding spec_precedence_nth family_matches_def fst_conv by code_simp
  have "\<forall>j < (1::nat). \<not> family_matches (spec_precedence ! j) ?t" using k by simp
  moreover have "(1::nat) < length spec_precedence" by (simp add: spec_precedence_nth)
  ultimately have "identify_intent ?t = snd (spec_precedence ! 1)"
    using a identify_intent_precedence[of ?t] by blast
  then have 1: "identify_intent ?t = ''check_availability''"
    by (simp add: spec_precedence_nth)
  have n: "\<forall>fam \<in> set spec_precedence. \<not> family_matches fam ''hello there''"
    unfolding spec_precedence_def family_matches_def by code_simp
  then have 2: "identify_intent ''hello there'' = ''unknown''"
    using identify_intent_precedence[of "''hello there''"] by blast
  show ?thesis using 1 s 2 by simp
qed

section \<open>Weekday resolution\<close>

lemma mod7_nonneg: "\<not> ((a::int) mod 7 < 0)"
  by simp

lemma weekday_loop_hit:
  "weekday_loop today t ds =
     map_option (\<lambda>kn. resolve_weekday today (fst kn) (snd kn)) (weekday_hit t ds)"
proof (induction ds)
  case Nil
  then show ?case by simp
next
  case (Cons dn ds)
  have pos: "(snd dn - weekday today) mod 7 \<noteq> 0 \<Longrightarrow> 0 < (snd dn - weekday today) mod 7"
    using pos_mod_sign[of 7 "snd dn - weekday today"] by simp
  show ?case using Cons pos
    by (simp add: weekday_step_def Let_def)
qed

lemma parse_relative_date_weekday:
  assumes "weekday_reading text0 = Some (k, n)"
  shows "parse_relative_date today fp text0 = resolve_weekday today k n"
proof -
  let ?t = "lower text0"
  from assms have c: "\<not> contains ''tomorrow'' ?t" "\<not> contains ''today'' ?t"
    "\<not> contains ''yesterday'' ?t" and h: "weekday_hit ?t days_of_week = Some (k, n)"
    by (auto simp: weekday_reading_def Let_def split: if_splits)
  show ?thesis
    using c h by (simp add: parse_relative_date_def Let_def weekday_loop_hit)
qed

lemma readings:
  "list_all (\<lambda>dn. weekday_reading (''next '' @ fst dn) = Some (KNext, snd dn) \<and>
                   weekday_reading (''this '' @ fst dn) = Some (KThis, snd dn) \<and>
                   weekday_reading (fst dn) = Some (KJust, snd dn)) days_of_week"
  by code_simp

lemma readings_cap:
  "weekday_reading ''next Monday'' = Some (KNext, 0)"
  "weekday_reading ''Monday'' = Some (KJust, 0)"
  by code_simp+

text \<open>
  Claim C6. For each weekday of the table, with \<open>off\<close> the weekday's number minus today's
  weekday modulo 7: \<open>next <weekday>\<close> resolves to today plus \<open>off\<close> days, 7 days when \<open>off\<close> is
  0; \<open>this <weekday>\<close> and the bare weekday name resolve to today when \<open>off\<close> is 0 and to today
  plus \<open>off\<close> days otherwise. When today is a Wednesday, \<open>next Monday\<close> is today plus 5 days and
  \<open>Monday\<close> alone resolves to the same date.
\<close>

theorem weekday_resolution:
  "(\<forall>dn \<in> set days_of_week.
      parse_relative_date today fp (''next '' @ fst dn) =
        map_sum id Some (add_days today (if (snd dn - weekday today) mod 7 = 0 then 7
                                          else (snd dn - weekday today) mod 7)) \<and>
      parse_relative_date today fp (''this '' @ fst dn) =
        (if (snd dn - weekday today) mod 7 = 0 then Inr (Some today)
         else map_sum id Some (add_days today ((snd dn - weekday today) mod 7))) \<and>
      parse_relative_date today fp (fst dn) =
        (if (snd dn - weekday today) mod 7 = 0 then Inr (Some today)
         else map_sum id Some (add_days today ((snd dn - weekday today) mod 7)))) \<and>
   (weekday today = 2 \<longrightarrow>
      parse_relative_date today fp ''next Monday'' = map_sum id Some (add_days today 5) \<and>
      parse_relative_date today fp ''Monday'' = parse_relative_date today fp ''next Monday'')"
proof (intro conjI ballI impI)
  fix dn assume "dn \<in> set days_of_week"
  with readings have r: "weekday_reading (''next '' @ fst dn) = Some (KNext, snd dn)"
    "weekday_reading (''this '' @ fst dn) = Some (KThis, snd dn)"
    "weekday_reading (fst dn) = Some (KJust, snd dn)"
    by (auto simp: list_all_iff)
  show "parse_relative_date today fp (''next '' @ fst dn) =
        map_sum id Some (add_days today (if (snd dn - weekday today) mod 7 = 0 then 7
                                          else (snd dn - weekday today) mod 7))"
    using parse_relative_date_weekday[OF r(1)] by (simp add: Let_def)
  show "parse_relative_date today fp (''this '' @ fst dn) =
        (if (snd dn - weekday today) mod 7 = 0 then Inr (Some today)
         else map_sum id Some (add_days today ((snd dn - weekday today) mod 7)))"
    using parse_relative_date_weekday[OF r(2)] by (simp add: Let_def)
  show "parse_relative_date today fp (fst dn) =
        (if (snd dn - weekday today) mod 7 = 0 then Inr (Some today)
         else map_sum id Some (add_days today ((snd dn - weekday today) mod 7)))"
    using parse_relative_date_weekday[OF r(3)] by (simp add: Let_def)
next
  assume w: "weekday today = 2"
  show "parse_relative_date today fp ''next Monday'' = map_sum id Some (add_days today 5)"
    using parse_relative_date_weekday[OF readings_cap(1)] w by (simp add: Let_def)
  show "parse_relative_date today fp ''Monday'' = parse_relative_date today fp ''next Monday''"
    using parse_relative_date_weekday[OF readings_cap(1)]
      parse_relative_date_weekday[OF readings_cap(2)] w by (simp add: Let_def)
qed

theorem weekday_resolution_witness:
  "weekday \<lparr>year = 2026, month = 11, day = 4\<rparr> = 2 \<and>
   (''monday'', 0) \<in> set days_of_week \<and>
   parse_relative_date \<lparr>year = 2026, month = 11, day = 4\<rparr> (\<lambda>s. None) ''next Monday'' =
     Inr (Some \<lparr>year = 2026, month = 11, day = 9\<rparr>) \<and>
   parse_relative_date \<lparr>year = 2026, month = 11, day = 4\<rparr> (\<lambda>s. None) ''Monday'' =
     Inr (Some \<lparr>year = 2026, month = 11, day = 9\<rparr>) \<and>
   parse_relative_date \<lparr>year = 2026, month = 11, day = 4\<rparr> (\<lambda>s. None) ''this monday'' =
     Inr (Some \<lparr>year = 2026, month = 11, day = 9\<rparr>)"
proof -
  let ?d = "\<lparr>year = 2026, month = 11, day = 4\<rparr>"
  have w: "weekday ?d = 2" by code_simp
  have m: "(''monday'', 0) \<in> set days_of_week" by (simp add: days_of_week_def)
  have a: "add_days ?d 5 = Inr \<lparr>year = 2026, month = 11, day = 9\<rparr>" by code_simp
  from weekday_resolution[of ?d "\<lambda>s. None"] w
  have 1: "parse_relative_date ?d (\<lambda>s. None) ''next Monday'' = map_sum id Some (add_days ?d 5)"
    and 2: "parse_relative_date ?d (\<lambda>s. None) ''Monday'' = parse_relative_date ?d (\<lambda>s. None) ''next Monday''"
    by blast+
  from weekday_resolution[of ?d "\<lambda>s. None"] m
  have "parse_relative_date ?d (\<lambda>s. None) (''this '' @ fst (''monday'', 0::int)) =
        (if (snd (''monday'', 0::int) - weekday ?d) mod 7 = 0 then Inr (Some ?d)
         else map_sum id Some (add_days ?d ((snd (''monday'', 0::int) - weekday ?d) mod 7)))"
    by blast
  then have 3: "parse_relative_date ?d (\<lambda>s. None) ''this monday'' = map_sum id Some (add_days ?d 5)"
    using w by simp
  show ?thesis using w m 1 2 3 a by simp
qed

section \<open>The AI fallback extractor sanitises what it returns\<close>

lemma first_available_facts:
  "lower ''first available'' \<notin> set null_words"
  "\<not> found month_word_pattern (lower ''first available'')"
  "\<not> found iso_date_pattern ''first available''"
  "\<not> found time_only_pattern (lower ''first available'')"
  by code_simp+

lemma null_step_cases: "null_step v = JNull \<or> (null_step v = v \<and> (\<forall>s. v = JStr s \<longrightarrow> lower s \<notin> set null_words))"
  by (cases v) (auto simp: null_step_def)

lemma date_step_cases: "date_step key v = JNull \<or> date_step key v = v"
  by (simp add: date_step_def)

lemma time_reject_step_cases: "time_reject_step v = JNull \<or> time_reject_step v = v"
  by (simp add: time_reject_step_def)

lemma time_flexible_step_str:
  "time_flexible_step v = Inr (JStr s) \<Longrightarrow> s = ''first available'' \<or> v = JStr s"
  by (cases v) (auto simp: time_flexible_step_def split: if_splits)

lemma sanitize_value_null:
  assumes "sanitize_value key v = Inr (JStr s)"
  shows "lower s \<notin> set null_words"
proof -
  let ?v1 = "null_step v"
  let ?v2 = "date_step key ?v1"
  have a: "s = ''first available'' \<or> ?v1 = JStr s"
  proof (cases "key = ''time'' \<and> ?v2 \<noteq> JNull")
    case True
    then have k: "key = ''time''" and n: "?v2 \<noteq> JNull" by blast+
    have "sanitize_value key v = time_flexible_step (time_reject_step ?v2)"
      unfolding sanitize_value_def Let_def using k n by simp
    with assms have "time_flexible_step (time_reject_step ?v2) = Inr (JStr s)"
      by simp
    from time_flexible_step_str[OF this] show ?thesis
      using time_reject_step_cases[of ?v2] date_step_cases[of key ?v1] by auto
  next
    case False
    with assms have "?v2 = JStr s" by (auto simp: sanitize_value_def Let_def split: if_splits)
    then show ?thesis using date_step_cases[of key ?v1] by auto
  qed
  then show ?thesis
  proof
    assume "s = ''first available''"
    then show ?thesis using first_available_facts(1) by simp
  next
    assume "?v1 = JStr s"
    then show ?thesis using null_step_cases[of v] by auto
  qed
qed

lemma sanitize_value_date:
  assumes "sanitize_value ''date'' v = Inr (JStr s)"
  shows "\<not> found time_only_pattern (lower s)"
proof -
  from assms have "date_step ''date'' (null_step v) = JStr s"
    by (simp add: sanitize_value_def Let_def)
  then show ?thesis by (auto simp: date_step_def split: if_splits)
qed

lemma sanitize_value_time:
  assumes "sanitize_value ''time'' v = Inr (JStr s)"
  shows "\<not> found month_word_pattern (lower s) \<and> \<not> found iso_date_pattern s \<and>
         (list_ex (\<lambda>phrase. contains phrase (lower s)) flexible_phrases \<longrightarrow> s = ''first available'')"
proof -
  let ?v2 = "date_step ''time'' (null_step v)"
  have ne: "?v2 \<noteq> JNull" using assms by (auto simp: sanitize_value_def Let_def split: if_splits)
  with assms have f: "time_flexible_step (time_reject_step ?v2) = Inr (JStr s)"
    by (simp add: sanitize_value_def Let_def)
  from time_flexible_step_str[OF f] show ?thesis
  proof
    assume "s = ''first available''"
    then show ?thesis using first_available_facts by simp
  next
    assume r: "time_reject_step ?v2 = JStr s"
    then have "?v2 = JStr s" using time_reject_step_cases[of ?v2] by auto
    with r have "\<not> found month_word_pattern (lower s) \<and> \<not> found iso_date_pattern s"
      by (auto simp: time_reject_step_def split: if_splits)
    moreover have "list_ex (\<lambda>phrase. contains phrase (lower s)) flexible_phrases \<longrightarrow> s = ''first available''"
      using f r by (auto simp: time_flexible_step_def flexible_phrases_def lower_def split: if_splits)
    ultimately show ?thesis by simp
  qed
qed


lemma sanitize_entries_map_of:
  "sanitize_entries es = Inr es' \<Longrightarrow>
   map_of es' k = (case map_of es k of None \<Rightarrow> None
                   | Some v \<Rightarrow> (case sanitize_value k v of Inr v' \<Rightarrow> Some v' | Inl e \<Rightarrow> None))"
proof (induction es arbitrary: es')
  case Nil
  then show ?case by simp
next
  case (Cons a es)
  obtain k0 v0 where a: "a = (k0, v0)" by (cases a)
  from Cons.prems obtain v1 rest where
    1: "sanitize_value k0 v0 = Inr v1" and 2: "sanitize_entries es = Inr rest" and
    3: "es' = (k0, v1) # rest"
    unfolding a by (auto split: sum.splits)
  show ?case using Cons.IH[OF 2] 1 3 a by simp
qed

lemma map_of_ensure_all:
  "map_of (ensure_all ms es) k =
     (case map_of es k of Some v \<Rightarrow> Some v | None \<Rightarrow> if k \<in> set ms then Some JNull else None)"
proof (induction ms arbitrary: es)
  case Nil
  then show ?case by (simp split: option.splits)
next
  case (Cons e ms)
  show ?case
  proof (cases "e \<in> fst ` set es")
    case True
    then have "map_of es e \<noteq> None" by (simp add: map_of_eq_None_iff)
    then show ?thesis using Cons.IH[of es] True by (auto split: option.splits)
  next
    case False
    then have n: "map_of es e = None" by (simp add: map_of_eq_None_iff)
    have "map_of (es @ [(e, JNull)]) k =
          (case map_of es k of Some v \<Rightarrow> Some v | None \<Rightarrow> if k = e then Some JNull else None)"
      by (simp add: map_add_def split: option.splits)
    then show ?thesis using Cons.IH[of "es @ [(e, JNull)]"] False n
      by (auto split: option.splits)
  qed
qed

lemma slot_of_all_null: "slot_of (Slots (all_null ms)) k = JNull"
  by (simp add: slot_of_def all_null_def map_of_ensure_all split: option.splits)

lemma slot_of_str_sanitized:
  assumes "slot_of (ai_try_block loads outcome ms) key = JStr s"
  shows "\<exists>v. sanitize_value key v = Inr (JStr s)"
proof -
  let ?r = "ai_try_block loads outcome ms"
  have nn: "?r \<noteq> Slots (all_null ms)" "?r \<noteq> RawValue"
    using assms slot_of_all_null[of ms key] by (auto simp: slot_of_def)
  then obtain c es es' where c: "outcome = AgentContent c" and
    s: "sanitize_entries es = Inr es'" and r: "?r = Slots (ensure_all ms es')"
    by (auto simp: ai_try_block_def Let_def
             split: agent_outcome.splits sum.splits json_top.splits if_splits)
  from assms r have "map_of (ensure_all ms es') key = Some (JStr s)"
    by (auto simp: slot_of_def split: option.splits)
  then have "map_of es' key = Some (JStr s)"
    by (auto simp: map_of_ensure_all split: option.splits if_splits)
  then show ?thesis using sanitize_entries_map_of[OF s, of key]
    by (auto split: option.splits sum.splits)
qed

lemma map_of_dict_set: "map_of (dict_set res e w) k = (if k = e then Some w else map_of res k)"
  by (induction res) auto

lemma map_of_foldl_dict_set:
  "map_of (foldl (\<lambda>result entity. dict_set result entity (f entity)) acc ms) k =
     (if k \<in> set ms then Some (f k) else map_of acc k)"
  by (induction ms arbitrary: acc) (auto simp: map_of_dict_set)

lemma map_of_regex_fallback:
  "map_of (regex_fallback js ms) k = (if k \<in> set ms then Some (regex_fallback_value js k) else None)"
  by (simp add: regex_fallback_def map_of_foldl_dict_set)

lemma set_dict_set: "kv \<in> set (dict_set res e w) \<Longrightarrow> kv \<in> set res \<or> kv = (e, w)"
  by (induction res) (auto split: if_splits)

lemma plain_foldl_dict_set:
  assumes "\<And>e. plain (f e)" "\<forall>kv \<in> set acc. plain (snd kv)"
  shows "\<forall>kv \<in> set (foldl (\<lambda>result entity. dict_set result entity (f entity)) acc ms). plain (snd kv)"
  using assms(2)
proof (induction ms arbitrary: acc)
  case Nil
  then show ?case by simp
next
  case (Cons e ms)
  have "\<forall>kv \<in> set (dict_set acc e (f e)). plain (snd kv)"
    using Cons.prems assms(1) set_dict_set by fastforce
  from Cons.IH[OF this] show ?case by simp
qed

lemma plain_regex_fallback_value: "plain (regex_fallback_value js e)"
  by (simp add: regex_fallback_value_def split: option.splits)

lemma plain_regex_fallback: "\<forall>kv \<in> set (regex_fallback js ms). plain (snd kv)"
  unfolding regex_fallback_def
  by (rule plain_foldl_dict_set) (simp_all add: plain_regex_fallback_value)

lemma plain_steps:
  "plain v \<Longrightarrow> plain (null_step v)"
  "plain v \<Longrightarrow> plain (date_step key v)"
  "plain v \<Longrightarrow> plain (time_reject_step v)"
  by (cases v; simp add: null_step_def date_step_def time_reject_step_def)+

lemma time_flexible_step_plain: "plain v \<Longrightarrow> \<exists>v'. time_flexible_step v = Inr v'"
  by (cases v) (auto simp: time_flexible_step_def)

lemma sanitize_value_plain: "plain v \<Longrightarrow> \<exists>v'. sanitize_value key v = Inr v'"
  using time_flexible_step_plain[of "time_reject_step (date_step key (null_step v))"] plain_steps
  by (auto simp: sanitize_value_def Let_def)

lemma sanitize_entries_plain:
  "\<forall>kv \<in> set es. plain (snd kv) \<Longrightarrow> \<exists>es'. sanitize_entries es = Inr es'"
proof (induction es)
  case Nil
  then show ?case by simp
next
  case (Cons a es)
  obtain k v where a: "a = (k, v)" by (cases a)
  from Cons.prems a have "plain v" by simp
  from sanitize_value_plain[OF this, of k] obtain v' where "sanitize_value k v = Inr v'" by blast
  moreover from Cons obtain es' where "sanitize_entries es = Inr es'" by auto
  ultimately show ?case using a by simp
qed

lemma dict_path:
  assumes "loads (json_text c) = Inr (JDict d)" and "\<forall>kv \<in> set d. plain (snd kv)"
  shows "slot_of (ai_try_block loads (AgentContent c) ms) key =
           (case map_of d key of None \<Rightarrow> JNull | Some v \<Rightarrow> sanitized key v)"
proof -
  from sanitize_entries_plain[OF assms(2)] obtain es' where s: "sanitize_entries d = Inr es'" by blast
  have r: "ai_try_block loads (AgentContent c) ms = Slots (ensure_all ms es')"
    using assms(1) s by (simp add: ai_try_block_def Let_def)
  show ?thesis
  proof (cases "map_of d key")
    case None
    then show ?thesis using r sanitize_entries_map_of[OF s, of key]
      by (simp add: slot_of_def map_of_ensure_all)
  next
    case (Some v)
    then have "(key, v) \<in> set d" by (rule map_of_SomeD)
    with assms(2) have "plain v" by auto
    from sanitize_value_plain[OF this, of key] obtain v' where v': "sanitize_value key v = Inr v'" by blast
    then show ?thesis using r Some sanitize_entries_map_of[OF s, of key]
      by (simp add: slot_of_def map_of_ensure_all sanitized_def)
  qed
qed

lemma fallback_path:
  assumes "loads (json_text c) = Inl JSONDecodeError" and "key \<in> set ms"
  shows "sanitize_value key (regex_fallback_value (json_text c) key) =
           Inr (slot_of (ai_try_block loads (AgentContent c) ms) key)"
proof -
  let ?d = "regex_fallback (json_text c) ms"
  from sanitize_entries_plain[OF plain_regex_fallback] obtain es' where
    s: "sanitize_entries ?d = Inr es'" by blast
  have r: "ai_try_block loads (AgentContent c) ms = Slots (ensure_all ms es')"
    using assms(1) s by (simp add: ai_try_block_def Let_def)
  from sanitize_value_plain[OF plain_regex_fallback_value, of key "json_text c" key]
  obtain v' where v': "sanitize_value key (regex_fallback_value (json_text c) key) = Inr v'" by blast
  have "map_of es' key = Some v'"
    using sanitize_entries_map_of[OF s, of key] assms(2) v' by (simp add: map_of_regex_fallback)
  then show ?thesis using r v' by (simp add: slot_of_def map_of_ensure_all)
qed

lemma failure_paths:
  "ai_try_block loads AgentRaised ms = Slots (all_null ms)"
  "loads (json_text c) = Inl e \<Longrightarrow> e \<noteq> JSONDecodeError \<Longrightarrow>
     ai_try_block loads (AgentContent c) ms = Slots (all_null ms)"
  by (simp_all add: ai_try_block_def Let_def)

lemma sanitize_positive:
  "lower s \<in> set null_words \<Longrightarrow> sanitize_value key (JStr s) = Inr JNull"
  "found time_only_pattern (lower s) \<Longrightarrow> sanitize_value ''date'' (JStr s) = Inr JNull"
  "found month_word_pattern (lower s) \<or> found iso_date_pattern s \<Longrightarrow>
     sanitize_value ''time'' (JStr s) = Inr JNull"
  "lower s \<notin> set null_words \<Longrightarrow> \<not> found month_word_pattern (lower s) \<Longrightarrow>
   \<not> found iso_date_pattern s \<Longrightarrow> list_ex (\<lambda>p. contains p (lower s)) flexible_phrases \<Longrightarrow>
     sanitize_value ''time'' (JStr s) = Inr (JStr ''first available'')"
proof -
  show "lower s \<in> set null_words \<Longrightarrow> sanitize_value key (JStr s) = Inr JNull"
    by (simp add: sanitize_value_def null_step_def date_step_def Let_def)
  show "found time_only_pattern (lower s) \<Longrightarrow> sanitize_value ''date'' (JStr s) = Inr JNull"
    by (simp add: sanitize_value_def null_step_def date_step_def Let_def)
  show "found month_word_pattern (lower s) \<or> found iso_date_pattern s \<Longrightarrow>
     sanitize_value ''time'' (JStr s) = Inr JNull"
    by (auto simp: sanitize_value_def null_step_def date_step_def time_reject_step_def
                   time_flexible_step_def Let_def)
  show "lower s \<notin> set null_words \<Longrightarrow> \<not> found month_word_pattern (lower s) \<Longrightarrow>
   \<not> found iso_date_pattern s \<Longrightarrow> list_ex (\<lambda>p. contains p (lower s)) flexible_phrases \<Longrightarrow>
     sanitize_value ''time'' (JStr s) = Inr (JStr ''first available'')"
  proof -
    assume a: "lower s \<notin> set null_words" "\<not> found month_word_pattern (lower s)"
      "\<not> found iso_date_pattern s" "list_ex (\<lambda>p. contains p (lower s)) flexible_phrases"
    have "s \<noteq> []" using a(1) by (auto simp: null_words_def lower_def)
    then show ?thesis using a
      by (simp add: sanitize_value_def null_step_def date_step_def time_reject_step_def
                    time_flexible_step_def Let_def)
  qed
qed

text \<open>
  The \<^verbatim>\<open>try\<close> statement taken alone. For every reply of the boundary call, every decoder and
  every list of requested slots: no slot of its result is one of the strings \<open>null\<close>, \<open>NULL\<close>,
  \<open>unknown\<close> or the empty string (in any letter case); the date is never a string that looks
  like a time alone; the time never contains a month name or an ISO date, and a time
  containing a flexible phrase is \<open>first available\<close>. When the call raises, or the decoder
  raises anything but a JSON syntax error, every requested slot is null; on a JSON syntax error
  each requested slot is read off the text by the pattern \<open>"slot": "value"\<close>.
\<close>

lemma try_block_sanitised:
  "(\<forall>key s. slot_of (ai_try_block loads outcome ms) key = JStr s \<longrightarrow>
       lower s \<notin> set null_words) \<and>
   (\<forall>s. slot_of (ai_try_block loads outcome ms) ''date'' = JStr s \<longrightarrow>
       \<not> found time_only_pattern (lower s)) \<and>
   (\<forall>s. slot_of (ai_try_block loads outcome ms) ''time'' = JStr s \<longrightarrow>
       \<not> found month_word_pattern (lower s) \<and> \<not> found iso_date_pattern s \<and>
       (list_ex (\<lambda>phrase. contains phrase (lower s)) flexible_phrases \<longrightarrow> s = ''first available'')) \<and>
   (\<forall>c d key. outcome = AgentContent c \<and> loads (json_text c) = Inr (JDict d) \<and>
       (\<forall>kv \<in> set d. plain (snd kv)) \<longrightarrow>
       slot_of (ai_try_block loads outcome ms) key =
         (case map_of d key of None \<Rightarrow> JNull | Some v \<Rightarrow> sanitized key v)) \<and>
   (\<forall>key s. lower s \<in> set null_words \<longrightarrow> sanitized key (JStr s) = JNull) \<and>
   (\<forall>s. found time_only_pattern (lower s) \<longrightarrow> sanitized ''date'' (JStr s) = JNull) \<and>
   (\<forall>s. found month_word_pattern (lower s) \<or> found iso_date_pattern s \<longrightarrow>
       sanitized ''time'' (JStr s) = JNull) \<and>
   (\<forall>s. lower s \<notin> set null_words \<and> \<not> found month_word_pattern (lower s) \<and>
       \<not> found iso_date_pattern s \<and> list_ex (\<lambda>p. contains p (lower s)) flexible_phrases \<longrightarrow>
       sanitized ''time'' (JStr s) = JStr ''first available'') \<and>
   (outcome = AgentRaised \<longrightarrow>
       ai_try_block loads outcome ms = Slots (all_null ms)) \<and>
   (\<forall>c e. outcome = AgentContent c \<and> loads (json_text c) = Inl e \<and> e \<noteq> JSONDecodeError \<longrightarrow>
       ai_try_block loads outcome ms = Slots (all_null ms)) \<and>
   (\<forall>c. outcome = AgentContent c \<and> loads (json_text c) = Inl JSONDecodeError \<longrightarrow>
       (\<forall>key \<in> set ms. sanitize_value key (regex_fallback_value (json_text c) key) =
          Inr (slot_of (ai_try_block loads outcome ms) key)))"
proof (intro conjI allI impI ballI)
  fix key s
  assume "slot_of (ai_try_block loads outcome ms) key = JStr s"
  from slot_of_str_sanitized[OF this] show "lower s \<notin> set null_words"
    using sanitize_value_null by blast
next
  fix s
  assume "slot_of (ai_try_block loads outcome ms) ''date'' = JStr s"
  from slot_of_str_sanitized[OF this] show "\<not> found time_only_pattern (lower s)"
    using sanitize_value_date by blast
next
  fix s
  assume a: "slot_of (ai_try_block loads outcome ms) ''time'' = JStr s"
  from slot_of_str_sanitized[OF a] obtain v where v: "sanitize_value ''time'' v = Inr (JStr s)"
    by blast
  from sanitize_value_time[OF v] show "\<not> found month_word_pattern (lower s)" by simp
  from sanitize_value_time[OF v] show "\<not> found iso_date_pattern s" by simp
  assume "list_ex (\<lambda>phrase. contains phrase (lower s)) flexible_phrases"
  with sanitize_value_time[OF v] show "s = ''first available''" by simp
next
  fix c d key
  assume "outcome = AgentContent c \<and> loads (json_text c) = Inr (JDict d) \<and>
          (\<forall>kv \<in> set d. plain (snd kv))"
  then show "slot_of (ai_try_block loads outcome ms) key =
         (case map_of d key of None \<Rightarrow> JNull | Some v \<Rightarrow> sanitized key v)"
    using dict_path[of loads c d ms key] by simp
next
  fix key s
  assume "lower s \<in> set null_words"
  then show "sanitized key (JStr s) = JNull"
    by (simp add: sanitized_def sanitize_positive(1))
next
  fix s
  assume "found time_only_pattern (lower s)"
  then show "sanitized ''date'' (JStr s) = JNull"
    by (simp add: sanitized_def sanitize_positive(2))
next
  fix s
  assume "found month_word_pattern (lower s) \<or> found iso_date_pattern s"
  then show "sanitized ''time'' (JStr s) = JNull"
    by (simp add: sanitized_def sanitize_positive(3))
next
  fix s
  assume "lower s \<notin> set null_words \<and> \<not> found month_word_pattern (lower s) \<and>
       \<not> found iso_date_pattern s \<and> list_ex (\<lambda>p. contains p (lower s)) flexible_phrases"
  then show "sanitized ''time'' (JStr s) = JStr ''first available''"
    by (simp add: sanitized_def sanitize_positive(4))
next
  assume "outcome = AgentRaised"
  then show "ai_try_block loads outcome ms = Slots (all_null ms)"
    by (simp add: failure_paths(1))
next
  fix c e
  assume "outcome = AgentContent c \<and> loads (json_text c) = Inl e \<and> e \<noteq> JSONDecodeError"
  then show "ai_try_block loads outcome ms = Slots (all_null ms)"
    by (simp add: failure_paths(2))
next
  fix c key
  assume "outcome = AgentContent c \<and> loads (json_text c) = Inl JSONDecodeError" "key \<in> set ms"
  then show "sanitize_value key (regex_fallback_value (json_text c) key) =
          Inr (slot_of (ai_try_block loads outcome ms) key)"
    using fallback_path[of loads c key ms] by simp
qed

lemma try_block_decode_error:
  "ai_try_block loads_rejecting (AgentContent prose_reply) [''person''] = Slots [(''person'', JStr ''John'')]"
  by code_simp

lemma example_field_raises: "example_field = Inl ValueError"
  by code_simp

lemma merge_ai_unchanged: "merge_ai E locked message_text ms ctx = ctx"
  by (simp add: merge_ai_def extract_entities_with_ai_def example_field_raises)

text \<open>
  Claim C7. The prompt is built by an f-string whose JSON example stands in single braces; the
  example is read as a replacement field, and its format specification is none that a string
  accepts. The function therefore raises \<^verbatim>\<open>ValueError\<close> on every call, before the \<^verbatim>\<open>try\<close>
  statement is entered: for every decoder, every reply of the boundary call and every list of
  slots no slot is sanitised and the handler that answers with all slots null is not reached.
  The caller's own handler catches the error, and the context is left as it was.
\<close>

theorem ai_extraction_prompt_raises:
  "example_field = Inl ValueError \<and>
   extract_entities_with_ai loads outcome ms = Inl ValueError \<and>
   merge_ai E locked message_text ms ctx = ctx"
  by (simp add: example_field_raises extract_entities_with_ai_def merge_ai_def)

section \<open>Facts about contexts and the completion marks\<close>

lemma dict_get_dict_set: "dict_get (dict_set c k v) k' = (if k' = k then Some v else dict_get c k')"
  by (simp add: dict_get_def map_of_dict_set)

lemma dict_get_dict_pop: "dict_get (dict_pop c k) k' = (if k' = k then None else dict_get c k')"
  unfolding dict_get_def dict_pop_def by (induction c) auto

lemma get_dict_set: "get (dict_set c k v) k' = (if k' = k then v else get c k')"
  by (simp add: get_def dict_get_dict_set)


lemma has_key_dict_set: "has_key (dict_set c k v) k' = (k' = k \<or> has_key c k')"
  by (simp add: has_key_def dict_get_dict_set)

lemma has_key_dict_pop: "has_key (dict_pop c k) k' = (k' \<noteq> k \<and> has_key c k')"
  by (simp add: has_key_def dict_get_dict_pop)

lemma present_dict_set: "present (dict_set c k v) k' = (if k' = k then truthy v else present c k')"
  by (simp add: present_def get_dict_set)


lemma map_sum_pair: "map_sum id (\<lambda>r. (r, c)) x = Inr (r, c') \<Longrightarrow> c' = c"
  by (cases x) auto

lemma answer_phase: "answer c ps = Inr (r, c') \<Longrightarrow> c' = c"
  unfolding answer_def by (rule map_sum_pair)











section \<open>A pattern is not found where its words are missing\<close>

lemma contains_iff: "contains l s = (\<exists>u v. s = u @ l @ v)"
proof (induction s)
  case Nil
  then show ?case by auto
next
  case (Cons a s)
  show ?case
  proof
    assume "contains l (a # s)"
    then consider "prefix l (a # s)" | "contains l s" by auto
    then show "\<exists>u v. a # s = u @ l @ v"
    proof cases
      case 1
      then obtain v where "a # s = l @ v" by (auto simp: prefix_def)
      then have "a # s = [] @ l @ v" by simp
      then show ?thesis by blast
    next
      case 2
      with Cons obtain u v where "s = u @ l @ v" by blast
      then have "a # s = (a # u) @ l @ v" by simp
      then show ?thesis by blast
    qed
  next
    assume "\<exists>u v. a # s = u @ l @ v"
    then obtain u v where uv: "a # s = u @ l @ v" by blast
    show "contains l (a # s)"
    proof (cases u)
      case Nil
      with uv have "prefix l (a # s)" by (simp add: prefix_def)
      then show ?thesis by simp
    next
      case (Cons b u')
      with uv have "s = u' @ l @ v" by simp
      with Cons.IH have "contains l s" by blast
      then show ?thesis by simp
    qed
  qed
qed

lemma req_ok_mono: "req_ok q u \<Longrightarrow> req_ok q (a @ u @ b)"
proof (induction q)
  case (ROr q1 q2)
  then show ?case by auto
next
  case (RLit l)
  let ?q = "RLit l"
  have RLit: "?q = RLit l" by simp
  from RLit.prems obtain x y where "u = x @ l @ y" by (auto simp: contains_iff)
  then have "a @ u @ b = (a @ x) @ l @ (y @ b)" by simp
  then have "contains l (a @ u @ b)" unfolding contains_iff by blast
  then show ?case by simp
next
  case (RCls cs)
  then show ?case by (auto simp: list_ex_iff)
qed

lemma star_greedy_consumed:
  assumes "\<And>s s'. s' \<in> set (f s) \<Longrightarrow> \<exists>u. consumed s s' u"
  shows "st' \<in> set (star_greedy k f st) \<Longrightarrow> \<exists>u. consumed st st' u"
proof (induction k arbitrary: st)
  case 0
  then show ?case by (auto simp: consumed_def)
next
  case (Suc k)
  from Suc.prems consider "st' = st"
    | s where "s \<in> set (f st)" "st' \<in> set (star_greedy k f s)"
    by (auto split: if_splits)
  then show ?case
  proof cases
    case 1
    then show ?thesis by (auto simp: consumed_def)
  next
    case 2
    from assms[OF 2(1)] obtain u1 where u1: "consumed st s u1" by blast
    from Suc.IH[OF 2(2)] obtain u2 where u2: "consumed s st' u2" by blast
    from u1 u2 have "consumed st st' (u1 @ u2)" by (auto simp: consumed_def)
    then show ?thesis by blast
  qed
qed

lemma star_lazy_consumed:
  assumes "\<And>s s'. s' \<in> set (f s) \<Longrightarrow> \<exists>u. consumed s s' u"
  shows "st' \<in> set (star_lazy k f st) \<Longrightarrow> \<exists>u. consumed st st' u"
proof (induction k arbitrary: st)
  case 0
  then show ?case by (auto simp: consumed_def)
next
  case (Suc k)
  from Suc.prems consider "st' = st"
    | s where "s \<in> set (f st)" "st' \<in> set (star_lazy k f s)"
    by (auto split: if_splits)
  then show ?case
  proof cases
    case 1
    then show ?thesis by (auto simp: consumed_def)
  next
    case 2
    from assms[OF 2(1)] obtain u1 where u1: "consumed st s u1" by blast
    from Suc.IH[OF 2(2)] obtain u2 where u2: "consumed s st' u2" by blast
    from u1 u2 have "consumed st st' (u1 @ u2)" by (auto simp: consumed_def)
    then show ?thesis by blast
  qed
qed

lemma matches_consumed:
  "st' \<in> set (matches r st) \<Longrightarrow> \<exists>u. consumed st st' u \<and> (\<forall>q \<in> set (reqs r). req_ok q u)"
proof (induction r arbitrary: st st')
  case Eps
  then show ?case by (auto simp: consumed_def)
next
  case (Sym cs)
  obtain p t c where st: "st = (p, t, c)" by (cases st)
  from Sym st obtain x xs where "t = x # xs" "cset_mem cs x" "st' = (x # p, xs, c)"
    by (auto split: list.splits if_splits)
  then have "consumed st st' [x] \<and> (\<forall>q \<in> set (reqs (Sym cs)). req_ok q [x])"
    using st by (simp add: consumed_def)
  then show ?case by blast
next
  case (Lit l)
  obtain p t c where st: "st = (p, t, c)" by (cases st)
  from Lit st have pl: "prefix l t" and s': "st' = (rev l @ p, drop (length l) t, c)"
    by (auto split: if_splits)
  from pl obtain v where "t = l @ v" by (auto simp: prefix_def)
  then have "consumed st st' l" using st s' by (simp add: consumed_def)
  moreover have "contains l l" unfolding contains_iff by (rule exI[of _ "[]"], rule exI[of _ "[]"]) simp
  ultimately show ?case by auto
next
  case (Seq a b)
  from Seq.prems obtain s where s: "s \<in> set (matches a st)" "st' \<in> set (matches b s)" by auto
  from Seq.IH(1)[OF s(1)] obtain u1 where u1: "consumed st s u1" "\<forall>q \<in> set (reqs a). req_ok q u1"
    by blast
  from Seq.IH(2)[OF s(2)] obtain u2 where u2: "consumed s st' u2" "\<forall>q \<in> set (reqs b). req_ok q u2"
    by blast
  have c: "consumed st st' (u1 @ u2)" using u1(1) u2(1) by (auto simp: consumed_def)
  have "\<forall>q \<in> set (reqs a). req_ok q (u1 @ u2)"
    using u1(2) req_ok_mono[of _ u1 "[]" u2] by simp
  moreover have "\<forall>q \<in> set (reqs b). req_ok q (u1 @ u2)"
    using u2(2) req_ok_mono[of _ u2 u1 "[]"] by simp
  ultimately show ?case using c by auto
next
  case (Alt a b)
  from Alt.prems have "st' \<in> set (matches a st) \<or> st' \<in> set (matches b st)" by simp
  then obtain u where u: "consumed st st' u"
    "(\<forall>q \<in> set (reqs a). req_ok q u) \<or> (\<forall>q \<in> set (reqs b). req_ok q u)"
    using Alt.IH by blast
  have "\<forall>q \<in> set (reqs (Alt a b)). req_ok q u"
  proof (cases "reqs a")
    case Nil
    then show ?thesis by simp
  next
    case ca: (Cons qa ra)
    show ?thesis
    proof (cases "reqs b")
      case Nil
      then show ?thesis using ca by simp
    next
      case cb: (Cons qb rb)
      from u(2) ca cb have "req_ok qa u \<or> req_ok qb u" by auto
      then show ?thesis using ca cb by simp
    qed
  qed
  with u(1) show ?case by blast
next
  case (Star r)
  obtain p t c where st: "st = (p, t, c)" by (cases st)
  have fr: "\<And>s s'. s' \<in> set (matches r s) \<Longrightarrow> \<exists>u. consumed s s' u"
    using Star.IH by blast
  have "st' \<in> set (star_greedy (length t) (\<lambda>s. matches r s) st)"
    using Star.prems unfolding st by simp
  from star_greedy_consumed[of "\<lambda>s. matches r s", OF fr this] show ?case by simp
next
  case (StarLazy r)
  obtain p t c where st: "st = (p, t, c)" by (cases st)
  have fr: "\<And>s s'. s' \<in> set (matches r s) \<Longrightarrow> \<exists>u. consumed s s' u"
    using StarLazy.IH by blast
  have "st' \<in> set (star_lazy (length t) (\<lambda>s. matches r s) st)"
    using StarLazy.prems unfolding st by simp
  from star_lazy_consumed[of "\<lambda>s. matches r s", OF fr this] show ?case by simp
next
  case (Grp k a)
  obtain p t c where st: "st = (p, t, c)" by (cases st)
  from Grp.prems obtain p' t' c' where s: "(p', t', c') \<in> set (matches a st)"
     "st' = (p', t', (k, take (length t - length t') t) # c')"
    unfolding st by auto
  from Grp.IH[OF s(1)] obtain u where "consumed st (p', t', c') u" "\<forall>q \<in> set (reqs a). req_ok q u"
    by blast
  then have "consumed st st' u \<and> (\<forall>q \<in> set (reqs (Grp k a)). req_ok q u)"
    using s(2) by (simp add: consumed_def)
  then show ?case by blast
next
  case Bol
  then show ?case by (cases st) (auto simp: consumed_def split: if_splits)
next
  case Eol
  then show ?case by (cases st) (auto simp: consumed_def split: if_splits)
next
  case WordB
  then show ?case by (cases st) (auto simp: consumed_def split: if_splits)
qed

lemma search_from_Some_text:
  "search_from re p s = Some m \<Longrightarrow>
     \<exists>p' s'. m \<in> set (matches re (p', s', [])) \<and> rev p' @ s' = rev p @ s"
proof (induction s arbitrary: p)
  case Nil
  then obtain ms where "matches re (p, [], []) = m # ms" by (auto split: list.splits)
  then have "m \<in> set (matches re (p, [], [])) \<and> rev p @ [] = rev p @ []" by simp
  then show ?case by blast
next
  case (Cons x xs)
  show ?case
  proof (cases "matches re (p, x # xs, [])")
    case Nil
    with Cons.prems have "search_from re (x # p) xs = Some m" by simp
    from Cons.IH[OF this] show ?thesis by simp
  next
    case (Cons m' ms)
    with Cons.prems have "m = m'" by simp
    with Cons have "m \<in> set (matches re (p, x # xs, [])) \<and> rev p @ x # xs = rev p @ x # xs" by simp
    then show ?thesis by blast
  qed
qed

lemma found_reqs:
  assumes "found r s" "q \<in> set (reqs r)"
  shows "req_ok q s"
proof -
  from assms(1) obtain m where "search_from r [] s = Some m" by (auto simp: found_def re_search_def)
  from search_from_Some_text[OF this] obtain p' s' where
    m: "m \<in> set (matches r (p', s', []))" and t: "rev p' @ s' = s" by auto
  from matches_consumed[OF m] assms(2) obtain u where u: "consumed (p', s', []) m u" "req_ok q u"
    by blast
  from u(1) have "s' = u @ fst (snd m)" by (simp add: consumed_def)
  with t have "s = rev p' @ u @ fst (snd m)" by simp
  with req_ok_mono[OF u(2)] show ?thesis by simp
qed

lemma not_found_by_req: "q \<in> set (reqs r) \<Longrightarrow> \<not> req_ok q s \<Longrightarrow> \<not> found r s"
  using found_reqs by blast

lemma re_search_None_by_req: "q \<in> set (reqs r) \<Longrightarrow> \<not> req_ok q s \<Longrightarrow> re_search r s = None"
proof -
  assume "q \<in> set (reqs r)" "\<not> req_ok q s"
  then have "\<not> found r s" by (rule not_found_by_req)
  then show ?thesis unfolding found_def by blast
qed

lemma excluded_None: "excluded p s \<Longrightarrow> re_search p s = None"
  unfolding excluded_def list_ex_iff using re_search_None_by_req by blast

lemma excluded_not_found: "excluded p s \<Longrightarrow> \<not> found p s"
  by (simp add: found_def excluded_None)

lemma first_result_all_None: "\<forall>x \<in> set xs. f x = Inr None \<Longrightarrow> first_result (map f xs) = Inr None"
  by (induction xs) auto

lemma date_attempt_excluded: "excluded pat s \<Longrightarrow> date_attempt pat yo m s = Inr None"
  by (simp add: date_attempt_def excluded_None)

lemma extract_date_excluded: "date_excluded (lower t) \<Longrightarrow> extract_date y t = Inr None"
  unfolding extract_date_def
  by (rule first_result_all_None)
     (auto simp: date_excluded_def list_all_iff date_for_month_def date_attempt_excluded)

lemma extract_time_excluded: "time_excluded (lower t) \<Longrightarrow> extract_time t = Inr None"
  by (simp add: time_excluded_def extract_time_def extract_time_hour12_def extract_time_simple_def
                excluded_None Let_def)

lemma weekday_loop_excluded:
  "list_all (\<lambda>dn. excluded (next_day_pattern (fst dn)) s \<and> excluded (this_day_pattern (fst dn)) s \<and>
                   excluded (just_day_pattern (fst dn)) s) ds \<Longrightarrow> weekday_loop d s ds = None"
  by (induction ds) (auto simp: weekday_step_def Let_def excluded_not_found)

lemma parse_relative_date_excluded:
  "relative_excluded (lower t) \<Longrightarrow> parse_relative_date d fp t = Inr None"
  by (simp add: relative_excluded_def parse_relative_date_def Let_def weekday_loop_excluded
                excluded_None from_date_case_def)

lemma plain_dates_excluded:
  "plain_excluded s \<Longrightarrow> first_result (map (plain_date_attempt y s) date_patterns) = Inr None"
  by (rule first_result_all_None)
     (auto simp: plain_excluded_def list_all_iff plain_date_attempt_def excluded_None)

lemma enhance_no_date:
  assumes "no_date_in t" "extract_time t = Inr tm"
  shows "enhance_entity_extraction E t = Inr \<lparr>e_person = entity_person t, e_date = None, e_time = nonempty tm\<rparr>"
  using assms
  by (simp add: no_date_in_def enhance_entity_extraction_def extractor_entities_def Let_def
                extract_date_excluded parse_relative_date_excluded plain_dates_excluded excluded_None
                nonempty_def)

lemma enhance_tomorrow:
  assumes "date_excluded (lower t)" "contains ''tomorrow'' (lower t)"
    "add_days (env_today E) 1 = Inr d" "extract_time t = Inr tm"
  shows "enhance_entity_extraction E t =
           Inr \<lparr>e_person = entity_person t, e_date = Some (format_date_for_display d), e_time = nonempty tm\<rparr>"
  using assms
  by (simp add: enhance_entity_extraction_def extractor_entities_def Let_def
                extract_date_excluded parse_relative_date_def nonempty_def)

lemma any_found_excluded: "list_all (\<lambda>p. excluded p s) ps \<Longrightarrow> \<not> any_found ps s"
  by (auto simp: any_found_def list_all_iff list_ex_iff excluded_not_found)

lemma identify_intent_unknown: "intent_excluded (lower t) \<Longrightarrow> identify_intent t = ''unknown''"
  by (simp add: intent_excluded_def identify_intent_def Let_def any_found_excluded)

lemma entity_person_no_leads:
  "leads_excluded (lower t) \<Longrightarrow>
   entity_person t =
     (if length (split t) = 1 \<and> name_word (lower (hd (split t))) then Some (capitalize (hd (split t)))
      else person_by_words (split t))"
  by (simp add: leads_excluded_def entity_person_def Let_def person_by_pattern_def excluded_None or_else_def)

section \<open>A scheduling conversation\<close>

text \<open>What the extractors find in the four utterances.\<close>

lemma john_intent: "intent_excluded (lower ''John'')" by code_simp

lemma john_nodate: "no_date_in ''John''" by code_simp

lemma john_notime: "time_excluded (lower ''John'')" by code_simp

lemma john_person: "entity_person ''John'' = Some ''John''" by code_simp

lemma john_kept: "\<not> rejected_name ''John'' ''John''" by code_simp

lemma tomorrow_date: "date_excluded (lower ''tomorrow'') \<and> contains ''tomorrow'' (lower ''tomorrow'')" by code_simp

lemma tomorrow_notime: "time_excluded (lower ''tomorrow'')" by code_simp

lemma tomorrow_person: "entity_person ''tomorrow'' = None" by code_simp

lemma tomorrow_intent: "intent_excluded (lower ''tomorrow'')" by code_simp

lemma pm_nodate: "no_date_in ''3pm''" by code_simp

lemma pm_time: "extract_time ''3pm'' = Inr (Some ''15:00'')" by code_simp

lemma pm_person: "entity_person ''3pm'' = Some ''3pm'' \<and> rejected_name ''3pm'' ''3pm''" by code_simp

lemma pm_intent: "intent_excluded (lower ''3pm'')" by code_simp

lemma yes_nodate: "no_date_in ''yes''" by code_simp

lemma yes_notime: "time_excluded (lower ''yes'')" by code_simp

lemma yes_person: "entity_person ''yes'' = Some ''Yes'' \<and> rejected_name ''yes'' ''Yes''" by code_simp

lemma yes_intent: "intent_excluded (lower ''yes'')" by code_simp

lemma name_reply_phase:
  "get ctx ''phase'' \<notin> set [JStr ''asking_person'', JStr ''asking_person_cancel'', JStr ''asking_person_check'']
     \<Longrightarrow> \<not> name_reply t ctx ms"
  by (simp add: name_reply_def)

lemma format_date_nonempty: "format_date_for_display d \<noteq> []"
  by (simp add: format_date_for_display_def)

lemmas ctx_defs = dict_get_def has_key_def get_def get_default_def present_def dict_pop_def
  lacking_def given_def

lemma entities_john:
  "extract_entities E ''John'' = Inr \<lparr>e_person = Some ''John'', e_date = None, e_time = None\<rparr>"
  using enhance_no_date[OF john_nodate extract_time_excluded[OF john_notime], of E] john_person john_kept
  by (simp add: extract_entities_def nonempty_def)

lemma lower_john: "lower ''John'' = ''john''" by code_simp

lemma quiet_john: "\<not> any_in cancel_current_patterns (lower ''John'')" by code_simp

lemma merged_john:
  "merged_context E ''John'' schedule_start =
           Inr [(''intent'', JStr ''schedule_appointment''), (''phase'', JStr ''init''),
                (''person'', JStr ''John'')]"
  unfolding merged_context_def Let_def
  by (simp add: entities_john schedule_start_def settle_intent_def identify_intent_unknown[OF john_intent]
        appointment_intents_def missing_slots_def ctx_defs name_reply_phase merge_entities_def
        merge_slot_def merge_ai_unchanged person_locked_def lower_john)

lemmas machine_defs = process_appointment_intent_def Let_def init_block_def phase_block_def answer_def
  confirming_block_def finish_def mark_completed_def schedule_confirm_pieces_def ask_time_pieces_def

lemma machine_john:
  "process_appointment_intent now ''John''
     [(''intent'', JStr ''schedule_appointment''), (''phase'', JStr ''init''), (''person'', JStr ''John'')] =
   Inr (''What day would you like to schedule with John?'',
        [(''intent'', JStr ''schedule_appointment''), (''phase'', JStr ''asking_date''),
         (''person'', JStr ''John'')])"
  by (simp add: machine_defs ctx_defs)

lemma turn_john:
  "handle_appointment_query E ''John'' schedule_start =
   Inr (''What day would you like to schedule with John?'',
        [(''intent'', JStr ''schedule_appointment''), (''phase'', JStr ''asking_date''),
         (''person'', JStr ''John'')])"
  by (simp add: handle_appointment_query_def merged_john machine_john)

lemma entities_tomorrow:
  assumes "add_days (env_today E) 1 = Inr d"
  shows "extract_entities E ''tomorrow'' =
           Inr \<lparr>e_person = None, e_date = Some (format_date_for_display d), e_time = None\<rparr>"
  using enhance_tomorrow[OF conjunct1[OF tomorrow_date] conjunct2[OF tomorrow_date] assms
          extract_time_excluded[OF tomorrow_notime]] tomorrow_person
  by (simp add: extract_entities_def nonempty_def)

lemma quiet_tomorrow: "\<not> any_in cancel_current_patterns (lower ''tomorrow'')" by code_simp

lemma merged_tomorrow:
  assumes "add_days (env_today E) 1 = Inr d"
  shows "merged_context E ''tomorrow''
           [(''intent'', JStr ''schedule_appointment''), (''phase'', JStr ''asking_date''),
            (''person'', JStr ''John'')] =
         Inr [(''intent'', JStr ''schedule_appointment''), (''phase'', JStr ''asking_date''),
              (''person'', JStr ''John''), (''date'', JStr (format_date_for_display d))]"
  unfolding merged_context_def Let_def
  by (simp add: entities_tomorrow[OF assms] settle_intent_def identify_intent_unknown[OF tomorrow_intent]
        appointment_intents_def missing_slots_def ctx_defs name_reply_phase merge_entities_def
        merge_slot_def merge_ai_unchanged person_locked_def format_date_nonempty)

lemma machine_tomorrow:
  "process_appointment_intent now ''tomorrow''
     [(''intent'', JStr ''schedule_appointment''), (''phase'', JStr ''asking_date''),
      (''person'', JStr ''John''), (''date'', JStr (format_date_for_display d))] =
   Inr (''What time would you like for your appointment with John on '' @ format_date_for_display d @ ''?'',
        [(''intent'', JStr ''schedule_appointment''), (''phase'', JStr ''asking_time''),
         (''person'', JStr ''John''), (''date'', JStr (format_date_for_display d))])"
  by (simp add: machine_defs ctx_defs quiet_tomorrow format_date_nonempty)

lemma entities_3pm:
  "extract_entities E ''3pm'' = Inr \<lparr>e_person = None, e_date = None, e_time = Some ''15:00''\<rparr>"
  using enhance_no_date[OF pm_nodate pm_time, of E] pm_person
  by (simp add: extract_entities_def nonempty_def)

lemma quiet_3pm: "\<not> any_in cancel_current_patterns (lower ''3pm'')" by code_simp

lemma merged_3pm:
  "merged_context E ''3pm''
     [(''intent'', JStr ''schedule_appointment''), (''phase'', JStr ''asking_time''),
      (''person'', JStr ''John''), (''date'', JStr (format_date_for_display d))] =
   Inr [(''intent'', JStr ''schedule_appointment''), (''phase'', JStr ''asking_time''),
        (''person'', JStr ''John''), (''date'', JStr (format_date_for_display d)),
        (''time'', JStr ''15:00'')]"
  unfolding merged_context_def Let_def
  by (simp add: entities_3pm settle_intent_def identify_intent_unknown[OF pm_intent]
        appointment_intents_def missing_slots_def ctx_defs name_reply_phase merge_entities_def
        merge_slot_def merge_ai_unchanged person_locked_def format_date_nonempty)

lemma machine_3pm:
  "process_appointment_intent now ''3pm''
     [(''intent'', JStr ''schedule_appointment''), (''phase'', JStr ''asking_time''),
      (''person'', JStr ''John''), (''date'', JStr (format_date_for_display d)),
      (''time'', JStr ''15:00'')] =
   Inr (''I'' @ apostrophe @ ''ll schedule your appointment with John on '' @ format_date_for_display d @
        '' at 15:00. Is that correct?'',
        [(''intent'', JStr ''schedule_appointment''), (''phase'', JStr ''confirming''),
         (''person'', JStr ''John''), (''date'', JStr (format_date_for_display d)),
         (''time'', JStr ''15:00'')])"
  by (simp add: machine_defs ctx_defs quiet_3pm format_date_nonempty)

lemma entities_yes:
  "extract_entities E ''yes'' = Inr \<lparr>e_person = None, e_date = None, e_time = None\<rparr>"
  using enhance_no_date[OF yes_nodate extract_time_excluded[OF yes_notime], of E] yes_person
  by (simp add: extract_entities_def nonempty_def)

lemma quiet_yes: "\<not> any_in cancel_current_patterns (lower ''yes'') \<and> contains ''yes'' (lower ''yes'')"
  by code_simp

lemma merged_yes:
  "merged_context E ''yes''
     [(''intent'', JStr ''schedule_appointment''), (''phase'', JStr ''confirming''),
      (''person'', JStr ''John''), (''date'', JStr (format_date_for_display d)),
      (''time'', JStr ''15:00'')] =
   Inr [(''intent'', JStr ''schedule_appointment''), (''phase'', JStr ''confirming''),
        (''person'', JStr ''John''), (''date'', JStr (format_date_for_display d)),
        (''time'', JStr ''15:00'')]"
  unfolding merged_context_def Let_def
  by (simp add: entities_yes settle_intent_def identify_intent_unknown[OF yes_intent]
        appointment_intents_def missing_slots_def ctx_defs name_reply_phase merge_entities_def
        merge_slot_def merge_ai_unchanged person_locked_def format_date_nonempty)

lemma machine_yes:
  "process_appointment_intent now ''yes''
     [(''intent'', JStr ''schedule_appointment''), (''phase'', JStr ''confirming''),
      (''person'', JStr ''John''), (''date'', JStr (format_date_for_display d)),
      (''time'', JStr ''15:00'')] =
   Inr (''Great! Your appointment with John has been scheduled for '' @ format_date_for_display d @
        '' at 15:00.'',
        [(''intent'', JStr ''schedule_appointment''), (''phase'', JStr ''completed''),
         (''person'', JStr ''John''), (''date'', JStr (format_date_for_display d)),
         (''time'', JStr ''15:00''), (''appointment_completed_at'', JStr now),
         (''ready_for_new_topic'', py_True)])"
  by (simp add: machine_defs ctx_defs quiet_yes format_date_nonempty)

lemma tomorrow_quiet_env:
  "add_days (env_today quiet_env) 1 = Inr \<lparr>year = 2026, month = 11, day = 5\<rparr>"
  by code_simp

lemma display_tomorrow:
  "format_date_for_display \<lparr>year = 2026, month = 11, day = 5\<rparr> = ''Thursday, November 05, 2026''"
  by code_simp

text \<open>
  Claim C1, as amended. From the context with the intent \<^verbatim>\<open>schedule_appointment\<close>, the phase
  \<^verbatim>\<open>init\<close> and no slot, the turns \<open>John\<close>, \<open>tomorrow\<close>, \<open>3pm\<close> and \<open>yes\<close>, each handled by
  \<^verbatim>\<open>handle_appointment_query\<close> on the context the turn before left, end in the phase
  \<^verbatim>\<open>completed\<close> with the intent \<^verbatim>\<open>schedule_appointment\<close>, the person \<open>John\<close>, the date of
  tomorrow as \<^verbatim>\<open>format_date_for_display\<close> writes it, the time \<open>15:00\<close> and the two completion
  marks, for every environment in which tomorrow is a date. The confirming turn calls the
  persistence layer not once: the call of \<^verbatim>\<open>add_appointment\<close> is a comment in the source.
\<close>

theorem schedule_conversation:
  assumes "add_days (env_today E) 1 = Inr d"
  shows "run_turns E [''John'', ''tomorrow'', ''3pm'', ''yes''] schedule_start =
           Inr [(''intent'', JStr ''schedule_appointment''), (''phase'', JStr ''completed''),
                (''person'', JStr ''John''), (''date'', JStr (format_date_for_display d)),
                (''time'', JStr ''15:00''), (''appointment_completed_at'', JStr (env_now E)),
                (''ready_for_new_topic'', py_True)] \<and>
         persistence_calls (env_now E) ''yes''
           [(''intent'', JStr ''schedule_appointment''), (''phase'', JStr ''confirming''),
            (''person'', JStr ''John''), (''date'', JStr (format_date_for_display d)),
            (''time'', JStr ''15:00'')] = []"
  by (simp add: handle_appointment_query_def merged_john machine_john
        merged_tomorrow[OF assms] machine_tomorrow merged_3pm machine_3pm merged_yes machine_yes
        persistence_calls_def)

text \<open>The conversation on Wednesday, 4 November 2026.\<close>

theorem schedule_conversation_witness:
  "add_days (env_today quiet_env) 1 = Inr \<lparr>year = 2026, month = 11, day = 5\<rparr> \<and>
   run_turns quiet_env [''John'', ''tomorrow'', ''3pm'', ''yes''] schedule_start =
     Inr [(''intent'', JStr ''schedule_appointment''), (''phase'', JStr ''completed''),
          (''person'', JStr ''John''), (''date'', JStr ''Thursday, November 05, 2026''),
          (''time'', JStr ''15:00''), (''appointment_completed_at'', JStr ''2026-11-04T10:00:00''),
          (''ready_for_new_topic'', py_True)]"
  using schedule_conversation[of quiet_env "\<lparr>year = 2026, month = 11, day = 5\<rparr>"]
    tomorrow_quiet_env display_tomorrow
  by (simp add: quiet_env_def)

text \<open>
  Claim C1 as stated fails: the turn that confirms the appointment ends in \<^verbatim>\<open>completed\<close> and
  the number of calls of the persistence layer is not one.
\<close>

theorem schedule_without_persistence:
  "process_appointment_intent ''2026-11-04T10:00:00'' ''yes'' confirming_john =
     Inr (''Great! Your appointment with John has been scheduled for Thursday, November 05, 2026 at 15:00.'',
          [(''intent'', JStr ''schedule_appointment''), (''phase'', JStr ''completed''),
           (''person'', JStr ''John''), (''date'', JStr ''Thursday, November 05, 2026''),
           (''time'', JStr ''15:00''), (''appointment_completed_at'', JStr ''2026-11-04T10:00:00''),
           (''ready_for_new_topic'', py_True)]) \<and>
   length (persistence_calls ''2026-11-04T10:00:00'' ''yes'' confirming_john) \<noteq> 1"
  using machine_yes[of "''2026-11-04T10:00:00''" "\<lparr>year = 2026, month = 11, day = 5\<rparr>"] display_tomorrow
  by (simp add: confirming_john_def persistence_calls_def)

section \<open>The person of the context is kept\<close>















section \<open>A time chosen from the availability shown\<close>

lemma works2_nodate: "no_date_in ''2:00 pm works''" by code_simp

lemma works2_time: "extract_time ''2:00 pm works'' = Inr (Some ''14:00'')" by code_simp

lemma works2_person:
  "entity_person ''2:00 pm works'' = Some ''Works'' \<and> \<not> rejected_name ''2:00 pm works'' ''Works''"
  by code_simp

lemma works2_intent: "intent_excluded (lower ''2:00 pm works'')" by code_simp

lemma works2_quiet: "\<not> any_in cancel_current_patterns (lower ''2:00 pm works'')" by code_simp

lemma entities_works2:
  "extract_entities E ''2:00 pm works'' =
     Inr \<lparr>e_person = Some ''Works'', e_date = None, e_time = Some ''14:00''\<rparr>"
  using enhance_no_date[OF works2_nodate works2_time, of E] works2_person
  by (simp add: extract_entities_def nonempty_def)

lemma merged_works2:
  "merged_context E ''2:00 pm works'' availability_smith =
     Inr (availability_smith @ [(''time'', JStr ''14:00'')])"
  unfolding merged_context_def Let_def
  by (simp add: entities_works2 availability_smith_def settle_intent_def
        identify_intent_unknown[OF works2_intent] appointment_intents_def missing_slots_def ctx_defs
        name_reply_phase merge_entities_def merge_slot_def merge_ai_unchanged
        person_locked_def person_asking_phases_def)

lemma machine_works2:
  "process_appointment_intent now ''2:00 pm works'' availability_smith =
     Inr (''Dr. Smith is available on 2025-06-10 at the following times: '' @ available_times_str,
          availability_smith)"
  by (simp add: process_appointment_intent_def Let_def check_availability_block_def ctx_defs
        works2_quiet availability_smith_def)

lemma machine_works2_time:
  "process_appointment_intent now ''2:00 pm works'' (availability_smith @ [(''time'', JStr ''14:00'')]) =
     Inr (''Dr. Smith is available on 2025-06-10 at the following times: '' @ available_times_str,
          availability_smith @ [(''time'', JStr ''14:00'')])"
  by (simp add: process_appointment_intent_def Let_def check_availability_block_def ctx_defs
        works2_quiet availability_smith_def)

lemma turn_works2:
  "handle_appointment_query E ''2:00 pm works'' availability_smith =
     Inr (''Dr. Smith is available on 2025-06-10 at the following times: '' @ available_times_str,
          availability_smith @ [(''time'', JStr ''14:00'')])"
  by (simp only: handle_appointment_query_def merged_works2 sum.case machine_works2_time)

lemma works2_no_time_word: "\<not> contains ''time'' (lower ''2:00 pm works'')"
  by code_simp

lemma machine_works2_scheduling:
  "process_appointment_intent now ''2:00 pm works'' scheduling_smith =
     Inr (''I'' @ apostrophe @ ''m not sure what you want to do with your appointment. Can you please be more specific?'',
          scheduling_smith)"
  by (simp add: process_appointment_intent_def Let_def phase_block_def finish_def ctx_defs
        works2_quiet works2_no_time_word scheduling_smith_def)

text \<open>
  Claim C3 fails on the code. In the phase \<^verbatim>\<open>showing_availability\<close> with the person
  \<open>Dr. Smith\<close> and the date \<open>2025-06-10\<close>, the reply \<open>2:00 pm works\<close> is answered with the list
  of times once more: the intent stays \<^verbatim>\<open>check_availability\<close> and the phase
  \<^verbatim>\<open>showing_availability\<close>, in the state machine alone and in the whole turn, where the
  extractor has put the time \<open>14:00\<close> into the context. The branch of lines 874 to 894 is not
  reached, the intent \<^verbatim>\<open>check_availability\<close> having returned at line 767; and with the intent
  \<^verbatim>\<open>schedule_appointment\<close> in its place the branch is passed over all the same, the reply
  not holding the word \<open>time\<close>.
\<close>

theorem availability_reply_stays:
  "process_appointment_intent now ''2:00 pm works'' availability_smith =
     Inr (''Dr. Smith is available on 2025-06-10 at the following times: '' @ available_times_str,
          availability_smith) \<and>
   handle_appointment_query E ''2:00 pm works'' availability_smith =
     Inr (''Dr. Smith is available on 2025-06-10 at the following times: '' @ available_times_str,
          availability_smith @ [(''time'', JStr ''14:00'')]) \<and>
   process_appointment_intent now ''2:00 pm works'' scheduling_smith =
     Inr (''I'' @ apostrophe @ ''m not sure what you want to do with your appointment. Can you please be more specific?'',
          scheduling_smith)"
  using machine_works2 turn_works2 machine_works2_scheduling by blast

text \<open>The reply on 4 November 2026.\<close>

theorem availability_reply_stays_witness:
  "process_appointment_intent ''2026-11-04T10:00:00'' ''2:00 pm works'' availability_smith =
     Inr (''Dr. Smith is available on 2025-06-10 at the following times: '' @ available_times_str,
          availability_smith) \<and>
   handle_appointment_query quiet_env ''2:00 pm works'' availability_smith =
     Inr (''Dr. Smith is available on 2025-06-10 at the following times: '' @ available_times_str,
          availability_smith @ [(''time'', JStr ''14:00'')]) \<and>
   process_appointment_intent ''2026-11-04T10:00:00'' ''2:00 pm works'' scheduling_smith =
     Inr (''I'' @ apostrophe @ ''m not sure what you want to do with your appointment. Can you please be more specific?'',
          scheduling_smith)"
  by (rule availability_reply_stays[of "''2026-11-04T10:00:00''" quiet_env])

section \<open>The replies at a confirmation\<close>



















section \<open>After a completed conversation\<close>
























end
